theory Spec2Isabelle
  imports Main "HOL-Library.Sublist"
begin

section \<open>JavaScript values\<close>

text \<open>
  The handlers receive untyped JavaScript values (form fields, event payloads). The four
  shapes that reach the code are modelled; strings are UTF-8 byte lists, so a literal of
  the source that is not ASCII is written as the bytes of its UTF-8 encoding.
\<close>

datatype jsval = JUndefined | JNull | JStr string | JNum int

text \<open>Truthiness, as \<^verbatim>\<open>!x\<close>, \<^verbatim>\<open>x || y\<close> and \<^verbatim>\<open>x && y\<close> test it.\<close>

fun truthy :: "jsval \<Rightarrow> bool" where
  "truthy JUndefined = False"
| "truthy JNull = False"
| "truthy (JStr s) = (s \<noteq> [])"
| "truthy (JNum n) = (n \<noteq> 0)"

definition digit_char :: "nat \<Rightarrow> char" where
  "digit_char d =
     (if d = 0 then CHR ''0'' else if d = 1 then CHR ''1'' else if d = 2 then CHR ''2''
      else if d = 3 then CHR ''3'' else if d = 4 then CHR ''4'' else if d = 5 then CHR ''5''
      else if d = 6 then CHR ''6'' else if d = 7 then CHR ''7'' else if d = 8 then CHR ''8''
      else CHR ''9'')"

fun decimal :: "nat \<Rightarrow> string" where
  "decimal n = (if n < 10 then [digit_char n] else decimal (n div 10) @ [digit_char (n mod 10)])"

declare decimal.simps [simp del]

text \<open>What a template literal \<^verbatim>\<open>${x}\<close> inserts for a value.\<close>

fun js_to_string :: "jsval \<Rightarrow> string" where
  "js_to_string JUndefined = ''undefined''"
| "js_to_string JNull = ''null''"
| "js_to_string (JStr s) = s"
| "js_to_string (JNum n) = (if n < 0 then ''-'' @ decimal (nat (- n)) else decimal (nat n))"

section \<open>The relational store\<close>

text \<open>
  The rows carry the columns the modelled statements read or write. The schema itself is
  not part of the sources; the columns of \<open>notifications\<close> and their defaults follow the
  data model of the specification (\<open>is_read\<close> defaults to false, \<open>created_at\<close> to the
  server time, \<open>id\<close> is assigned by the store).
\<close>

record user_row =
  u_id :: nat
  u_login :: string
  u_name :: string
  u_email :: jsval
  u_role :: string

record recipe_row =
  r_id :: nat
  r_user_id :: "nat option"
  r_title :: string

record step_row =
  st_recipe_id :: nat
  st_step_number :: nat
  st_text :: string

record recipe_category_row =
  rc_recipe_id :: nat
  rc_category_id :: nat

record rating_row =
  rt_recipe_id :: nat
  rt_user_id :: nat
  rt_rating :: jsval

record review_row =
  rv_id :: nat
  rv_recipe_id :: nat
  rv_user_id :: "nat option"
  rv_text :: string

record notification =
  n_id :: nat
  n_user_id :: nat
  n_text :: string
  n_link :: "string option"
  is_read :: bool
  created_at :: nat

record tables =
  users :: "user_row list"
  recipes :: "recipe_row list"
  recipe_steps :: "step_row list"
  recipe_categories :: "recipe_category_row list"
  ratings :: "rating_row list"
  reviews :: "review_row list"
  notifications :: "notification list"
  next_notification_id :: nat

section \<open>Effects: faults, exceptions and the trace\<close>

datatype exn = DbError | DupEntry | FkViolation | TypeError | MailError

record mail =
  m_from :: string
  m_to :: string
  m_subject :: string
  m_text :: string
  m_html :: "string option"

text \<open>
  Every call of a collaborator is recorded in order: a statement sent to the store (its
  SQL text and whether it succeeded), a message handed to the mail transport, and the
  lines written to the console.
\<close>

datatype effect =
    Sql string bool
  | SendMail mail bool
  | ConsoleError string "exn option"
  | ConsoleLog string

text \<open>
  The world a request runs in. \<open>tbl\<close> is the content of the store as the statements see
  and change it. The handlers reach the store through \<^verbatim>\<open>db.query\<close> of a connection pool
  (\<open>part_000\<close>, line 88), which picks a connection for every statement: \<open>pool\<close> names, for
  each statement in turn, the connection that answers it (connection 0 once the list is
  exhausted), and \<open>snapshots c\<close> is the content saved by a \<^verbatim>\<open>START TRANSACTION\<close> that
  connection \<open>c\<close> answered and that is still open, to which a \<^verbatim>\<open>ROLLBACK\<close> answered by
  \<open>c\<close> returns. \<open>faults\<close> is the fault schedule of the collaborators: each call
  of the store or of the mail transport takes the next flag, and fails when it is set; an
  exhausted schedule means no further fault. The last four fields are the environment:
  \<^verbatim>\<open>process.env.SITE_URL\<close>, \<^verbatim>\<open>process.env.EMAIL_FROM\<close>, the date
  \<^verbatim>\<open>new Date().toLocaleDateString('ru-RU')\<close> prints, and the message id the
  transport answers with.
\<close>

record world =
  tbl :: tables
  snapshots :: "nat \<Rightarrow> tables option"
  pool :: "nat list"
  clock :: nat
  faults :: "bool list"
  trace :: "effect list"
  env_site_url :: jsval
  env_email_from :: jsval
  env_today :: string
  env_message_id :: jsval

type_synonym 'a io = "world \<Rightarrow> (exn + 'a) \<times> world"

definition next_fault :: "world \<Rightarrow> bool" where
  "next_fault w = (case faults w of [] \<Rightarrow> False | f # _ \<Rightarrow> f)"

definition consume_fault :: "world \<Rightarrow> world" where
  "consume_fault w = w\<lparr>faults := tl (faults w)\<rparr>"

definition emit :: "effect \<Rightarrow> world \<Rightarrow> world" where
  "emit e w = w\<lparr>trace := trace w @ [e]\<rparr>"

definition return_ok :: "'a \<Rightarrow> 'a io" where
  "return_ok a w = (Inr a, w)"

definition throw :: "exn \<Rightarrow> 'a io" where
  "throw e w = (Inl e, w)"

text \<open>\<^verbatim>\<open>await m; f\<close>: an exception of \<open>m\<close> skips \<open>f\<close>.\<close>

definition and_then :: "'a io \<Rightarrow> ('a \<Rightarrow> 'b io) \<Rightarrow> 'b io" where
  "and_then m f w = (case m w of (Inl e, w') \<Rightarrow> (Inl e, w') | (Inr a, w') \<Rightarrow> f a w')"

text \<open>\<^verbatim>\<open>try { m } catch (err) { h }\<close>.\<close>

definition try_catch :: "'a io \<Rightarrow> (exn \<Rightarrow> 'a io) \<Rightarrow> 'a io" where
  "try_catch m h w = (case m w of (Inl e, w') \<Rightarrow> h e w' | (Inr a, w') \<Rightarrow> (Inr a, w'))"

definition console_error :: "string \<Rightarrow> exn option \<Rightarrow> unit io" where
  "console_error msg err w = (Inr (), emit (ConsoleError msg err) w)"

definition console_log :: "string \<Rightarrow> unit io" where
  "console_log msg w = (Inr (), emit (ConsoleLog msg) w)"

text \<open>The connection that answers the next statement, and the world once it has answered.\<close>

definition next_conn :: "world \<Rightarrow> nat" where
  "next_conn w = (case pool w of [] \<Rightarrow> 0 | c # _ \<Rightarrow> c)"

definition consume_call :: "world \<Rightarrow> world" where
  "consume_call w = (consume_fault w)\<lparr>pool := tl (pool w)\<rparr>"

text \<open>What a statement with meaning \<open>q\<close> changes in a content of the tables.\<close>

definition effect :: "(tables \<Rightarrow> exn + 'a \<times> tables) \<Rightarrow> tables \<Rightarrow> tables" where
  "effect q t = (case q t of Inl _ \<Rightarrow> t | Inr (_, t') \<Rightarrow> t')"

text \<open>
  A statement answered by a connection that has no transaction open is final at once: it
  is applied as well to the content that every open transaction has saved, so that a
  \<^verbatim>\<open>ROLLBACK\<close> on another connection does not undo it. A statement answered by a
  connection inside its transaction leaves the saved contents alone. (Every statement
  sees the changes of every connection: isolation between connections is not modelled,
  and neither is what a \<^verbatim>\<open>COMMIT\<close> means for a second transaction that is open with
  changes of its own; no run considered below has two such transactions.)
\<close>

definition others_see ::
  "nat \<Rightarrow> (tables \<Rightarrow> exn + 'a \<times> tables) \<Rightarrow> (nat \<Rightarrow> tables option) \<Rightarrow> nat \<Rightarrow> tables option" where
  "others_see c q saved =
     (if saved c = None then (\<lambda>c'. map_option (effect q) (saved c')) else saved)"

text \<open>The world after a statement that failed, and after one that gave the tables \<open>t\<close>.\<close>

definition refused :: "string \<Rightarrow> world \<Rightarrow> world" where
  "refused sql w = emit (Sql sql False) (consume_call w)"

definition answered :: "string \<Rightarrow> (tables \<Rightarrow> exn + 'a \<times> tables) \<Rightarrow> tables \<Rightarrow> world \<Rightarrow> world" where
  "answered sql q t w =
     emit (Sql sql True)
       ((consume_call w)\<lparr>tbl := t, snapshots := others_see (next_conn w) q (snapshots w)\<rparr>)"

text \<open>
  \<^verbatim>\<open>await db.query(sql, params)\<close> for a statement that reads or writes rows: \<open>q\<close> is
  the meaning of the statement on the tables. A failed statement changes no row.
\<close>

definition db_query :: "string \<Rightarrow> (tables \<Rightarrow> exn + 'a \<times> tables) \<Rightarrow> 'a io" where
  "db_query sql q w =
     (if next_fault w then (Inl DbError, refused sql w)
      else case q (tbl w) of
        Inl e \<Rightarrow> (Inl e, refused sql w)
      | Inr (a, t) \<Rightarrow> (Inr a, answered sql q t w))"

section \<open>Notification store (\<open>part_000\<close>, lines 98 to 163)\<close>

definition msg_create_failed :: string where
  "msg_create_failed =
     [CHR 0xD0, CHR 0x9E, CHR 0xD1, CHR 0x88, CHR 0xD0, CHR 0xB8, CHR 0xD0, CHR 0xB1]
     @ [CHR 0xD0, CHR 0xBA, CHR 0xD0, CHR 0xB0] @ '' ''
     @ [CHR 0xD0, CHR 0xBF, CHR 0xD1, CHR 0x80, CHR 0xD0, CHR 0xB8] @ '' ''
     @ [CHR 0xD1, CHR 0x81, CHR 0xD0, CHR 0xBE, CHR 0xD0, CHR 0xB7, CHR 0xD0, CHR 0xB4]
     @ [CHR 0xD0, CHR 0xB0, CHR 0xD0, CHR 0xBD, CHR 0xD0, CHR 0xB8, CHR 0xD0, CHR 0xB8]
     @ '' ''
     @ [CHR 0xD1, CHR 0x83, CHR 0xD0, CHR 0xB2, CHR 0xD0, CHR 0xB5, CHR 0xD0, CHR 0xB4]
     @ [CHR 0xD0, CHR 0xBE, CHR 0xD0, CHR 0xBC, CHR 0xD0, CHR 0xBB, CHR 0xD0, CHR 0xB5]
     @ [CHR 0xD0, CHR 0xBD, CHR 0xD0, CHR 0xB8, CHR 0xD1, CHR 0x8F] @ '':''"

definition msg_list_failed :: string where
  "msg_list_failed =
     [CHR 0xD0, CHR 0x9E, CHR 0xD1, CHR 0x88, CHR 0xD0, CHR 0xB8, CHR 0xD0, CHR 0xB1]
     @ [CHR 0xD0, CHR 0xBA, CHR 0xD0, CHR 0xB0] @ '' ''
     @ [CHR 0xD0, CHR 0xBF, CHR 0xD1, CHR 0x80, CHR 0xD0, CHR 0xB8] @ '' ''
     @ [CHR 0xD0, CHR 0xBF, CHR 0xD0, CHR 0xBE, CHR 0xD0, CHR 0xBB, CHR 0xD1, CHR 0x83]
     @ [CHR 0xD1, CHR 0x87, CHR 0xD0, CHR 0xB5, CHR 0xD0, CHR 0xBD, CHR 0xD0, CHR 0xB8]
     @ [CHR 0xD0, CHR 0xB8] @ '' ''
     @ [CHR 0xD1, CHR 0x83, CHR 0xD0, CHR 0xB2, CHR 0xD0, CHR 0xB5, CHR 0xD0, CHR 0xB4]
     @ [CHR 0xD0, CHR 0xBE, CHR 0xD0, CHR 0xBC, CHR 0xD0, CHR 0xBB, CHR 0xD0, CHR 0xB5]
     @ [CHR 0xD0, CHR 0xBD, CHR 0xD0, CHR 0xB8, CHR 0xD0, CHR 0xB9] @ '':''"

definition msg_count_failed :: string where
  "msg_count_failed =
     [CHR 0xD0, CHR 0x9E, CHR 0xD1, CHR 0x88, CHR 0xD0, CHR 0xB8, CHR 0xD0, CHR 0xB1]
     @ [CHR 0xD0, CHR 0xBA, CHR 0xD0, CHR 0xB0] @ '' ''
     @ [CHR 0xD0, CHR 0xBF, CHR 0xD1, CHR 0x80, CHR 0xD0, CHR 0xB8] @ '' ''
     @ [CHR 0xD0, CHR 0xBF, CHR 0xD0, CHR 0xBE, CHR 0xD0, CHR 0xB4, CHR 0xD1, CHR 0x81]
     @ [CHR 0xD1, CHR 0x87, CHR 0xD0, CHR 0xB5, CHR 0xD1, CHR 0x82, CHR 0xD0, CHR 0xB5]
     @ '' ''
     @ [CHR 0xD0, CHR 0xBD, CHR 0xD0, CHR 0xB5, CHR 0xD0, CHR 0xBF, CHR 0xD1, CHR 0x80]
     @ [CHR 0xD0, CHR 0xBE, CHR 0xD1, CHR 0x87, CHR 0xD0, CHR 0xB8, CHR 0xD1, CHR 0x82]
     @ [CHR 0xD0, CHR 0xB0, CHR 0xD0, CHR 0xBD, CHR 0xD0, CHR 0xBD, CHR 0xD1, CHR 0x8B]
     @ [CHR 0xD1, CHR 0x85] @ '':''"

definition msg_mark_failed :: string where
  "msg_mark_failed =
     [CHR 0xD0, CHR 0x9E, CHR 0xD1, CHR 0x88, CHR 0xD0, CHR 0xB8, CHR 0xD0, CHR 0xB1]
     @ [CHR 0xD0, CHR 0xBA, CHR 0xD0, CHR 0xB0] @ '' ''
     @ [CHR 0xD0, CHR 0xBF, CHR 0xD1, CHR 0x80, CHR 0xD0, CHR 0xB8] @ '' ''
     @ [CHR 0xD0, CHR 0xBE, CHR 0xD1, CHR 0x82, CHR 0xD0, CHR 0xBC, CHR 0xD0, CHR 0xB5]
     @ [CHR 0xD1, CHR 0x82, CHR 0xD0, CHR 0xBA, CHR 0xD0, CHR 0xB5] @ '' ''
     @ [CHR 0xD0, CHR 0xBA, CHR 0xD0, CHR 0xB0, CHR 0xD0, CHR 0xBA] @ '' ''
     @ [CHR 0xD0, CHR 0xBF, CHR 0xD1, CHR 0x80, CHR 0xD0, CHR 0xBE, CHR 0xD1, CHR 0x87]
     @ [CHR 0xD0, CHR 0xB8, CHR 0xD1, CHR 0x82, CHR 0xD0, CHR 0xB0, CHR 0xD0, CHR 0xBD]
     @ [CHR 0xD0, CHR 0xBD, CHR 0xD0, CHR 0xBE, CHR 0xD0, CHR 0xB3, CHR 0xD0, CHR 0xBE]
     @ '':''"

definition msg_markall_failed :: string where
  "msg_markall_failed =
     [CHR 0xD0, CHR 0x9E, CHR 0xD1, CHR 0x88, CHR 0xD0, CHR 0xB8, CHR 0xD0, CHR 0xB1]
     @ [CHR 0xD0, CHR 0xBA, CHR 0xD0, CHR 0xB0] @ '' ''
     @ [CHR 0xD0, CHR 0xBF, CHR 0xD1, CHR 0x80, CHR 0xD0, CHR 0xB8] @ '' ''
     @ [CHR 0xD0, CHR 0xBE, CHR 0xD1, CHR 0x82, CHR 0xD0, CHR 0xBC, CHR 0xD0, CHR 0xB5]
     @ [CHR 0xD1, CHR 0x82, CHR 0xD0, CHR 0xBA, CHR 0xD0, CHR 0xB5] @ '' ''
     @ [CHR 0xD0, CHR 0xB2, CHR 0xD1, CHR 0x81, CHR 0xD0, CHR 0xB5, CHR 0xD1, CHR 0x85]
     @ '' '' @ [CHR 0xD0, CHR 0xBA, CHR 0xD0, CHR 0xB0, CHR 0xD0, CHR 0xBA] @ '' ''
     @ [CHR 0xD0, CHR 0xBF, CHR 0xD1, CHR 0x80, CHR 0xD0, CHR 0xBE, CHR 0xD1, CHR 0x87]
     @ [CHR 0xD0, CHR 0xB8, CHR 0xD1, CHR 0x82, CHR 0xD0, CHR 0xB0, CHR 0xD0, CHR 0xBD]
     @ [CHR 0xD0, CHR 0xBD, CHR 0xD1, CHR 0x8B, CHR 0xD1, CHR 0x85] @ '':''"

subsection \<open>The statements\<close>

definition sql_insert_notification_text :: string where
  "sql_insert_notification_text = ''INSERT INTO notifications (user_id, text, link) VALUES (?, ?, ?)''"

text \<open>
  Modelled from the spec: the schema of \<open>notifications\<close> (the table definition is not in
  the sources). The owner is a strict foreign key, so the insert fails when no user has
  the given id (or the id is \<^verbatim>\<open>null\<close>); a new row is unread, takes the server time and
  the next id of the table.
\<close>

definition sql_insert_notification ::
  "nat \<Rightarrow> nat option \<Rightarrow> string \<Rightarrow> string option \<Rightarrow> tables \<Rightarrow> exn + unit \<times> tables" where
  "sql_insert_notification now uid txt lnk t =
     (case uid of
        None \<Rightarrow> Inl FkViolation
      | Some u \<Rightarrow>
          if u \<in> set (map u_id (users t))
          then Inr ((), t\<lparr>notifications := notifications t @
                 [\<lparr>n_id = next_notification_id t, n_user_id = u, n_text = txt, n_link = lnk,
                   is_read = False, created_at = now\<rparr>],
                 next_notification_id := Suc (next_notification_id t)\<rparr>)
          else Inl FkViolation)"

text \<open>
  \<^verbatim>\<open>SELECT * FROM notifications WHERE user_id = ? ORDER BY created_at DESC LIMIT ?\<close>.
  The store rejects a negative limit.
\<close>

definition newest_first :: "notification list \<Rightarrow> notification list" where
  "newest_first ns = rev (sort_key created_at ns)"

definition sql_select_notifications ::
  "nat \<Rightarrow> int \<Rightarrow> tables \<Rightarrow> exn + notification list \<times> tables" where
  "sql_select_notifications uid lim t =
     (if lim < 0 then Inl DbError
      else Inr (take (nat lim) (newest_first (filter (\<lambda>n. n_user_id n = uid) (notifications t))), t))"

text \<open>\<^verbatim>\<open>SELECT COUNT(*) as count FROM notifications WHERE user_id = ? AND is_read = FALSE\<close>\<close>

definition sql_count_unread :: "nat \<Rightarrow> tables \<Rightarrow> exn + nat \<times> tables" where
  "sql_count_unread uid t =
     Inr (length (filter (\<lambda>n. n_user_id n = uid \<and> \<not> is_read n) (notifications t)), t)"

text \<open>\<^verbatim>\<open>UPDATE notifications SET is_read = TRUE WHERE id = ? AND user_id = ?\<close>\<close>

definition sql_mark_read :: "nat \<Rightarrow> nat \<Rightarrow> tables \<Rightarrow> exn + unit \<times> tables" where
  "sql_mark_read nid uid t =
     Inr ((), t\<lparr>notifications :=
       map (\<lambda>n. if n_id n = nid \<and> n_user_id n = uid then n\<lparr>is_read := True\<rparr> else n)
         (notifications t)\<rparr>)"

text \<open>\<^verbatim>\<open>UPDATE notifications SET is_read = TRUE WHERE user_id = ? AND is_read = FALSE\<close>\<close>

definition sql_mark_all_read :: "nat \<Rightarrow> tables \<Rightarrow> exn + unit \<times> tables" where
  "sql_mark_all_read uid t =
     Inr ((), t\<lparr>notifications :=
       map (\<lambda>n. if n_user_id n = uid \<and> \<not> is_read n then n\<lparr>is_read := True\<rparr> else n)
         (notifications t)\<rparr>)"

subsection \<open>The five functions\<close>

definition createNotification :: "nat option \<Rightarrow> string \<Rightarrow> string option \<Rightarrow> unit io" where
  "createNotification userId txt lnk w =
     try_catch
       (db_query sql_insert_notification_text (sql_insert_notification (clock w) userId txt lnk))
       (\<lambda>err. console_error msg_create_failed (Some err)) w"

text \<open>The parameter \<open>limit\<close> is optional and defaults to 10.\<close>

definition getUserNotifications :: "nat \<Rightarrow> int option \<Rightarrow> notification list io" where
  "getUserNotifications userId limit =
     try_catch
       (db_query ''SELECT * FROM notifications WHERE user_id = ? ORDER BY created_at DESC LIMIT ?''
          (sql_select_notifications userId (case limit of None \<Rightarrow> 10 | Some l \<Rightarrow> l)))
       (\<lambda>err. and_then (console_error msg_list_failed (Some err)) (\<lambda>_. return_ok []))"

definition getUnreadCount :: "nat \<Rightarrow> nat io" where
  "getUnreadCount userId =
     try_catch
       (db_query ''SELECT COUNT(*) as count FROM notifications WHERE user_id = ? AND is_read = FALSE''
          (sql_count_unread userId))
       (\<lambda>err. and_then (console_error msg_count_failed (Some err)) (\<lambda>_. return_ok 0))"

definition markAsRead :: "nat \<Rightarrow> nat \<Rightarrow> unit io" where
  "markAsRead notificationId userId =
     try_catch
       (db_query ''UPDATE notifications SET is_read = TRUE WHERE id = ? AND user_id = ?''
          (sql_mark_read notificationId userId))
       (\<lambda>err. console_error msg_mark_failed (Some err))"

definition markAllAsRead :: "nat \<Rightarrow> unit io" where
  "markAllAsRead userId =
     try_catch
       (db_query ''UPDATE notifications SET is_read = TRUE WHERE user_id = ? AND is_read = FALSE''
          (sql_mark_all_read userId))
       (\<lambda>err. console_error msg_markall_failed (Some err))"

section \<open>Requests and responses\<close>

text \<open>
  \<open>req.session.user\<close>, as the login and registration handlers store it, and the
  responses the modelled handlers give: \<^verbatim>\<open>res.status(c).send(body)\<close>,
  \<^verbatim>\<open>res.redirect(url)\<close> and \<^verbatim>\<open>res.render(view, {title, users, message | error})\<close>.
\<close>

record session_user =
  s_id :: nat
  s_name :: string
  s_email :: jsval
  s_role :: string

datatype flash = FlashMessage string | FlashError string

datatype response =
    Send nat string
  | Redirect string
  | Render string string "user_row list" flash

section \<open>Rating a recipe (\<open>part_000\<close>, lines 675 to 713)\<close>

definition msg_auth_only :: string where
  "msg_auth_only =
     [CHR 0xD0, CHR 0xA2, CHR 0xD0, CHR 0xBE, CHR 0xD0, CHR 0xBB, CHR 0xD1, CHR 0x8C]
     @ [CHR 0xD0, CHR 0xBA, CHR 0xD0, CHR 0xBE] @ '' ''
     @ [CHR 0xD0, CHR 0xB4, CHR 0xD0, CHR 0xBB, CHR 0xD1, CHR 0x8F] @ '' ''
     @ [CHR 0xD0, CHR 0xB0, CHR 0xD0, CHR 0xB2, CHR 0xD1, CHR 0x82, CHR 0xD0, CHR 0xBE]
     @ [CHR 0xD1, CHR 0x80, CHR 0xD0, CHR 0xB8, CHR 0xD0, CHR 0xB7, CHR 0xD0, CHR 0xBE]
     @ [CHR 0xD0, CHR 0xB2, CHR 0xD0, CHR 0xB0, CHR 0xD0, CHR 0xBD, CHR 0xD0, CHR 0xBD]
     @ [CHR 0xD1, CHR 0x8B, CHR 0xD1, CHR 0x85]"

definition msg_own_recipe :: string where
  "msg_own_recipe =
     [CHR 0xD0, CHR 0x9D, CHR 0xD0, CHR 0xB5, CHR 0xD0, CHR 0xBB, CHR 0xD1, CHR 0x8C]
     @ [CHR 0xD0, CHR 0xB7, CHR 0xD1, CHR 0x8F] @ '' ''
     @ [CHR 0xD0, CHR 0xBE, CHR 0xD1, CHR 0x86, CHR 0xD0, CHR 0xB5, CHR 0xD0, CHR 0xBD]
     @ [CHR 0xD0, CHR 0xB8, CHR 0xD0, CHR 0xB2, CHR 0xD0, CHR 0xB0, CHR 0xD1, CHR 0x82]
     @ [CHR 0xD1, CHR 0x8C] @ '' ''
     @ [CHR 0xD1, CHR 0x81, CHR 0xD0, CHR 0xB2, CHR 0xD0, CHR 0xBE, CHR 0xD0, CHR 0xB9]
     @ '' ''
     @ [CHR 0xD1, CHR 0x80, CHR 0xD0, CHR 0xB5, CHR 0xD1, CHR 0x86, CHR 0xD0, CHR 0xB5]
     @ [CHR 0xD0, CHR 0xBF, CHR 0xD1, CHR 0x82]"

definition msg_already_rated :: string where
  "msg_already_rated =
     [CHR 0xD0, CHR 0x92, CHR 0xD1, CHR 0x8B] @ '' ''
     @ [CHR 0xD1, CHR 0x83, CHR 0xD0, CHR 0xB6, CHR 0xD0, CHR 0xB5] @ '' ''
     @ [CHR 0xD0, CHR 0xBE, CHR 0xD1, CHR 0x86, CHR 0xD0, CHR 0xB5, CHR 0xD0, CHR 0xBD]
     @ [CHR 0xD0, CHR 0xB8, CHR 0xD0, CHR 0xBB, CHR 0xD0, CHR 0xB8] @ '' ''
     @ [CHR 0xD1, CHR 0x8D, CHR 0xD1, CHR 0x82, CHR 0xD0, CHR 0xBE, CHR 0xD1, CHR 0x82]
     @ '' ''
     @ [CHR 0xD1, CHR 0x80, CHR 0xD0, CHR 0xB5, CHR 0xD1, CHR 0x86, CHR 0xD0, CHR 0xB5]
     @ [CHR 0xD0, CHR 0xBF, CHR 0xD1, CHR 0x82]"

text \<open>The text of the notification (line 703). Holes: \<^verbatim>\<open>user.name\<close>, \<^verbatim>\<open>recipe.title\<close>, \<^verbatim>\<open>rating\<close>.\<close>

definition rating_text_0 :: string where
  "rating_text_0 =
     [CHR 0xD0, CHR 0x9F, CHR 0xD0, CHR 0xBE, CHR 0xD0, CHR 0xBB, CHR 0xD1, CHR 0x8C]
     @ [CHR 0xD0, CHR 0xB7, CHR 0xD0, CHR 0xBE, CHR 0xD0, CHR 0xB2, CHR 0xD0, CHR 0xB0]
     @ [CHR 0xD1, CHR 0x82, CHR 0xD0, CHR 0xB5, CHR 0xD0, CHR 0xBB, CHR 0xD1, CHR 0x8C]
     @ '' ''"

definition rating_text_1 :: string where
  "rating_text_1 =
     '' '' @ [CHR 0xD0, CHR 0xBE, CHR 0xD1, CHR 0x86, CHR 0xD0, CHR 0xB5, CHR 0xD0, CHR 0xBD]
     @ [CHR 0xD0, CHR 0xB8, CHR 0xD0, CHR 0xBB] @ '' ''
     @ [CHR 0xD0, CHR 0xB2, CHR 0xD0, CHR 0xB0, CHR 0xD1, CHR 0x88] @ '' ''
     @ [CHR 0xD1, CHR 0x80, CHR 0xD0, CHR 0xB5, CHR 0xD1, CHR 0x86, CHR 0xD0, CHR 0xB5]
     @ [CHR 0xD0, CHR 0xBF, CHR 0xD1, CHR 0x82] @ '' '' @ [CHR 0x22]"

definition rating_text_2 :: string where
  "rating_text_2 =
     [CHR 0x22] @ '' '' @ [CHR 0xD0, CHR 0xBD, CHR 0xD0, CHR 0xB0] @ '' ''"

definition rating_text_3 :: string where
  "rating_text_3 =
     '' '' @ [CHR 0xE2, CHR 0xAD, CHR 0x90]"

text \<open>
  \<^verbatim>\<open>SELECT user_id, title FROM recipes WHERE id = ?\<close>, destructured by
  \<^verbatim>\<open>const [[recipe]]\<close>: the first row, or \<^verbatim>\<open>undefined\<close>.
\<close>

definition sql_select_recipe :: "nat \<Rightarrow> tables \<Rightarrow> exn + recipe_row option \<times> tables" where
  "sql_select_recipe rid t = Inr (find (\<lambda>r. r_id r = rid) (recipes t), t)"

text \<open>
  Modelled from the spec: the uniqueness constraint on (recipe, user) of \<open>ratings\<close> (the
  table definition is not in the sources). A second row for a pair is refused with the
  store's duplicate-entry error.
\<close>

definition sql_insert_rating :: "nat \<Rightarrow> nat \<Rightarrow> jsval \<Rightarrow> tables \<Rightarrow> exn + unit \<times> tables" where
  "sql_insert_rating rid uid rating t =
     (if \<exists>x \<in> set (ratings t). rt_recipe_id x = rid \<and> rt_user_id x = uid
      then Inl DupEntry
      else Inr ((), t\<lparr>ratings := ratings t @
             [\<lparr>rt_recipe_id = rid, rt_user_id = uid, rt_rating = rating\<rparr>]\<rparr>))"

text \<open>
  The handler. \<open>recipeId\<close> is the number the path parameter denotes. Reading
  \<^verbatim>\<open>recipe.user_id\<close> of a recipe that does not exist throws outside the
  \<^verbatim>\<open>try\<close>; inside it, the \<^verbatim>\<open>catch\<close> answers every exception alike.
  The inner computation yields the early response of the \<^verbatim>\<open>catch\<close>, if any.
\<close>

definition post_recipe_rating :: "session_user option \<Rightarrow> nat \<Rightarrow> jsval \<Rightarrow> response io" where
  "post_recipe_rating user recipeId rating =
     (case user of
        None \<Rightarrow> return_ok (Send 403 msg_auth_only)
      | Some u \<Rightarrow>
          and_then
            (db_query ''SELECT user_id, title FROM recipes WHERE id = ?'' (sql_select_recipe recipeId))
            (\<lambda>recipe. case recipe of
               None \<Rightarrow> throw TypeError
             | Some rc \<Rightarrow>
                 if r_user_id rc = Some (s_id u) then return_ok (Send 403 msg_own_recipe)
                 else
                   and_then
                     (try_catch
                        (and_then
                           (db_query ''INSERT INTO ratings (recipe_id, user_id, rating) VALUES (?, ?, ?)''
                              (sql_insert_rating recipeId (s_id u) rating))
                           (\<lambda>_. and_then
                              (createNotification (r_user_id rc)
                                 (rating_text_0 @ s_name u @ rating_text_1 @ r_title rc @ rating_text_2
                                    @ js_to_string rating @ rating_text_3)
                                 (Some (''/recipes/'' @ decimal recipeId)))
                              (\<lambda>_. return_ok None)))
                        (\<lambda>err. return_ok (Some (Send 400 msg_already_rated))))
                     (\<lambda>early. case early of
                        Some resp \<Rightarrow> return_ok resp
                      | None \<Rightarrow> return_ok (Redirect (''/recipes/'' @ decimal recipeId)))))"

section \<open>E-mail (\<open>part_001\<close>)\<close>

text \<open>\<^verbatim>\<open>a || b\<close>\<close>

definition js_or :: "jsval \<Rightarrow> jsval \<Rightarrow> jsval" where
  "js_or a b = (if truthy a then a else b)"

text \<open>The page around every content fragment (lines 29 to 59). Holes: \<^verbatim>\<open>content\<close>, \<^verbatim>\<open>process.env.SITE_URL || 'http://localhost:3000'\<close>.\<close>

definition emailTemplate_0 :: string where
  "emailTemplate_0 =
     [CHR 0x0A] @ ''<!DOCTYPE html>'' @ [CHR 0x0A] @ ''<html>'' @ [CHR 0x0A] @ ''<head>''
     @ [CHR 0x0A] @ ''    <meta charset='' @ [CHR 0x22] @ ''UTF-8'' @ [CHR 0x22] @ ''>''
     @ [CHR 0x0A] @ ''    <style>'' @ [CHR 0x0A]
     @ ''        body { font-family: Arial, sans-serif; line-height: ''
     @ ''1.6; color: #333; }'' @ [CHR 0x0A]
     @ ''        .container { max-width: 600px; margin: 0 auto; paddi'' @ ''ng: 20px; }''
     @ [CHR 0x0A] @ ''        .header { background: linear-gradient(135deg, #ff704''
     @ ''3 0%, #ff5722 100%); color: white; padding: 20px; text-align''
     @ '': center; border-radius: 10px 10px 0 0; }'' @ [CHR 0x0A]
     @ ''        .content { background: #f9f9f9; padding: 30px; borde''
     @ ''r-radius: 0 0 10px 10px; border: 1px solid #eee; }'' @ [CHR 0x0A]
     @ ''        .footer { text-align: center; margin-top: 20px; colo''
     @ ''r: #777; font-size: 12px; }'' @ [CHR 0x0A]
     @ ''        .button { display: inline-block; padding: 12px 24px;''
     @ '' background: #ff7043; color: white; text-decoration: none; b''
     @ ''order-radius: 5px; margin: 10px 0; }'' @ [CHR 0x0A]
     @ ''        .notification-item { background: white; padding: 15p''
     @ ''x; margin: 10px 0; border-radius: 5px; border-left: 4px soli'' @ ''d #ff7043; }''
     @ [CHR 0x0A] @ ''    </style>'' @ [CHR 0x0A] @ ''</head>'' @ [CHR 0x0A] @ ''<body>''
     @ [CHR 0x0A] @ ''    <div class='' @ [CHR 0x22] @ ''container'' @ [CHR 0x22] @ ''>''
     @ [CHR 0x0A] @ ''        <div class='' @ [CHR 0x22] @ ''header'' @ [CHR 0x22] @ ''>''
     @ [CHR 0x0A] @ ''            <h2>'' @ [CHR 0xF0, CHR 0x9F, CHR 0x8D, CHR 0xB3] @ '' ''
     @ [CHR 0xD0, CHR 0x9A, CHR 0xD1, CHR 0x83, CHR 0xD0, CHR 0xBB, CHR 0xD0, CHR 0xB8]
     @ [CHR 0xD0, CHR 0xBD, CHR 0xD0, CHR 0xB0, CHR 0xD1, CHR 0x80, CHR 0xD0, CHR 0xBD]
     @ [CHR 0xD1, CHR 0x8B, CHR 0xD0, CHR 0xB9] @ '' ''
     @ [CHR 0xD1, CHR 0x81, CHR 0xD0, CHR 0xB0, CHR 0xD0, CHR 0xB9, CHR 0xD1, CHR 0x82]
     @ ''</h2>'' @ [CHR 0x0A] @ ''        </div>'' @ [CHR 0x0A] @ ''        <div class=''
     @ [CHR 0x22] @ ''content'' @ [CHR 0x22] @ ''>'' @ [CHR 0x0A] @ ''            ''"

definition emailTemplate_1 :: string where
  "emailTemplate_1 =
     [CHR 0x0A] @ ''            <div class='' @ [CHR 0x22] @ ''footer'' @ [CHR 0x22] @ ''>''
     @ [CHR 0x0A] @ ''                <p>'' @ [CHR 0xD0, CHR 0x92, CHR 0xD1, CHR 0x8B]
     @ '' ''
     @ [CHR 0xD0, CHR 0xBF, CHR 0xD0, CHR 0xBE, CHR 0xD0, CHR 0xBB, CHR 0xD1, CHR 0x83]
     @ [CHR 0xD1, CHR 0x87, CHR 0xD0, CHR 0xB8, CHR 0xD0, CHR 0xBB, CHR 0xD0, CHR 0xB8]
     @ '' '' @ [CHR 0xD1, CHR 0x8D, CHR 0xD1, CHR 0x82, CHR 0xD0, CHR 0xBE] @ '' ''
     @ [CHR 0xD0, CHR 0xBF, CHR 0xD0, CHR 0xB8, CHR 0xD1, CHR 0x81, CHR 0xD1, CHR 0x8C]
     @ [CHR 0xD0, CHR 0xBC, CHR 0xD0, CHR 0xBE] @ '', ''
     @ [CHR 0xD0, CHR 0xBF, CHR 0xD0, CHR 0xBE, CHR 0xD1, CHR 0x82, CHR 0xD0, CHR 0xBE]
     @ [CHR 0xD0, CHR 0xBC, CHR 0xD1, CHR 0x83] @ '' ''
     @ [CHR 0xD1, CHR 0x87, CHR 0xD1, CHR 0x82, CHR 0xD0, CHR 0xBE] @ '' ''
     @ [CHR 0xD0, CHR 0xBF, CHR 0xD0, CHR 0xBE, CHR 0xD0, CHR 0xB4, CHR 0xD0, CHR 0xBF]
     @ [CHR 0xD0, CHR 0xB8, CHR 0xD1, CHR 0x81, CHR 0xD0, CHR 0xB0, CHR 0xD0, CHR 0xBD]
     @ [CHR 0xD1, CHR 0x8B] @ '' '' @ [CHR 0xD0, CHR 0xBD, CHR 0xD0, CHR 0xB0] @ '' ''
     @ [CHR 0xD1, CHR 0x83, CHR 0xD0, CHR 0xB2, CHR 0xD0, CHR 0xB5, CHR 0xD0, CHR 0xB4]
     @ [CHR 0xD0, CHR 0xBE, CHR 0xD0, CHR 0xBC, CHR 0xD0, CHR 0xBB, CHR 0xD0, CHR 0xB5]
     @ [CHR 0xD0, CHR 0xBD, CHR 0xD0, CHR 0xB8, CHR 0xD1, CHR 0x8F] @ '' ''
     @ [CHR 0xD0, CHR 0xBD, CHR 0xD0, CHR 0xB0] @ '' ''
     @ [CHR 0xD0, CHR 0xBD, CHR 0xD0, CHR 0xB0, CHR 0xD1, CHR 0x88, CHR 0xD0, CHR 0xB5]
     @ [CHR 0xD0, CHR 0xBC] @ '' ''
     @ [CHR 0xD1, CHR 0x81, CHR 0xD0, CHR 0xB0, CHR 0xD0, CHR 0xB9, CHR 0xD1, CHR 0x82]
     @ [CHR 0xD0, CHR 0xB5] @ ''.</p>'' @ [CHR 0x0A] @ ''                <p><a href=''
     @ [CHR 0x22]"

definition emailTemplate_2 :: string where
  "emailTemplate_2 =
     ''/profile/notifications'' @ [CHR 0x22] @ ''>''
     @ [CHR 0xD0, CHR 0x9D, CHR 0xD0, CHR 0xB0, CHR 0xD1, CHR 0x81, CHR 0xD1, CHR 0x82]
     @ [CHR 0xD1, CHR 0x80, CHR 0xD0, CHR 0xBE, CHR 0xD0, CHR 0xB8, CHR 0xD1, CHR 0x82]
     @ [CHR 0xD1, CHR 0x8C] @ '' ''
     @ [CHR 0xD1, CHR 0x83, CHR 0xD0, CHR 0xB2, CHR 0xD0, CHR 0xB5, CHR 0xD0, CHR 0xB4]
     @ [CHR 0xD0, CHR 0xBE, CHR 0xD0, CHR 0xBC, CHR 0xD0, CHR 0xBB, CHR 0xD0, CHR 0xB5]
     @ [CHR 0xD0, CHR 0xBD, CHR 0xD0, CHR 0xB8, CHR 0xD1, CHR 0x8F] @ ''</a></p>''
     @ [CHR 0x0A] @ ''            </div>'' @ [CHR 0x0A] @ ''        </div>'' @ [CHR 0x0A]
     @ ''    </div>'' @ [CHR 0x0A] @ ''</body>'' @ [CHR 0x0A] @ ''</html>'' @ [CHR 0x0A]"

definition msg_missing_params :: string where
  "msg_missing_params =
     [CHR 0xE2, CHR 0x9D, CHR 0x8C] @ '' '' @ [CHR 0xD0, CHR 0x9D, CHR 0xD0, CHR 0xB5]
     @ '' ''
     @ [CHR 0xD1, CHR 0x83, CHR 0xD0, CHR 0xBA, CHR 0xD0, CHR 0xB0, CHR 0xD0, CHR 0xB7]
     @ [CHR 0xD0, CHR 0xB0, CHR 0xD0, CHR 0xBD, CHR 0xD1, CHR 0x8B] @ '' ''
     @ [CHR 0xD0, CHR 0xBF, CHR 0xD0, CHR 0xB0, CHR 0xD1, CHR 0x80, CHR 0xD0, CHR 0xB0]
     @ [CHR 0xD0, CHR 0xBC, CHR 0xD0, CHR 0xB5, CHR 0xD1, CHR 0x82, CHR 0xD1, CHR 0x80]
     @ [CHR 0xD1, CHR 0x8B] @ '' ''
     @ [CHR 0xD0, CHR 0xB4, CHR 0xD0, CHR 0xBB, CHR 0xD1, CHR 0x8F] @ '' ''
     @ [CHR 0xD0, CHR 0xBE, CHR 0xD1, CHR 0x82, CHR 0xD0, CHR 0xBF, CHR 0xD1, CHR 0x80]
     @ [CHR 0xD0, CHR 0xB0, CHR 0xD0, CHR 0xB2, CHR 0xD0, CHR 0xBA, CHR 0xD0, CHR 0xB8]
     @ '' email''"

text \<open>The sender (line 70). Holes: \<^verbatim>\<open>process.env.EMAIL_FROM\<close>.\<close>

definition mail_from_0 :: string where
  "mail_from_0 =
     [CHR 0x22, CHR 0xD0, CHR 0x9A, CHR 0xD1, CHR 0x83, CHR 0xD0, CHR 0xBB, CHR 0xD0]
     @ [CHR 0xB8, CHR 0xD0, CHR 0xBD, CHR 0xD0, CHR 0xB0, CHR 0xD1, CHR 0x80, CHR 0xD0]
     @ [CHR 0xBD, CHR 0xD1, CHR 0x8B, CHR 0xD0, CHR 0xB9] @ '' ''
     @ [CHR 0xD1, CHR 0x81, CHR 0xD0, CHR 0xB0, CHR 0xD0, CHR 0xB9, CHR 0xD1, CHR 0x82]
     @ [CHR 0x22] @ '' <''"

definition mail_from_1 :: string where
  "mail_from_1 =
     ''>''"

text \<open>Line 78. Holes: \<^verbatim>\<open>info.messageId\<close>.\<close>

definition msg_mail_sent_0 :: string where
  "msg_mail_sent_0 =
     [CHR 0xE2, CHR 0x9C, CHR 0x85] @ '' Email ''
     @ [CHR 0xD0, CHR 0xBE, CHR 0xD1, CHR 0x82, CHR 0xD0, CHR 0xBF, CHR 0xD1, CHR 0x80]
     @ [CHR 0xD0, CHR 0xB0, CHR 0xD0, CHR 0xB2, CHR 0xD0, CHR 0xBB, CHR 0xD0, CHR 0xB5]
     @ [CHR 0xD0, CHR 0xBD] @ '': ''"

definition msg_mail_sent_1 :: string where
  "msg_mail_sent_1 =
     []"

definition msg_mail_failed :: string where
  "msg_mail_failed =
     [CHR 0xE2, CHR 0x9D, CHR 0x8C] @ '' ''
     @ [CHR 0xD0, CHR 0x9E, CHR 0xD1, CHR 0x88, CHR 0xD0, CHR 0xB8, CHR 0xD0, CHR 0xB1]
     @ [CHR 0xD0, CHR 0xBA, CHR 0xD0, CHR 0xB0] @ '' ''
     @ [CHR 0xD0, CHR 0xBE, CHR 0xD1, CHR 0x82, CHR 0xD0, CHR 0xBF, CHR 0xD1, CHR 0x80]
     @ [CHR 0xD0, CHR 0xB0, CHR 0xD0, CHR 0xB2, CHR 0xD0, CHR 0xBA, CHR 0xD0, CHR 0xB8]
     @ '' email:''"

text \<open>NEW_RATING (lines 101 to 108). Holes: \<^verbatim>\<open>data.userName\<close>, \<^verbatim>\<open>data.recipeTitle\<close>, \<^verbatim>\<open>data.rating\<close>, \<^verbatim>\<open>data.link\<close>.\<close>

definition content_new_rating_0 :: string where
  "content_new_rating_0 =
     [CHR 0x0A] @ ''                <div class='' @ [CHR 0x22] @ ''notification-item''
     @ [CHR 0x22] @ ''>'' @ [CHR 0x0A] @ ''                    <h3>''
     @ [CHR 0xE2, CHR 0xAD, CHR 0x90] @ '' ''
     @ [CHR 0xD0, CHR 0x9D, CHR 0xD0, CHR 0xBE, CHR 0xD0, CHR 0xB2, CHR 0xD0, CHR 0xB0]
     @ [CHR 0xD1, CHR 0x8F] @ '' ''
     @ [CHR 0xD0, CHR 0xBE, CHR 0xD1, CHR 0x86, CHR 0xD0, CHR 0xB5, CHR 0xD0, CHR 0xBD]
     @ [CHR 0xD0, CHR 0xBA, CHR 0xD0, CHR 0xB0] @ '' ''
     @ [CHR 0xD0, CHR 0xB2, CHR 0xD0, CHR 0xB0, CHR 0xD1, CHR 0x88, CHR 0xD0, CHR 0xB5]
     @ [CHR 0xD0, CHR 0xB3, CHR 0xD0, CHR 0xBE] @ '' ''
     @ [CHR 0xD1, CHR 0x80, CHR 0xD0, CHR 0xB5, CHR 0xD1, CHR 0x86, CHR 0xD0, CHR 0xB5]
     @ [CHR 0xD0, CHR 0xBF, CHR 0xD1, CHR 0x82, CHR 0xD0, CHR 0xB0] @ ''!</h3>'' @ [CHR 0x0A]
     @ ''                    <p>''
     @ [CHR 0xD0, CHR 0x9F, CHR 0xD0, CHR 0xBE, CHR 0xD0, CHR 0xBB, CHR 0xD1, CHR 0x8C]
     @ [CHR 0xD0, CHR 0xB7, CHR 0xD0, CHR 0xBE, CHR 0xD0, CHR 0xB2, CHR 0xD0, CHR 0xB0]
     @ [CHR 0xD1, CHR 0x82, CHR 0xD0, CHR 0xB5, CHR 0xD0, CHR 0xBB, CHR 0xD1, CHR 0x8C]
     @ '' <strong>''"

definition content_new_rating_1 :: string where
  "content_new_rating_1 =
     ''</strong> ''
     @ [CHR 0xD0, CHR 0xBE, CHR 0xD1, CHR 0x86, CHR 0xD0, CHR 0xB5, CHR 0xD0, CHR 0xBD]
     @ [CHR 0xD0, CHR 0xB8, CHR 0xD0, CHR 0xBB] @ '' ''
     @ [CHR 0xD0, CHR 0xB2, CHR 0xD0, CHR 0xB0, CHR 0xD1, CHR 0x88] @ '' ''
     @ [CHR 0xD1, CHR 0x80, CHR 0xD0, CHR 0xB5, CHR 0xD1, CHR 0x86, CHR 0xD0, CHR 0xB5]
     @ [CHR 0xD0, CHR 0xBF, CHR 0xD1, CHR 0x82] @ '' '' @ [CHR 0x0A]
     @ ''                    <strong>'' @ [CHR 0x22]"

definition content_new_rating_2 :: string where
  "content_new_rating_2 =
     [CHR 0x22] @ ''</strong> '' @ [CHR 0xD0, CHR 0xBD, CHR 0xD0, CHR 0xB0] @ '' <strong>''"

definition content_new_rating_3 :: string where
  "content_new_rating_3 =
     '' '' @ [CHR 0xD0, CHR 0xB8, CHR 0xD0, CHR 0xB7] @ '' 5</strong> ''
     @ [CHR 0xE2, CHR 0xAD, CHR 0x90] @ ''</p>'' @ [CHR 0x0A]
     @ ''                    <p><a href='' @ [CHR 0x22]"

definition content_new_rating_4 :: string where
  "content_new_rating_4 =
     [CHR 0x22] @ '' class='' @ [CHR 0x22] @ ''button'' @ [CHR 0x22] @ ''>''
     @ [CHR 0xD0, CHR 0x9F, CHR 0xD0, CHR 0xBE, CHR 0xD1, CHR 0x81, CHR 0xD0, CHR 0xBC]
     @ [CHR 0xD0, CHR 0xBE, CHR 0xD1, CHR 0x82, CHR 0xD1, CHR 0x80, CHR 0xD0, CHR 0xB5]
     @ [CHR 0xD1, CHR 0x82, CHR 0xD1, CHR 0x8C] @ '' ''
     @ [CHR 0xD1, CHR 0x80, CHR 0xD0, CHR 0xB5, CHR 0xD1, CHR 0x86, CHR 0xD0, CHR 0xB5]
     @ [CHR 0xD0, CHR 0xBF, CHR 0xD1, CHR 0x82] @ ''</a></p>'' @ [CHR 0x0A]
     @ ''                </div>'' @ [CHR 0x0A] @ ''            ''"

text \<open>NEW_REVIEW (lines 111 to 121). Holes: \<^verbatim>\<open>data.userName\<close>, \<^verbatim>\<open>data.recipeTitle\<close>, \<^verbatim>\<open>data.reviewText\<close>, \<^verbatim>\<open>data.link\<close>.\<close>

definition content_new_review_0 :: string where
  "content_new_review_0 =
     [CHR 0x0A] @ ''                <div class='' @ [CHR 0x22] @ ''notification-item''
     @ [CHR 0x22] @ ''>'' @ [CHR 0x0A] @ ''                    <h3>''
     @ [CHR 0xF0, CHR 0x9F, CHR 0x92, CHR 0xAC] @ '' ''
     @ [CHR 0xD0, CHR 0x9D, CHR 0xD0, CHR 0xBE, CHR 0xD0, CHR 0xB2, CHR 0xD1, CHR 0x8B]
     @ [CHR 0xD0, CHR 0xB9] @ '' ''
     @ [CHR 0xD0, CHR 0xBE, CHR 0xD1, CHR 0x82, CHR 0xD0, CHR 0xB7, CHR 0xD1, CHR 0x8B]
     @ [CHR 0xD0, CHR 0xB2] @ '' '' @ [CHR 0xD0, CHR 0xBD, CHR 0xD0, CHR 0xB0] @ '' ''
     @ [CHR 0xD0, CHR 0xB2, CHR 0xD0, CHR 0xB0, CHR 0xD1, CHR 0x88] @ '' ''
     @ [CHR 0xD1, CHR 0x80, CHR 0xD0, CHR 0xB5, CHR 0xD1, CHR 0x86, CHR 0xD0, CHR 0xB5]
     @ [CHR 0xD0, CHR 0xBF, CHR 0xD1, CHR 0x82] @ ''!</h3>'' @ [CHR 0x0A]
     @ ''                    <p>''
     @ [CHR 0xD0, CHR 0x9F, CHR 0xD0, CHR 0xBE, CHR 0xD0, CHR 0xBB, CHR 0xD1, CHR 0x8C]
     @ [CHR 0xD0, CHR 0xB7, CHR 0xD0, CHR 0xBE, CHR 0xD0, CHR 0xB2, CHR 0xD0, CHR 0xB0]
     @ [CHR 0xD1, CHR 0x82, CHR 0xD0, CHR 0xB5, CHR 0xD0, CHR 0xBB, CHR 0xD1, CHR 0x8C]
     @ '' <strong>''"

definition content_new_review_1 :: string where
  "content_new_review_1 =
     ''</strong> ''
     @ [CHR 0xD0, CHR 0xBE, CHR 0xD1, CHR 0x81, CHR 0xD1, CHR 0x82, CHR 0xD0, CHR 0xB0]
     @ [CHR 0xD0, CHR 0xB2, CHR 0xD0, CHR 0xB8, CHR 0xD0, CHR 0xBB] @ '' ''
     @ [CHR 0xD0, CHR 0xBE, CHR 0xD1, CHR 0x82, CHR 0xD0, CHR 0xB7, CHR 0xD1, CHR 0x8B]
     @ [CHR 0xD0, CHR 0xB2] @ '' '' @ [CHR 0xD0, CHR 0xBD, CHR 0xD0, CHR 0xB0] @ '' ''
     @ [CHR 0xD0, CHR 0xB2, CHR 0xD0, CHR 0xB0, CHR 0xD1, CHR 0x88] @ '' ''
     @ [CHR 0xD1, CHR 0x80, CHR 0xD0, CHR 0xB5, CHR 0xD1, CHR 0x86, CHR 0xD0, CHR 0xB5]
     @ [CHR 0xD0, CHR 0xBF, CHR 0xD1, CHR 0x82] @ '' '' @ [CHR 0x0A]
     @ ''                    <strong>'' @ [CHR 0x22]"

definition content_new_review_2 :: string where
  "content_new_review_2 =
     [CHR 0x22] @ ''</strong>:</p>'' @ [CHR 0x0A]
     @ ''                    <blockquote style='' @ [CHR 0x22]
     @ ''background: #f0f0f0; padding: 10px; border-left: 3px solid #''
     @ ''ff7043; margin: 15px 0;'' @ [CHR 0x22] @ ''>'' @ [CHR 0x0A]
     @ ''                        '' @ [CHR 0x22]"

definition content_new_review_3 :: string where
  "content_new_review_3 =
     [CHR 0x22, CHR 0x0A] @ ''                    </blockquote>'' @ [CHR 0x0A]
     @ ''                    <p><a href='' @ [CHR 0x22]"

definition content_new_review_4 :: string where
  "content_new_review_4 =
     [CHR 0x22] @ '' class='' @ [CHR 0x22] @ ''button'' @ [CHR 0x22] @ ''>''
     @ [CHR 0xD0, CHR 0x9F, CHR 0xD0, CHR 0xBE, CHR 0xD1, CHR 0x81, CHR 0xD0, CHR 0xBC]
     @ [CHR 0xD0, CHR 0xBE, CHR 0xD1, CHR 0x82, CHR 0xD1, CHR 0x80, CHR 0xD0, CHR 0xB5]
     @ [CHR 0xD1, CHR 0x82, CHR 0xD1, CHR 0x8C] @ '' ''
     @ [CHR 0xD0, CHR 0xB2, CHR 0xD1, CHR 0x81, CHR 0xD0, CHR 0xB5] @ '' ''
     @ [CHR 0xD0, CHR 0xBE, CHR 0xD1, CHR 0x82, CHR 0xD0, CHR 0xB7, CHR 0xD1, CHR 0x8B]
     @ [CHR 0xD0, CHR 0xB2, CHR 0xD1, CHR 0x8B] @ ''</a></p>'' @ [CHR 0x0A]
     @ ''                </div>'' @ [CHR 0x0A] @ ''            ''"

text \<open>ADMIN_BAN (lines 124 to 132). Holes: \<^verbatim>\<open>data.reason || (the default)\<close>, \<^verbatim>\<open>new Date().toLocaleDateString('ru-RU')\<close>.\<close>

definition content_admin_ban_0 :: string where
  "content_admin_ban_0 =
     [CHR 0x0A] @ ''                <div class='' @ [CHR 0x22] @ ''notification-item''
     @ [CHR 0x22] @ ''>'' @ [CHR 0x0A] @ ''                    <h3>''
     @ [CHR 0xF0, CHR 0x9F, CHR 0x9A, CHR 0xAB] @ '' ''
     @ [CHR 0xD0, CHR 0x92, CHR 0xD0, CHR 0xB0, CHR 0xD1, CHR 0x88] @ '' ''
     @ [CHR 0xD0, CHR 0xB0, CHR 0xD0, CHR 0xBA, CHR 0xD0, CHR 0xBA, CHR 0xD0, CHR 0xB0]
     @ [CHR 0xD1, CHR 0x83, CHR 0xD0, CHR 0xBD, CHR 0xD1, CHR 0x82] @ '' ''
     @ [CHR 0xD0, CHR 0xB1, CHR 0xD1, CHR 0x8B, CHR 0xD0, CHR 0xBB] @ '' ''
     @ [CHR 0xD0, CHR 0xB7, CHR 0xD0, CHR 0xB0, CHR 0xD0, CHR 0xB1, CHR 0xD0, CHR 0xBB]
     @ [CHR 0xD0, CHR 0xBE, CHR 0xD0, CHR 0xBA, CHR 0xD0, CHR 0xB8, CHR 0xD1, CHR 0x80]
     @ [CHR 0xD0, CHR 0xBE, CHR 0xD0, CHR 0xB2, CHR 0xD0, CHR 0xB0, CHR 0xD0, CHR 0xBD]
     @ ''</h3>'' @ [CHR 0x0A] @ ''                    <p>''
     @ [CHR 0xD0, CHR 0x90, CHR 0xD0, CHR 0xB4, CHR 0xD0, CHR 0xBC, CHR 0xD0, CHR 0xB8]
     @ [CHR 0xD0, CHR 0xBD, CHR 0xD0, CHR 0xB8, CHR 0xD1, CHR 0x81, CHR 0xD1, CHR 0x82]
     @ [CHR 0xD1, CHR 0x80, CHR 0xD0, CHR 0xB0, CHR 0xD1, CHR 0x82, CHR 0xD0, CHR 0xBE]
     @ [CHR 0xD1, CHR 0x80] @ '' ''
     @ [CHR 0xD1, CHR 0x81, CHR 0xD0, CHR 0xB0, CHR 0xD0, CHR 0xB9, CHR 0xD1, CHR 0x82]
     @ [CHR 0xD0, CHR 0xB0] @ '' ''
     @ [CHR 0xD0, CHR 0xB7, CHR 0xD0, CHR 0xB0, CHR 0xD0, CHR 0xB1, CHR 0xD0, CHR 0xBB]
     @ [CHR 0xD0, CHR 0xBE, CHR 0xD0, CHR 0xBA, CHR 0xD0, CHR 0xB8, CHR 0xD1, CHR 0x80]
     @ [CHR 0xD0, CHR 0xBE, CHR 0xD0, CHR 0xB2, CHR 0xD0, CHR 0xB0, CHR 0xD0, CHR 0xBB]
     @ '' '' @ [CHR 0xD0, CHR 0xB2, CHR 0xD0, CHR 0xB0, CHR 0xD1, CHR 0x88] @ '' ''
     @ [CHR 0xD0, CHR 0xB0, CHR 0xD0, CHR 0xBA, CHR 0xD0, CHR 0xBA, CHR 0xD0, CHR 0xB0]
     @ [CHR 0xD1, CHR 0x83, CHR 0xD0, CHR 0xBD, CHR 0xD1, CHR 0x82] @ ''.</p>'' @ [CHR 0x0A]
     @ ''                    <p><strong>''
     @ [CHR 0xD0, CHR 0x9F, CHR 0xD1, CHR 0x80, CHR 0xD0, CHR 0xB8, CHR 0xD1, CHR 0x87]
     @ [CHR 0xD0, CHR 0xB8, CHR 0xD0, CHR 0xBD, CHR 0xD0, CHR 0xB0] @ '':</strong> ''"

definition content_admin_ban_1 :: string where
  "content_admin_ban_1 =
     ''</p>'' @ [CHR 0x0A] @ ''                    <p><strong>''
     @ [CHR 0xD0, CHR 0x94, CHR 0xD0, CHR 0xB0, CHR 0xD1, CHR 0x82, CHR 0xD0, CHR 0xB0]
     @ '' ''
     @ [CHR 0xD0, CHR 0xB1, CHR 0xD0, CHR 0xBB, CHR 0xD0, CHR 0xBE, CHR 0xD0, CHR 0xBA]
     @ [CHR 0xD0, CHR 0xB8, CHR 0xD1, CHR 0x80, CHR 0xD0, CHR 0xBE, CHR 0xD0, CHR 0xB2]
     @ [CHR 0xD0, CHR 0xBA, CHR 0xD0, CHR 0xB8] @ '':</strong> ''"

definition content_admin_ban_2 :: string where
  "content_admin_ban_2 =
     ''</p>'' @ [CHR 0x0A] @ ''                    <p>''
     @ [CHR 0xD0, CHR 0x95, CHR 0xD1, CHR 0x81, CHR 0xD0, CHR 0xBB, CHR 0xD0, CHR 0xB8]
     @ '' '' @ [CHR 0xD0, CHR 0xB2, CHR 0xD1, CHR 0x8B] @ '' ''
     @ [CHR 0xD1, CHR 0x81, CHR 0xD1, CHR 0x87, CHR 0xD0, CHR 0xB8, CHR 0xD1, CHR 0x82]
     @ [CHR 0xD0, CHR 0xB0, CHR 0xD0, CHR 0xB5, CHR 0xD1, CHR 0x82, CHR 0xD0, CHR 0xB5]
     @ '', '' @ [CHR 0xD1, CHR 0x87, CHR 0xD1, CHR 0x82, CHR 0xD0, CHR 0xBE] @ '' ''
     @ [CHR 0xD1, CHR 0x8D, CHR 0xD1, CHR 0x82, CHR 0xD0, CHR 0xBE] @ '' ''
     @ [CHR 0xD0, CHR 0xBE, CHR 0xD1, CHR 0x88, CHR 0xD0, CHR 0xB8, CHR 0xD0, CHR 0xB1]
     @ [CHR 0xD0, CHR 0xBA, CHR 0xD0, CHR 0xB0] @ '', ''
     @ [CHR 0xD1, CHR 0x81, CHR 0xD0, CHR 0xB2, CHR 0xD1, CHR 0x8F, CHR 0xD0, CHR 0xB6]
     @ [CHR 0xD0, CHR 0xB8, CHR 0xD1, CHR 0x82, CHR 0xD0, CHR 0xB5, CHR 0xD1, CHR 0x81]
     @ [CHR 0xD1, CHR 0x8C] @ '' '' @ [CHR 0xD1, CHR 0x81] @ '' ''
     @ [CHR 0xD0, CHR 0xB0, CHR 0xD0, CHR 0xB4, CHR 0xD0, CHR 0xBC, CHR 0xD0, CHR 0xB8]
     @ [CHR 0xD0, CHR 0xBD, CHR 0xD0, CHR 0xB8, CHR 0xD1, CHR 0x81, CHR 0xD1, CHR 0x82]
     @ [CHR 0xD1, CHR 0x80, CHR 0xD0, CHR 0xB0, CHR 0xD1, CHR 0x86, CHR 0xD0, CHR 0xB8]
     @ [CHR 0xD0, CHR 0xB5, CHR 0xD0, CHR 0xB9] @ '' ''
     @ [CHR 0xD1, CHR 0x81, CHR 0xD0, CHR 0xB0, CHR 0xD0, CHR 0xB9, CHR 0xD1, CHR 0x82]
     @ [CHR 0xD0, CHR 0xB0] @ ''.</p>'' @ [CHR 0x0A] @ ''                </div>''
     @ [CHR 0x0A] @ ''            ''"

text \<open>ADMIN_UNBAN (lines 135 to 142). Holes: \<^verbatim>\<open>process.env.SITE_URL || 'http://localhost:3000'\<close>.\<close>

definition content_admin_unban_0 :: string where
  "content_admin_unban_0 =
     [CHR 0x0A] @ ''                <div class='' @ [CHR 0x22] @ ''notification-item''
     @ [CHR 0x22] @ ''>'' @ [CHR 0x0A] @ ''                    <h3>''
     @ [CHR 0xE2, CHR 0x9C, CHR 0x85] @ '' ''
     @ [CHR 0xD0, CHR 0x92, CHR 0xD0, CHR 0xB0, CHR 0xD1, CHR 0x88] @ '' ''
     @ [CHR 0xD0, CHR 0xB0, CHR 0xD0, CHR 0xBA, CHR 0xD0, CHR 0xBA, CHR 0xD0, CHR 0xB0]
     @ [CHR 0xD1, CHR 0x83, CHR 0xD0, CHR 0xBD, CHR 0xD1, CHR 0x82] @ '' ''
     @ [CHR 0xD1, CHR 0x80, CHR 0xD0, CHR 0xB0, CHR 0xD0, CHR 0xB7, CHR 0xD0, CHR 0xB1]
     @ [CHR 0xD0, CHR 0xBB, CHR 0xD0, CHR 0xBE, CHR 0xD0, CHR 0xBA, CHR 0xD0, CHR 0xB8]
     @ [CHR 0xD1, CHR 0x80, CHR 0xD0, CHR 0xBE, CHR 0xD0, CHR 0xB2, CHR 0xD0, CHR 0xB0]
     @ [CHR 0xD0, CHR 0xBD] @ ''</h3>'' @ [CHR 0x0A] @ ''                    <p>''
     @ [CHR 0xD0, CHR 0x90, CHR 0xD0, CHR 0xB4, CHR 0xD0, CHR 0xBC, CHR 0xD0, CHR 0xB8]
     @ [CHR 0xD0, CHR 0xBD, CHR 0xD0, CHR 0xB8, CHR 0xD1, CHR 0x81, CHR 0xD1, CHR 0x82]
     @ [CHR 0xD1, CHR 0x80, CHR 0xD0, CHR 0xB0, CHR 0xD1, CHR 0x82, CHR 0xD0, CHR 0xBE]
     @ [CHR 0xD1, CHR 0x80] @ '' ''
     @ [CHR 0xD1, CHR 0x81, CHR 0xD0, CHR 0xB0, CHR 0xD0, CHR 0xB9, CHR 0xD1, CHR 0x82]
     @ [CHR 0xD0, CHR 0xB0] @ '' ''
     @ [CHR 0xD1, CHR 0x81, CHR 0xD0, CHR 0xBD, CHR 0xD1, CHR 0x8F, CHR 0xD0, CHR 0xBB]
     @ '' ''
     @ [CHR 0xD0, CHR 0xB1, CHR 0xD0, CHR 0xBB, CHR 0xD0, CHR 0xBE, CHR 0xD0, CHR 0xBA]
     @ [CHR 0xD0, CHR 0xB8, CHR 0xD1, CHR 0x80, CHR 0xD0, CHR 0xBE, CHR 0xD0, CHR 0xB2]
     @ [CHR 0xD0, CHR 0xBA, CHR 0xD1, CHR 0x83] @ '' '' @ [CHR 0xD1, CHR 0x81] @ '' ''
     @ [CHR 0xD0, CHR 0xB2, CHR 0xD0, CHR 0xB0, CHR 0xD1, CHR 0x88, CHR 0xD0, CHR 0xB5]
     @ [CHR 0xD0, CHR 0xB3, CHR 0xD0, CHR 0xBE] @ '' ''
     @ [CHR 0xD0, CHR 0xB0, CHR 0xD0, CHR 0xBA, CHR 0xD0, CHR 0xBA, CHR 0xD1, CHR 0x83]
     @ [CHR 0xD0, CHR 0xB0, CHR 0xD0, CHR 0xBD, CHR 0xD1, CHR 0x82, CHR 0xD0, CHR 0xB0]
     @ ''.</p>'' @ [CHR 0x0A] @ ''                    <p>''
     @ [CHR 0xD0, CHR 0xA2, CHR 0xD0, CHR 0xB5, CHR 0xD0, CHR 0xBF, CHR 0xD0, CHR 0xB5]
     @ [CHR 0xD1, CHR 0x80, CHR 0xD1, CHR 0x8C] @ '' ''
     @ [CHR 0xD0, CHR 0xB2, CHR 0xD1, CHR 0x8B] @ '' ''
     @ [CHR 0xD1, CHR 0x81, CHR 0xD0, CHR 0xBD, CHR 0xD0, CHR 0xBE, CHR 0xD0, CHR 0xB2]
     @ [CHR 0xD0, CHR 0xB0] @ '' ''
     @ [CHR 0xD0, CHR 0xBC, CHR 0xD0, CHR 0xBE, CHR 0xD0, CHR 0xB6, CHR 0xD0, CHR 0xB5]
     @ [CHR 0xD1, CHR 0x82, CHR 0xD0, CHR 0xB5] @ '' ''
     @ [CHR 0xD0, CHR 0xBF, CHR 0xD0, CHR 0xBE, CHR 0xD0, CHR 0xBB, CHR 0xD1, CHR 0x8C]
     @ [CHR 0xD0, CHR 0xB7, CHR 0xD0, CHR 0xBE, CHR 0xD0, CHR 0xB2, CHR 0xD0, CHR 0xB0]
     @ [CHR 0xD1, CHR 0x82, CHR 0xD1, CHR 0x8C, CHR 0xD1, CHR 0x81, CHR 0xD1, CHR 0x8F]
     @ '' ''
     @ [CHR 0xD0, CHR 0xB2, CHR 0xD1, CHR 0x81, CHR 0xD0, CHR 0xB5, CHR 0xD0, CHR 0xBC]
     @ [CHR 0xD0, CHR 0xB8] @ '' ''
     @ [CHR 0xD1, CHR 0x84, CHR 0xD1, CHR 0x83, CHR 0xD0, CHR 0xBD, CHR 0xD0, CHR 0xBA]
     @ [CHR 0xD1, CHR 0x86, CHR 0xD0, CHR 0xB8, CHR 0xD1, CHR 0x8F, CHR 0xD0, CHR 0xBC]
     @ [CHR 0xD0, CHR 0xB8] @ '' ''
     @ [CHR 0xD1, CHR 0x81, CHR 0xD0, CHR 0xB0, CHR 0xD0, CHR 0xB9, CHR 0xD1, CHR 0x82]
     @ [CHR 0xD0, CHR 0xB0] @ ''.</p>'' @ [CHR 0x0A] @ ''                    <p><a href=''
     @ [CHR 0x22]"

definition content_admin_unban_1 :: string where
  "content_admin_unban_1 =
     [CHR 0x22] @ '' class='' @ [CHR 0x22] @ ''button'' @ [CHR 0x22] @ ''>''
     @ [CHR 0xD0, CHR 0x92, CHR 0xD0, CHR 0xB5, CHR 0xD1, CHR 0x80, CHR 0xD0, CHR 0xBD]
     @ [CHR 0xD1, CHR 0x83, CHR 0xD1, CHR 0x82, CHR 0xD1, CHR 0x8C, CHR 0xD1, CHR 0x81]
     @ [CHR 0xD1, CHR 0x8F] @ '' '' @ [CHR 0xD0, CHR 0xBD, CHR 0xD0, CHR 0xB0] @ '' ''
     @ [CHR 0xD1, CHR 0x81, CHR 0xD0, CHR 0xB0, CHR 0xD0, CHR 0xB9, CHR 0xD1, CHR 0x82]
     @ ''</a></p>'' @ [CHR 0x0A] @ ''                </div>'' @ [CHR 0x0A] @ ''            ''"

text \<open>WELCOME (lines 145 to 157). Holes: \<^verbatim>\<open>data.userName\<close>, \<^verbatim>\<open>process.env.SITE_URL || 'http://localhost:3000'\<close>.\<close>

definition content_welcome_0 :: string where
  "content_welcome_0 =
     [CHR 0x0A] @ ''                <div class='' @ [CHR 0x22] @ ''notification-item''
     @ [CHR 0x22] @ ''>'' @ [CHR 0x0A] @ ''                    <h3>''
     @ [CHR 0xF0, CHR 0x9F, CHR 0x91, CHR 0x8B] @ '' ''
     @ [CHR 0xD0, CHR 0x94, CHR 0xD0, CHR 0xBE, CHR 0xD0, CHR 0xB1, CHR 0xD1, CHR 0x80]
     @ [CHR 0xD0, CHR 0xBE] @ '' ''
     @ [CHR 0xD0, CHR 0xBF, CHR 0xD0, CHR 0xBE, CHR 0xD0, CHR 0xB6, CHR 0xD0, CHR 0xB0]
     @ [CHR 0xD0, CHR 0xBB, CHR 0xD0, CHR 0xBE, CHR 0xD0, CHR 0xB2, CHR 0xD0, CHR 0xB0]
     @ [CHR 0xD1, CHR 0x82, CHR 0xD1, CHR 0x8C] @ '' ''
     @ [CHR 0xD0, CHR 0xBD, CHR 0xD0, CHR 0xB0] @ '' ''
     @ [CHR 0xD0, CHR 0x9A, CHR 0xD1, CHR 0x83, CHR 0xD0, CHR 0xBB, CHR 0xD0, CHR 0xB8]
     @ [CHR 0xD0, CHR 0xBD, CHR 0xD0, CHR 0xB0, CHR 0xD1, CHR 0x80, CHR 0xD0, CHR 0xBD]
     @ [CHR 0xD1, CHR 0x8B, CHR 0xD0, CHR 0xB9] @ '' ''
     @ [CHR 0xD1, CHR 0x81, CHR 0xD0, CHR 0xB0, CHR 0xD0, CHR 0xB9, CHR 0xD1, CHR 0x82]
     @ ''!</h3>'' @ [CHR 0x0A] @ ''                    <p>''
     @ [CHR 0xD0, CHR 0xA1, CHR 0xD0, CHR 0xBF, CHR 0xD0, CHR 0xB0, CHR 0xD1, CHR 0x81]
     @ [CHR 0xD0, CHR 0xB8, CHR 0xD0, CHR 0xB1, CHR 0xD0, CHR 0xBE] @ '' ''
     @ [CHR 0xD0, CHR 0xB7, CHR 0xD0, CHR 0xB0] @ '' ''
     @ [CHR 0xD1, CHR 0x80, CHR 0xD0, CHR 0xB5, CHR 0xD0, CHR 0xB3, CHR 0xD0, CHR 0xB8]
     @ [CHR 0xD1, CHR 0x81, CHR 0xD1, CHR 0x82, CHR 0xD1, CHR 0x80, CHR 0xD0, CHR 0xB0]
     @ [CHR 0xD1, CHR 0x86, CHR 0xD0, CHR 0xB8, CHR 0xD1, CHR 0x8E] @ '', <strong>''"

definition content_welcome_1 :: string where
  "content_welcome_1 =
     ''</strong>!</p>'' @ [CHR 0x0A] @ ''                    <p>''
     @ [CHR 0xD0, CHR 0xA2, CHR 0xD0, CHR 0xB5, CHR 0xD0, CHR 0xBF, CHR 0xD0, CHR 0xB5]
     @ [CHR 0xD1, CHR 0x80, CHR 0xD1, CHR 0x8C] @ '' ''
     @ [CHR 0xD0, CHR 0xB2, CHR 0xD1, CHR 0x8B] @ '' ''
     @ [CHR 0xD0, CHR 0xBC, CHR 0xD0, CHR 0xBE, CHR 0xD0, CHR 0xB6, CHR 0xD0, CHR 0xB5]
     @ [CHR 0xD1, CHR 0x82, CHR 0xD0, CHR 0xB5] @ '':</p>'' @ [CHR 0x0A]
     @ ''                    <ul>'' @ [CHR 0x0A] @ ''                        <li>''
     @ [CHR 0xD0, CHR 0xA1, CHR 0xD0, CHR 0xBE, CHR 0xD0, CHR 0xB7, CHR 0xD0, CHR 0xB4]
     @ [CHR 0xD0, CHR 0xB0, CHR 0xD0, CHR 0xB2, CHR 0xD0, CHR 0xB0, CHR 0xD1, CHR 0x82]
     @ [CHR 0xD1, CHR 0x8C] @ '' ''
     @ [CHR 0xD1, CHR 0x81, CHR 0xD0, CHR 0xBE, CHR 0xD0, CHR 0xB1, CHR 0xD1, CHR 0x81]
     @ [CHR 0xD1, CHR 0x82, CHR 0xD0, CHR 0xB2, CHR 0xD0, CHR 0xB5, CHR 0xD0, CHR 0xBD]
     @ [CHR 0xD0, CHR 0xBD, CHR 0xD1, CHR 0x8B, CHR 0xD0, CHR 0xB5] @ '' ''
     @ [CHR 0xD1, CHR 0x80, CHR 0xD0, CHR 0xB5, CHR 0xD1, CHR 0x86, CHR 0xD0, CHR 0xB5]
     @ [CHR 0xD0, CHR 0xBF, CHR 0xD1, CHR 0x82, CHR 0xD1, CHR 0x8B] @ ''</li>'' @ [CHR 0x0A]
     @ ''                        <li>''
     @ [CHR 0xD0, CHR 0x9E, CHR 0xD1, CHR 0x86, CHR 0xD0, CHR 0xB5, CHR 0xD0, CHR 0xBD]
     @ [CHR 0xD0, CHR 0xB8, CHR 0xD0, CHR 0xB2, CHR 0xD0, CHR 0xB0, CHR 0xD1, CHR 0x82]
     @ [CHR 0xD1, CHR 0x8C] @ '' '' @ [CHR 0xD0, CHR 0xB8] @ '' ''
     @ [CHR 0xD0, CHR 0xBA, CHR 0xD0, CHR 0xBE, CHR 0xD0, CHR 0xBC, CHR 0xD0, CHR 0xBC]
     @ [CHR 0xD0, CHR 0xB5, CHR 0xD0, CHR 0xBD, CHR 0xD1, CHR 0x82, CHR 0xD0, CHR 0xB8]
     @ [CHR 0xD1, CHR 0x80, CHR 0xD0, CHR 0xBE, CHR 0xD0, CHR 0xB2, CHR 0xD0, CHR 0xB0]
     @ [CHR 0xD1, CHR 0x82, CHR 0xD1, CHR 0x8C] @ '' ''
     @ [CHR 0xD1, CHR 0x80, CHR 0xD0, CHR 0xB5, CHR 0xD1, CHR 0x86, CHR 0xD0, CHR 0xB5]
     @ [CHR 0xD0, CHR 0xBF, CHR 0xD1, CHR 0x82, CHR 0xD1, CHR 0x8B] @ '' ''
     @ [CHR 0xD0, CHR 0xB4, CHR 0xD1, CHR 0x80, CHR 0xD1, CHR 0x83, CHR 0xD0, CHR 0xB3]
     @ [CHR 0xD0, CHR 0xB8, CHR 0xD1, CHR 0x85] @ '' ''
     @ [CHR 0xD0, CHR 0xBF, CHR 0xD0, CHR 0xBE, CHR 0xD0, CHR 0xBB, CHR 0xD1, CHR 0x8C]
     @ [CHR 0xD0, CHR 0xB7, CHR 0xD0, CHR 0xBE, CHR 0xD0, CHR 0xB2, CHR 0xD0, CHR 0xB0]
     @ [CHR 0xD1, CHR 0x82, CHR 0xD0, CHR 0xB5, CHR 0xD0, CHR 0xBB, CHR 0xD0, CHR 0xB5]
     @ [CHR 0xD0, CHR 0xB9] @ ''</li>'' @ [CHR 0x0A] @ ''                        <li>''
     @ [CHR 0xD0, CHR 0xA1, CHR 0xD0, CHR 0xBE, CHR 0xD1, CHR 0x85, CHR 0xD1, CHR 0x80]
     @ [CHR 0xD0, CHR 0xB0, CHR 0xD0, CHR 0xBD, CHR 0xD1, CHR 0x8F, CHR 0xD1, CHR 0x82]
     @ [CHR 0xD1, CHR 0x8C] @ '' ''
     @ [CHR 0xD0, CHR 0xBF, CHR 0xD0, CHR 0xBE, CHR 0xD0, CHR 0xBD, CHR 0xD1, CHR 0x80]
     @ [CHR 0xD0, CHR 0xB0, CHR 0xD0, CHR 0xB2, CHR 0xD0, CHR 0xB8, CHR 0xD0, CHR 0xB2]
     @ [CHR 0xD1, CHR 0x88, CHR 0xD0, CHR 0xB8, CHR 0xD0, CHR 0xB5, CHR 0xD1, CHR 0x81]
     @ [CHR 0xD1, CHR 0x8F] @ '' ''
     @ [CHR 0xD1, CHR 0x80, CHR 0xD0, CHR 0xB5, CHR 0xD1, CHR 0x86, CHR 0xD0, CHR 0xB5]
     @ [CHR 0xD0, CHR 0xBF, CHR 0xD1, CHR 0x82, CHR 0xD1, CHR 0x8B] @ ''</li>'' @ [CHR 0x0A]
     @ ''                    </ul>'' @ [CHR 0x0A] @ ''                    <p><a href=''
     @ [CHR 0x22]"

definition content_welcome_2 :: string where
  "content_welcome_2 =
     ''/recipes/create'' @ [CHR 0x22] @ '' class='' @ [CHR 0x22] @ ''button'' @ [CHR 0x22]
     @ ''>''
     @ [CHR 0xD0, CHR 0xA1, CHR 0xD0, CHR 0xBE, CHR 0xD0, CHR 0xB7, CHR 0xD0, CHR 0xB4]
     @ [CHR 0xD0, CHR 0xB0, CHR 0xD1, CHR 0x82, CHR 0xD1, CHR 0x8C] @ '' ''
     @ [CHR 0xD0, CHR 0xBF, CHR 0xD0, CHR 0xB5, CHR 0xD1, CHR 0x80, CHR 0xD0, CHR 0xB2]
     @ [CHR 0xD1, CHR 0x8B, CHR 0xD0, CHR 0xB9] @ '' ''
     @ [CHR 0xD1, CHR 0x80, CHR 0xD0, CHR 0xB5, CHR 0xD1, CHR 0x86, CHR 0xD0, CHR 0xB5]
     @ [CHR 0xD0, CHR 0xBF, CHR 0xD1, CHR 0x82] @ ''</a></p>'' @ [CHR 0x0A]
     @ ''                </div>'' @ [CHR 0x0A] @ ''            ''"

text \<open>The default fragment (lines 160 to 166).\<close>

definition content_default_0 :: string where
  "content_default_0 =
     [CHR 0x0A] @ ''                <div class='' @ [CHR 0x22] @ ''notification-item''
     @ [CHR 0x22] @ ''>'' @ [CHR 0x0A] @ ''                    <h3>''
     @ [CHR 0xF0, CHR 0x9F, CHR 0x94, CHR 0x94] @ '' ''
     @ [CHR 0xD0, CHR 0x9D, CHR 0xD0, CHR 0xBE, CHR 0xD0, CHR 0xB2, CHR 0xD0, CHR 0xBE]
     @ [CHR 0xD0, CHR 0xB5] @ '' ''
     @ [CHR 0xD1, CHR 0x83, CHR 0xD0, CHR 0xB2, CHR 0xD0, CHR 0xB5, CHR 0xD0, CHR 0xB4]
     @ [CHR 0xD0, CHR 0xBE, CHR 0xD0, CHR 0xBC, CHR 0xD0, CHR 0xBB, CHR 0xD0, CHR 0xB5]
     @ [CHR 0xD0, CHR 0xBD, CHR 0xD0, CHR 0xB8, CHR 0xD0, CHR 0xB5] @ ''</h3>'' @ [CHR 0x0A]
     @ ''                    <p>''"

definition content_default_message :: string where
  "content_default_message =
     [CHR 0xD0, CHR 0xA3] @ '' ''
     @ [CHR 0xD0, CHR 0xB2, CHR 0xD0, CHR 0xB0, CHR 0xD1, CHR 0x81] @ '' ''
     @ [CHR 0xD0, CHR 0xBD, CHR 0xD0, CHR 0xBE, CHR 0xD0, CHR 0xB2, CHR 0xD0, CHR 0xBE]
     @ [CHR 0xD0, CHR 0xB5] @ '' ''
     @ [CHR 0xD1, CHR 0x83, CHR 0xD0, CHR 0xB2, CHR 0xD0, CHR 0xB5, CHR 0xD0, CHR 0xB4]
     @ [CHR 0xD0, CHR 0xBE, CHR 0xD0, CHR 0xBC, CHR 0xD0, CHR 0xBB, CHR 0xD0, CHR 0xB5]
     @ [CHR 0xD0, CHR 0xBD, CHR 0xD0, CHR 0xB8, CHR 0xD0, CHR 0xB5] @ '' ''
     @ [CHR 0xD0, CHR 0xBD, CHR 0xD0, CHR 0xB0] @ '' ''
     @ [CHR 0xD1, CHR 0x81, CHR 0xD0, CHR 0xB0, CHR 0xD0, CHR 0xB9, CHR 0xD1, CHR 0x82]
     @ [CHR 0xD0, CHR 0xB5] @ ''.''"

definition content_default_1 :: string where
  "content_default_1 =
     ''</p>'' @ [CHR 0x0A] @ ''                    ''"

definition content_default_link_0 :: string where
  "content_default_link_0 =
     ''<p><a href='' @ [CHR 0x22]"

definition content_default_link_1 :: string where
  "content_default_link_1 =
     [CHR 0x22] @ '' class='' @ [CHR 0x22] @ ''button'' @ [CHR 0x22] @ ''>''
     @ [CHR 0xD0, CHR 0x9F, CHR 0xD0, CHR 0xBE, CHR 0xD0, CHR 0xB4, CHR 0xD1, CHR 0x80]
     @ [CHR 0xD0, CHR 0xBE, CHR 0xD0, CHR 0xB1, CHR 0xD0, CHR 0xBD, CHR 0xD0, CHR 0xB5]
     @ [CHR 0xD0, CHR 0xB5] @ ''</a></p>''"

definition content_default_2 :: string where
  "content_default_2 =
     [CHR 0x0A] @ ''                </div>'' @ [CHR 0x0A] @ ''            ''"

definition default_site_url :: string where
  "default_site_url =
     ''http://localhost:3000''"

definition default_reason_content :: string where
  "default_reason_content =
     [CHR 0xD0, CHR 0x9D, CHR 0xD0, CHR 0xB5] @ '' ''
     @ [CHR 0xD1, CHR 0x83, CHR 0xD0, CHR 0xBA, CHR 0xD0, CHR 0xB0, CHR 0xD0, CHR 0xB7]
     @ [CHR 0xD0, CHR 0xB0, CHR 0xD0, CHR 0xBD, CHR 0xD0, CHR 0xB0]"

text \<open>\<^verbatim>\<open>emailTemplate(content)\<close> (lines 29 to 59).\<close>

definition emailTemplate :: "world \<Rightarrow> string \<Rightarrow> string" where
  "emailTemplate w content =
     emailTemplate_0 @ content @ emailTemplate_1
       @ js_to_string (js_or (env_site_url w) (JStr default_site_url)) @ emailTemplate_2"

text \<open>
  \<^verbatim>\<open>content.replace(/<[^>]*>/g, '')\<close>: every \<^verbatim>\<open><\<close> that has a
  \<^verbatim>\<open>>\<close> after it is removed together with the text up to and including the first
  such \<^verbatim>\<open>>\<close>; when no \<^verbatim>\<open>>\<close> follows, nothing further matches.
\<close>

fun skip_tag :: "string \<Rightarrow> string option" where
  "skip_tag [] = None"
| "skip_tag (c # cs) = (if c = CHR ''>'' then Some cs else skip_tag cs)"

function strip_tags :: "string \<Rightarrow> string" where
  "strip_tags [] = []"
| "strip_tags (c # cs) =
     (if c = CHR ''<''
      then (case skip_tag cs of None \<Rightarrow> c # cs | Some rest \<Rightarrow> strip_tags rest)
      else c # strip_tags cs)"
  by pat_completeness auto
termination
proof (relation "measure length", goal_cases)
  case 1
  show ?case by simp
next
  case (2 c cs rest)
  have "length r < Suc (length xs)" if "skip_tag xs = Some r" for xs r
    using that by (induction xs) (auto split: if_splits)
  with 2 show ?case by simp
next
  case (3 c cs)
  show ?case by simp
qed

text \<open>
  \<^verbatim>\<open>transporter.sendMail(mailOptions)\<close>: the transport takes the next flag of the fault
  schedule; it answers with a message id or rejects.
\<close>

definition transporter_sendMail :: "mail \<Rightarrow> jsval io" where
  "transporter_sendMail m w =
     (if next_fault w then (Inl MailError, emit (SendMail m False) (consume_fault w))
      else (Inr (env_message_id w), emit (SendMail m True) (consume_fault w)))"

text \<open>\<^verbatim>\<open>sendEmailNotification(to, subject, content, isHtml = true)\<close> (lines 62 to 84).\<close>

definition sendEmailNotification :: "jsval \<Rightarrow> string \<Rightarrow> string \<Rightarrow> bool \<Rightarrow> bool io" where
  "sendEmailNotification to subject content isHtml =
     try_catch
       (if \<not> truthy to \<or> subject = [] \<or> content = []
        then and_then (console_error msg_missing_params None) (\<lambda>_. return_ok False)
        else
          and_then
            (\<lambda>w. transporter_sendMail
               \<lparr>m_from = mail_from_0 @ js_to_string (env_email_from w) @ mail_from_1,
                m_to = js_to_string to,
                m_subject = subject,
                m_text = (if \<not> isHtml then content else strip_tags content),
                m_html = (if isHtml then Some (emailTemplate w content) else None)\<rparr> w)
            (\<lambda>messageId. and_then
               (console_log (msg_mail_sent_0 @ js_to_string messageId @ msg_mail_sent_1))
               (\<lambda>_. return_ok True)))
       (\<lambda>error. and_then (console_error msg_mail_failed (Some error)) (\<lambda>_. return_ok False))"

text \<open>\<^verbatim>\<open>EmailTypes\<close> (lines 87 to 95).\<close>

definition NEW_RATING :: string where "NEW_RATING = ''NEW_RATING''"
definition NEW_REVIEW :: string where "NEW_REVIEW = ''NEW_REVIEW''"
definition ADMIN_BAN :: string where "ADMIN_BAN = ''ADMIN_BAN''"
definition ADMIN_UNBAN :: string where "ADMIN_UNBAN = ''ADMIN_UNBAN''"
definition ADMIN_ACTION :: string where "ADMIN_ACTION = ''ADMIN_ACTION''"
definition RECIPE_UPDATED :: string where "RECIPE_UPDATED = ''RECIPE_UPDATED''"
definition WELCOME :: string where "WELCOME = ''WELCOME''"

text \<open>The payload of an event: a field that is absent is \<^verbatim>\<open>undefined\<close>.\<close>

record event_data =
  d_userName :: jsval
  d_recipeTitle :: jsval
  d_rating :: jsval
  d_reviewText :: jsval
  d_reason :: jsval
  d_link :: jsval
  d_message :: jsval

text \<open>\<^verbatim>\<open>generateEmailContent(type, data)\<close> (lines 98 to 168).\<close>

definition generateEmailContent :: "world \<Rightarrow> string \<Rightarrow> event_data \<Rightarrow> string" where
  "generateEmailContent w type data =
     (if type = NEW_RATING then
        content_new_rating_0 @ js_to_string (d_userName data)
          @ content_new_rating_1 @ js_to_string (d_recipeTitle data)
          @ content_new_rating_2 @ js_to_string (d_rating data)
          @ content_new_rating_3 @ js_to_string (d_link data) @ content_new_rating_4
      else if type = NEW_REVIEW then
        content_new_review_0 @ js_to_string (d_userName data)
          @ content_new_review_1 @ js_to_string (d_recipeTitle data)
          @ content_new_review_2 @ js_to_string (d_reviewText data)
          @ content_new_review_3 @ js_to_string (d_link data) @ content_new_review_4
      else if type = ADMIN_BAN then
        content_admin_ban_0 @ js_to_string (js_or (d_reason data) (JStr default_reason_content))
          @ content_admin_ban_1 @ env_today w @ content_admin_ban_2
      else if type = ADMIN_UNBAN then
        content_admin_unban_0 @ js_to_string (js_or (env_site_url w) (JStr default_site_url))
          @ content_admin_unban_1
      else if type = WELCOME then
        content_welcome_0 @ js_to_string (d_userName data)
          @ content_welcome_1 @ js_to_string (js_or (env_site_url w) (JStr default_site_url))
          @ content_welcome_2
      else
        content_default_0 @ js_to_string (js_or (d_message data) (JStr content_default_message))
          @ content_default_1
          @ (if truthy (d_link data)
             then content_default_link_0 @ js_to_string (d_link data) @ content_default_link_1
             else [])
          @ content_default_2)"

text \<open>Line 180. Holes: \<^verbatim>\<open>userId\<close>.\<close>

definition msg_user_not_found_0 :: string where
  "msg_user_not_found_0 =
     [CHR 0xE2, CHR 0x9D, CHR 0x8C] @ '' ''
     @ [CHR 0xD0, CHR 0x9F, CHR 0xD0, CHR 0xBE, CHR 0xD0, CHR 0xBB, CHR 0xD1, CHR 0x8C]
     @ [CHR 0xD0, CHR 0xB7, CHR 0xD0, CHR 0xBE, CHR 0xD0, CHR 0xB2, CHR 0xD0, CHR 0xB0]
     @ [CHR 0xD1, CHR 0x82, CHR 0xD0, CHR 0xB5, CHR 0xD0, CHR 0xBB, CHR 0xD1, CHR 0x8C]
     @ '' '' @ [CHR 0xD1, CHR 0x81] @ '' ID ''"

definition msg_user_not_found_1 :: string where
  "msg_user_not_found_1 =
     '' '' @ [CHR 0xD0, CHR 0xBD, CHR 0xD0, CHR 0xB5] @ '' ''
     @ [CHR 0xD0, CHR 0xBD, CHR 0xD0, CHR 0xB0, CHR 0xD0, CHR 0xB9, CHR 0xD0, CHR 0xB4]
     @ [CHR 0xD0, CHR 0xB5, CHR 0xD0, CHR 0xBD]"

text \<open>Line 191. Holes: \<^verbatim>\<open>data.userName\<close>, \<^verbatim>\<open>data.recipeTitle\<close>, \<^verbatim>\<open>data.rating\<close>.\<close>

definition text_new_rating_0 :: string where
  "text_new_rating_0 =
     [CHR 0xD0, CHR 0x9F, CHR 0xD0, CHR 0xBE, CHR 0xD0, CHR 0xBB, CHR 0xD1, CHR 0x8C]
     @ [CHR 0xD0, CHR 0xB7, CHR 0xD0, CHR 0xBE, CHR 0xD0, CHR 0xB2, CHR 0xD0, CHR 0xB0]
     @ [CHR 0xD1, CHR 0x82, CHR 0xD0, CHR 0xB5, CHR 0xD0, CHR 0xBB, CHR 0xD1, CHR 0x8C]
     @ '' ''"

definition text_new_rating_1 :: string where
  "text_new_rating_1 =
     '' '' @ [CHR 0xD0, CHR 0xBE, CHR 0xD1, CHR 0x86, CHR 0xD0, CHR 0xB5, CHR 0xD0, CHR 0xBD]
     @ [CHR 0xD0, CHR 0xB8, CHR 0xD0, CHR 0xBB] @ '' ''
     @ [CHR 0xD0, CHR 0xB2, CHR 0xD0, CHR 0xB0, CHR 0xD1, CHR 0x88] @ '' ''
     @ [CHR 0xD1, CHR 0x80, CHR 0xD0, CHR 0xB5, CHR 0xD1, CHR 0x86, CHR 0xD0, CHR 0xB5]
     @ [CHR 0xD0, CHR 0xBF, CHR 0xD1, CHR 0x82] @ '' '' @ [CHR 0x22]"

definition text_new_rating_2 :: string where
  "text_new_rating_2 =
     [CHR 0x22] @ '' '' @ [CHR 0xD0, CHR 0xBD, CHR 0xD0, CHR 0xB0] @ '' ''"

definition text_new_rating_3 :: string where
  "text_new_rating_3 =
     '' '' @ [CHR 0xE2, CHR 0xAD, CHR 0x90]"

text \<open>Line 194. Holes: \<^verbatim>\<open>data.userName\<close>, \<^verbatim>\<open>data.recipeTitle\<close>.\<close>

definition text_new_review_0 :: string where
  "text_new_review_0 =
     [CHR 0xD0, CHR 0x9F, CHR 0xD0, CHR 0xBE, CHR 0xD0, CHR 0xBB, CHR 0xD1, CHR 0x8C]
     @ [CHR 0xD0, CHR 0xB7, CHR 0xD0, CHR 0xBE, CHR 0xD0, CHR 0xB2, CHR 0xD0, CHR 0xB0]
     @ [CHR 0xD1, CHR 0x82, CHR 0xD0, CHR 0xB5, CHR 0xD0, CHR 0xBB, CHR 0xD1, CHR 0x8C]
     @ '' ''"

definition text_new_review_1 :: string where
  "text_new_review_1 =
     '' '' @ [CHR 0xD0, CHR 0xBE, CHR 0xD1, CHR 0x81, CHR 0xD1, CHR 0x82, CHR 0xD0, CHR 0xB0]
     @ [CHR 0xD0, CHR 0xB2, CHR 0xD0, CHR 0xB8, CHR 0xD0, CHR 0xBB] @ '' ''
     @ [CHR 0xD0, CHR 0xBE, CHR 0xD1, CHR 0x82, CHR 0xD0, CHR 0xB7, CHR 0xD1, CHR 0x8B]
     @ [CHR 0xD0, CHR 0xB2] @ '' '' @ [CHR 0xD0, CHR 0xBD, CHR 0xD0, CHR 0xB0] @ '' ''
     @ [CHR 0xD0, CHR 0xB2, CHR 0xD0, CHR 0xB0, CHR 0xD1, CHR 0x88] @ '' ''
     @ [CHR 0xD1, CHR 0x80, CHR 0xD0, CHR 0xB5, CHR 0xD1, CHR 0x86, CHR 0xD0, CHR 0xB5]
     @ [CHR 0xD0, CHR 0xBF, CHR 0xD1, CHR 0x82] @ '' '' @ [CHR 0x22]"

definition text_new_review_2 :: string where
  "text_new_review_2 =
     [CHR 0x22]"

text \<open>Line 197. Holes: \<^verbatim>\<open>data.reason || (the default)\<close>.\<close>

definition text_admin_ban_0 :: string where
  "text_admin_ban_0 =
     [CHR 0xD0, CHR 0x92, CHR 0xD0, CHR 0xB0, CHR 0xD1, CHR 0x88] @ '' ''
     @ [CHR 0xD0, CHR 0xB0, CHR 0xD0, CHR 0xBA, CHR 0xD0, CHR 0xBA, CHR 0xD0, CHR 0xB0]
     @ [CHR 0xD1, CHR 0x83, CHR 0xD0, CHR 0xBD, CHR 0xD1, CHR 0x82] @ '' ''
     @ [CHR 0xD0, CHR 0xB7, CHR 0xD0, CHR 0xB0, CHR 0xD0, CHR 0xB1, CHR 0xD0, CHR 0xBB]
     @ [CHR 0xD0, CHR 0xBE, CHR 0xD0, CHR 0xBA, CHR 0xD0, CHR 0xB8, CHR 0xD1, CHR 0x80]
     @ [CHR 0xD0, CHR 0xBE, CHR 0xD0, CHR 0xB2, CHR 0xD0, CHR 0xB0, CHR 0xD0, CHR 0xBD]
     @ '' ''
     @ [CHR 0xD0, CHR 0xB0, CHR 0xD0, CHR 0xB4, CHR 0xD0, CHR 0xBC, CHR 0xD0, CHR 0xB8]
     @ [CHR 0xD0, CHR 0xBD, CHR 0xD0, CHR 0xB8, CHR 0xD1, CHR 0x81, CHR 0xD1, CHR 0x82]
     @ [CHR 0xD1, CHR 0x80, CHR 0xD0, CHR 0xB0, CHR 0xD1, CHR 0x82, CHR 0xD0, CHR 0xBE]
     @ [CHR 0xD1, CHR 0x80, CHR 0xD0, CHR 0xBE, CHR 0xD0, CHR 0xBC] @ ''. ''
     @ [CHR 0xD0, CHR 0x9F, CHR 0xD1, CHR 0x80, CHR 0xD0, CHR 0xB8, CHR 0xD1, CHR 0x87]
     @ [CHR 0xD0, CHR 0xB8, CHR 0xD0, CHR 0xBD, CHR 0xD0, CHR 0xB0] @ '': ''"

definition text_admin_ban_1 :: string where
  "text_admin_ban_1 =
     []"

definition text_admin_unban :: string where
  "text_admin_unban =
     [CHR 0xD0, CHR 0x92, CHR 0xD0, CHR 0xB0, CHR 0xD1, CHR 0x88] @ '' ''
     @ [CHR 0xD0, CHR 0xB0, CHR 0xD0, CHR 0xBA, CHR 0xD0, CHR 0xBA, CHR 0xD0, CHR 0xB0]
     @ [CHR 0xD1, CHR 0x83, CHR 0xD0, CHR 0xBD, CHR 0xD1, CHR 0x82] @ '' ''
     @ [CHR 0xD1, CHR 0x80, CHR 0xD0, CHR 0xB0, CHR 0xD0, CHR 0xB7, CHR 0xD0, CHR 0xB1]
     @ [CHR 0xD0, CHR 0xBB, CHR 0xD0, CHR 0xBE, CHR 0xD0, CHR 0xBA, CHR 0xD0, CHR 0xB8]
     @ [CHR 0xD1, CHR 0x80, CHR 0xD0, CHR 0xBE, CHR 0xD0, CHR 0xB2, CHR 0xD0, CHR 0xB0]
     @ [CHR 0xD0, CHR 0xBD] @ '' ''
     @ [CHR 0xD0, CHR 0xB0, CHR 0xD0, CHR 0xB4, CHR 0xD0, CHR 0xBC, CHR 0xD0, CHR 0xB8]
     @ [CHR 0xD0, CHR 0xBD, CHR 0xD0, CHR 0xB8, CHR 0xD1, CHR 0x81, CHR 0xD1, CHR 0x82]
     @ [CHR 0xD1, CHR 0x80, CHR 0xD0, CHR 0xB0, CHR 0xD1, CHR 0x82, CHR 0xD0, CHR 0xBE]
     @ [CHR 0xD1, CHR 0x80, CHR 0xD0, CHR 0xBE, CHR 0xD0, CHR 0xBC]"

definition text_default :: string where
  "text_default =
     [CHR 0xD0, CHR 0x9D, CHR 0xD0, CHR 0xBE, CHR 0xD0, CHR 0xB2, CHR 0xD0, CHR 0xBE]
     @ [CHR 0xD0, CHR 0xB5] @ '' ''
     @ [CHR 0xD1, CHR 0x83, CHR 0xD0, CHR 0xB2, CHR 0xD0, CHR 0xB5, CHR 0xD0, CHR 0xB4]
     @ [CHR 0xD0, CHR 0xBE, CHR 0xD0, CHR 0xBC, CHR 0xD0, CHR 0xBB, CHR 0xD0, CHR 0xB5]
     @ [CHR 0xD0, CHR 0xBD, CHR 0xD0, CHR 0xB8, CHR 0xD0, CHR 0xB5]"

text \<open>Line 224. Holes: \<^verbatim>\<open>userId\<close>, \<^verbatim>\<open>user.email\<close>.\<close>

definition msg_notified_0 :: string where
  "msg_notified_0 =
     [CHR 0xE2, CHR 0x9C, CHR 0x85] @ '' ''
     @ [CHR 0xD0, CHR 0xA3, CHR 0xD0, CHR 0xB2, CHR 0xD0, CHR 0xB5, CHR 0xD0, CHR 0xB4]
     @ [CHR 0xD0, CHR 0xBE, CHR 0xD0, CHR 0xBC, CHR 0xD0, CHR 0xBB, CHR 0xD0, CHR 0xB5]
     @ [CHR 0xD0, CHR 0xBD, CHR 0xD0, CHR 0xB8, CHR 0xD0, CHR 0xB5] @ '' ''
     @ [CHR 0xD0, CHR 0xBE, CHR 0xD1, CHR 0x82, CHR 0xD0, CHR 0xBF, CHR 0xD1, CHR 0x80]
     @ [CHR 0xD0, CHR 0xB0, CHR 0xD0, CHR 0xB2, CHR 0xD0, CHR 0xBB, CHR 0xD0, CHR 0xB5]
     @ [CHR 0xD0, CHR 0xBD, CHR 0xD0, CHR 0xBE] @ '' ''
     @ [CHR 0xD0, CHR 0xBF, CHR 0xD0, CHR 0xBE, CHR 0xD0, CHR 0xBB, CHR 0xD1, CHR 0x8C]
     @ [CHR 0xD0, CHR 0xB7, CHR 0xD0, CHR 0xBE, CHR 0xD0, CHR 0xB2, CHR 0xD0, CHR 0xB0]
     @ [CHR 0xD1, CHR 0x82, CHR 0xD0, CHR 0xB5, CHR 0xD0, CHR 0xBB, CHR 0xD1, CHR 0x8E]
     @ '' ''"

definition msg_notified_1 :: string where
  "msg_notified_1 =
     '' (''"

definition msg_notified_2 :: string where
  "msg_notified_2 =
     '')''"

definition msg_notify_failed :: string where
  "msg_notify_failed =
     [CHR 0xE2, CHR 0x9D, CHR 0x8C] @ '' ''
     @ [CHR 0xD0, CHR 0x9E, CHR 0xD1, CHR 0x88, CHR 0xD0, CHR 0xB8, CHR 0xD0, CHR 0xB1]
     @ [CHR 0xD0, CHR 0xBA, CHR 0xD0, CHR 0xB0] @ '' ''
     @ [CHR 0xD0, CHR 0xBF, CHR 0xD1, CHR 0x80, CHR 0xD0, CHR 0xB8] @ '' ''
     @ [CHR 0xD0, CHR 0xBE, CHR 0xD1, CHR 0x82, CHR 0xD0, CHR 0xBF, CHR 0xD1, CHR 0x80]
     @ [CHR 0xD0, CHR 0xB0, CHR 0xD0, CHR 0xB2, CHR 0xD0, CHR 0xBA, CHR 0xD0, CHR 0xB5]
     @ '' ''
     @ [CHR 0xD1, CHR 0x83, CHR 0xD0, CHR 0xB2, CHR 0xD0, CHR 0xB5, CHR 0xD0, CHR 0xB4]
     @ [CHR 0xD0, CHR 0xBE, CHR 0xD0, CHR 0xBC, CHR 0xD0, CHR 0xBB, CHR 0xD0, CHR 0xB5]
     @ [CHR 0xD0, CHR 0xBD, CHR 0xD0, CHR 0xB8, CHR 0xD1, CHR 0x8F] @ '':''"

definition subject_new_rating :: string where
  "subject_new_rating =
     [CHR 0xE2, CHR 0xAD, CHR 0x90] @ '' ''
     @ [CHR 0xD0, CHR 0x9D, CHR 0xD0, CHR 0xBE, CHR 0xD0, CHR 0xB2, CHR 0xD0, CHR 0xB0]
     @ [CHR 0xD1, CHR 0x8F] @ '' ''
     @ [CHR 0xD0, CHR 0xBE, CHR 0xD1, CHR 0x86, CHR 0xD0, CHR 0xB5, CHR 0xD0, CHR 0xBD]
     @ [CHR 0xD0, CHR 0xBA, CHR 0xD0, CHR 0xB0] @ '' ''
     @ [CHR 0xD0, CHR 0xB2, CHR 0xD0, CHR 0xB0, CHR 0xD1, CHR 0x88, CHR 0xD0, CHR 0xB5]
     @ [CHR 0xD0, CHR 0xB3, CHR 0xD0, CHR 0xBE] @ '' ''
     @ [CHR 0xD1, CHR 0x80, CHR 0xD0, CHR 0xB5, CHR 0xD1, CHR 0x86, CHR 0xD0, CHR 0xB5]
     @ [CHR 0xD0, CHR 0xBF, CHR 0xD1, CHR 0x82, CHR 0xD0, CHR 0xB0]"

definition subject_new_review :: string where
  "subject_new_review =
     [CHR 0xF0, CHR 0x9F, CHR 0x92, CHR 0xAC] @ '' ''
     @ [CHR 0xD0, CHR 0x9D, CHR 0xD0, CHR 0xBE, CHR 0xD0, CHR 0xB2, CHR 0xD1, CHR 0x8B]
     @ [CHR 0xD0, CHR 0xB9] @ '' ''
     @ [CHR 0xD0, CHR 0xBE, CHR 0xD1, CHR 0x82, CHR 0xD0, CHR 0xB7, CHR 0xD1, CHR 0x8B]
     @ [CHR 0xD0, CHR 0xB2] @ '' '' @ [CHR 0xD0, CHR 0xBD, CHR 0xD0, CHR 0xB0] @ '' ''
     @ [CHR 0xD0, CHR 0xB2, CHR 0xD0, CHR 0xB0, CHR 0xD1, CHR 0x88] @ '' ''
     @ [CHR 0xD1, CHR 0x80, CHR 0xD0, CHR 0xB5, CHR 0xD1, CHR 0x86, CHR 0xD0, CHR 0xB5]
     @ [CHR 0xD0, CHR 0xBF, CHR 0xD1, CHR 0x82]"

definition subject_admin_ban :: string where
  "subject_admin_ban =
     [CHR 0xF0, CHR 0x9F, CHR 0x9A, CHR 0xAB] @ '' ''
     @ [CHR 0xD0, CHR 0x92, CHR 0xD0, CHR 0xB0, CHR 0xD1, CHR 0x88] @ '' ''
     @ [CHR 0xD0, CHR 0xB0, CHR 0xD0, CHR 0xBA, CHR 0xD0, CHR 0xBA, CHR 0xD0, CHR 0xB0]
     @ [CHR 0xD1, CHR 0x83, CHR 0xD0, CHR 0xBD, CHR 0xD1, CHR 0x82] @ '' ''
     @ [CHR 0xD0, CHR 0xB7, CHR 0xD0, CHR 0xB0, CHR 0xD0, CHR 0xB1, CHR 0xD0, CHR 0xBB]
     @ [CHR 0xD0, CHR 0xBE, CHR 0xD0, CHR 0xBA, CHR 0xD0, CHR 0xB8, CHR 0xD1, CHR 0x80]
     @ [CHR 0xD0, CHR 0xBE, CHR 0xD0, CHR 0xB2, CHR 0xD0, CHR 0xB0, CHR 0xD0, CHR 0xBD]"

definition subject_admin_unban :: string where
  "subject_admin_unban =
     [CHR 0xE2, CHR 0x9C, CHR 0x85] @ '' ''
     @ [CHR 0xD0, CHR 0x92, CHR 0xD0, CHR 0xB0, CHR 0xD1, CHR 0x88] @ '' ''
     @ [CHR 0xD0, CHR 0xB0, CHR 0xD0, CHR 0xBA, CHR 0xD0, CHR 0xBA, CHR 0xD0, CHR 0xB0]
     @ [CHR 0xD1, CHR 0x83, CHR 0xD0, CHR 0xBD, CHR 0xD1, CHR 0x82] @ '' ''
     @ [CHR 0xD1, CHR 0x80, CHR 0xD0, CHR 0xB0, CHR 0xD0, CHR 0xB7, CHR 0xD0, CHR 0xB1]
     @ [CHR 0xD0, CHR 0xBB, CHR 0xD0, CHR 0xBE, CHR 0xD0, CHR 0xBA, CHR 0xD0, CHR 0xB8]
     @ [CHR 0xD1, CHR 0x80, CHR 0xD0, CHR 0xBE, CHR 0xD0, CHR 0xB2, CHR 0xD0, CHR 0xB0]
     @ [CHR 0xD0, CHR 0xBD]"

definition subject_welcome :: string where
  "subject_welcome =
     [CHR 0xF0, CHR 0x9F, CHR 0x91, CHR 0x8B] @ '' ''
     @ [CHR 0xD0, CHR 0x94, CHR 0xD0, CHR 0xBE, CHR 0xD0, CHR 0xB1, CHR 0xD1, CHR 0x80]
     @ [CHR 0xD0, CHR 0xBE] @ '' ''
     @ [CHR 0xD0, CHR 0xBF, CHR 0xD0, CHR 0xBE, CHR 0xD0, CHR 0xB6, CHR 0xD0, CHR 0xB0]
     @ [CHR 0xD0, CHR 0xBB, CHR 0xD0, CHR 0xBE, CHR 0xD0, CHR 0xB2, CHR 0xD0, CHR 0xB0]
     @ [CHR 0xD1, CHR 0x82, CHR 0xD1, CHR 0x8C] @ '' ''
     @ [CHR 0xD0, CHR 0xBD, CHR 0xD0, CHR 0xB0] @ '' ''
     @ [CHR 0xD0, CHR 0x9A, CHR 0xD1, CHR 0x83, CHR 0xD0, CHR 0xBB, CHR 0xD0, CHR 0xB8]
     @ [CHR 0xD0, CHR 0xBD, CHR 0xD0, CHR 0xB0, CHR 0xD1, CHR 0x80, CHR 0xD0, CHR 0xBD]
     @ [CHR 0xD1, CHR 0x8B, CHR 0xD0, CHR 0xB9] @ '' ''
     @ [CHR 0xD1, CHR 0x81, CHR 0xD0, CHR 0xB0, CHR 0xD0, CHR 0xB9, CHR 0xD1, CHR 0x82]
     @ ''!''"

definition subject_default :: string where
  "subject_default =
     [CHR 0xF0, CHR 0x9F, CHR 0x94, CHR 0x94] @ '' ''
     @ [CHR 0xD0, CHR 0x9D, CHR 0xD0, CHR 0xBE, CHR 0xD0, CHR 0xB2, CHR 0xD0, CHR 0xBE]
     @ [CHR 0xD0, CHR 0xB5] @ '' ''
     @ [CHR 0xD1, CHR 0x83, CHR 0xD0, CHR 0xB2, CHR 0xD0, CHR 0xB5, CHR 0xD0, CHR 0xB4]
     @ [CHR 0xD0, CHR 0xBE, CHR 0xD0, CHR 0xBC, CHR 0xD0, CHR 0xBB, CHR 0xD0, CHR 0xB5]
     @ [CHR 0xD0, CHR 0xBD, CHR 0xD0, CHR 0xB8, CHR 0xD0, CHR 0xB5] @ '' ''
     @ [CHR 0xD1, CHR 0x81] @ '' ''
     @ [CHR 0xD0, CHR 0x9A, CHR 0xD1, CHR 0x83, CHR 0xD0, CHR 0xBB, CHR 0xD0, CHR 0xB8]
     @ [CHR 0xD0, CHR 0xBD, CHR 0xD0, CHR 0xB0, CHR 0xD1, CHR 0x80, CHR 0xD0, CHR 0xBD]
     @ [CHR 0xD0, CHR 0xBE, CHR 0xD0, CHR 0xB3, CHR 0xD0, CHR 0xBE] @ '' ''
     @ [CHR 0xD1, CHR 0x81, CHR 0xD0, CHR 0xB0, CHR 0xD0, CHR 0xB9, CHR 0xD1, CHR 0x82]
     @ [CHR 0xD0, CHR 0xB0]"

definition default_reason_text :: string where
  "default_reason_text =
     [CHR 0xD0, CHR 0xBD, CHR 0xD0, CHR 0xB5] @ '' ''
     @ [CHR 0xD1, CHR 0x83, CHR 0xD0, CHR 0xBA, CHR 0xD0, CHR 0xB0, CHR 0xD0, CHR 0xB7]
     @ [CHR 0xD0, CHR 0xB0, CHR 0xD0, CHR 0xBD, CHR 0xD0, CHR 0xB0]"


text \<open>\<^verbatim>\<open>getEmailSubject(type)\<close> (lines 236 to 245).\<close>

definition getEmailSubject :: "string \<Rightarrow> string" where
  "getEmailSubject type =
     (if type = NEW_RATING then subject_new_rating
      else if type = NEW_REVIEW then subject_new_review
      else if type = ADMIN_BAN then subject_admin_ban
      else if type = ADMIN_UNBAN then subject_admin_unban
      else if type = WELCOME then subject_welcome
      else subject_default)"

text \<open>
  \<^verbatim>\<open>SELECT email, name FROM users WHERE id = ?\<close>, destructured by
  \<^verbatim>\<open>const [[user]]\<close>: the first row, or \<^verbatim>\<open>undefined\<close>.
\<close>

definition sql_select_user :: "nat \<Rightarrow> tables \<Rightarrow> exn + user_row option \<times> tables" where
  "sql_select_user uid t = Inr (find (\<lambda>u. u_id u = uid) (users t), t)"

text \<open>The text of the in-app notification (the \<^verbatim>\<open>switch\<close> of lines 189 to 204).\<close>

definition notificationText :: "string \<Rightarrow> event_data \<Rightarrow> string" where
  "notificationText type data =
     (if type = NEW_RATING then
        text_new_rating_0 @ js_to_string (d_userName data)
          @ text_new_rating_1 @ js_to_string (d_recipeTitle data)
          @ text_new_rating_2 @ js_to_string (d_rating data) @ text_new_rating_3
      else if type = NEW_REVIEW then
        text_new_review_0 @ js_to_string (d_userName data)
          @ text_new_review_1 @ js_to_string (d_recipeTitle data) @ text_new_review_2
      else if type = ADMIN_BAN then
        text_admin_ban_0 @ js_to_string (js_or (d_reason data) (JStr default_reason_text))
          @ text_admin_ban_1
      else if type = ADMIN_UNBAN then text_admin_unban
      else js_to_string (js_or (d_message data) (JStr text_default)))"

text \<open>\<^verbatim>\<open>data.link || null\<close>, as the column stores it.\<close>

definition notificationLink :: "event_data \<Rightarrow> string option" where
  "notificationLink data = (if truthy (d_link data) then Some (js_to_string (d_link data)) else None)"

text \<open>
  \<^verbatim>\<open>sendNotification(userId, type, data, sendEmail = true)\<close> (lines 171 to 233).
  A payload that is \<^verbatim>\<open>null\<close> or \<^verbatim>\<open>undefined\<close> (\<open>None\<close>) makes
  \<^verbatim>\<open>data.link\<close> throw, inside the \<^verbatim>\<open>try\<close>.
\<close>

definition sendNotification :: "nat \<Rightarrow> string \<Rightarrow> event_data option \<Rightarrow> bool \<Rightarrow> bool io" where
  "sendNotification userId type data sendEmail =
     try_catch
       (and_then
          (db_query ''SELECT email, name FROM users WHERE id = ?'' (sql_select_user userId))
          (\<lambda>user. case user of
             None \<Rightarrow>
               and_then
                 (console_error (msg_user_not_found_0 @ decimal userId @ msg_user_not_found_1) None)
                 (\<lambda>_. return_ok False)
           | Some usr \<Rightarrow>
               (case data of
                  None \<Rightarrow> throw TypeError
                | Some d \<Rightarrow>
                    and_then
                      (\<lambda>w. db_query sql_insert_notification_text
                         (sql_insert_notification (clock w) (Some userId)
                            (notificationText type d) (notificationLink d)) w)
                      (\<lambda>_. and_then
                         (if sendEmail \<and> truthy (u_email usr)
                          then
                            and_then
                              (\<lambda>w. sendEmailNotification (u_email usr) (getEmailSubject type)
                                 (generateEmailContent w type d) True w)
                              (\<lambda>emailSent.
                                 if emailSent
                                 then console_log
                                   (msg_notified_0 @ decimal userId @ msg_notified_1
                                      @ js_to_string (u_email usr) @ msg_notified_2)
                                 else return_ok ())
                          else return_ok ())
                         (\<lambda>_. return_ok True)))))
       (\<lambda>error. and_then (console_error msg_notify_failed (Some error)) (\<lambda>_. return_ok False))"

section \<open>Deleting a user (\<open>part_000\<close>, lines 1172 to 1243)\<close>

definition msg_forbidden :: string where
  "msg_forbidden =
     [CHR 0xD0, CHR 0x94, CHR 0xD0, CHR 0xBE, CHR 0xD1, CHR 0x81, CHR 0xD1, CHR 0x82]
     @ [CHR 0xD1, CHR 0x83, CHR 0xD0, CHR 0xBF] @ '' ''
     @ [CHR 0xD0, CHR 0xB7, CHR 0xD0, CHR 0xB0, CHR 0xD0, CHR 0xBF, CHR 0xD1, CHR 0x80]
     @ [CHR 0xD0, CHR 0xB5, CHR 0xD1, CHR 0x89, CHR 0xD1, CHR 0x91, CHR 0xD0, CHR 0xBD]"

definition title_users :: string where
  "title_users =
     [CHR 0xD0, CHR 0x9F, CHR 0xD0, CHR 0xBE, CHR 0xD0, CHR 0xBB, CHR 0xD1, CHR 0x8C]
     @ [CHR 0xD0, CHR 0xB7, CHR 0xD0, CHR 0xBE, CHR 0xD0, CHR 0xB2, CHR 0xD0, CHR 0xB0]
     @ [CHR 0xD1, CHR 0x82, CHR 0xD0, CHR 0xB5, CHR 0xD0, CHR 0xBB, CHR 0xD0, CHR 0xB8]"

definition msg_cannot_delete_self :: string where
  "msg_cannot_delete_self =
     [CHR 0xD0, CHR 0x9D, CHR 0xD0, CHR 0xB5, CHR 0xD0, CHR 0xBB, CHR 0xD1, CHR 0x8C]
     @ [CHR 0xD0, CHR 0xB7, CHR 0xD1, CHR 0x8F] @ '' ''
     @ [CHR 0xD1, CHR 0x83, CHR 0xD0, CHR 0xB4, CHR 0xD0, CHR 0xB0, CHR 0xD0, CHR 0xBB]
     @ [CHR 0xD0, CHR 0xB8, CHR 0xD1, CHR 0x82, CHR 0xD1, CHR 0x8C] @ '' ''
     @ [CHR 0xD1, CHR 0x81, CHR 0xD0, CHR 0xB2, CHR 0xD0, CHR 0xBE, CHR 0xD0, CHR 0xB9]
     @ '' ''
     @ [CHR 0xD1, CHR 0x81, CHR 0xD0, CHR 0xBE, CHR 0xD0, CHR 0xB1, CHR 0xD1, CHR 0x81]
     @ [CHR 0xD1, CHR 0x82, CHR 0xD0, CHR 0xB2, CHR 0xD0, CHR 0xB5, CHR 0xD0, CHR 0xBD]
     @ [CHR 0xD0, CHR 0xBD, CHR 0xD1, CHR 0x8B, CHR 0xD0, CHR 0xB9] @ '' ''
     @ [CHR 0xD0, CHR 0xB0, CHR 0xD0, CHR 0xBA, CHR 0xD0, CHR 0xBA, CHR 0xD0, CHR 0xB0]
     @ [CHR 0xD1, CHR 0x83, CHR 0xD0, CHR 0xBD, CHR 0xD1, CHR 0x82] @ ''!''"

text \<open>The success message (line 1228). Holes: \<^verbatim>\<open>user.login\<close>.\<close>

definition msg_deleted_0 :: string where
  "msg_deleted_0 =
     [CHR 0xD0, CHR 0x9F, CHR 0xD0, CHR 0xBE, CHR 0xD0, CHR 0xBB, CHR 0xD1, CHR 0x8C]
     @ [CHR 0xD0, CHR 0xB7, CHR 0xD0, CHR 0xBE, CHR 0xD0, CHR 0xB2, CHR 0xD0, CHR 0xB0]
     @ [CHR 0xD1, CHR 0x82, CHR 0xD0, CHR 0xB5, CHR 0xD0, CHR 0xBB, CHR 0xD1, CHR 0x8C]
     @ '' ''"

definition msg_deleted_1 :: string where
  "msg_deleted_1 =
     '' '' @ [CHR 0xD0, CHR 0xB8] @ '' ''
     @ [CHR 0xD0, CHR 0xB2, CHR 0xD1, CHR 0x81, CHR 0xD0, CHR 0xB5] @ '' ''
     @ [CHR 0xD0, CHR 0xB5, CHR 0xD0, CHR 0xB3, CHR 0xD0, CHR 0xBE] @ '' ''
     @ [CHR 0xD0, CHR 0xB4, CHR 0xD0, CHR 0xB0, CHR 0xD0, CHR 0xBD, CHR 0xD0, CHR 0xBD]
     @ [CHR 0xD1, CHR 0x8B, CHR 0xD0, CHR 0xB5] @ '' ''
     @ [CHR 0xD1, CHR 0x83, CHR 0xD0, CHR 0xB4, CHR 0xD0, CHR 0xB0, CHR 0xD0, CHR 0xBB]
     @ [CHR 0xD0, CHR 0xB5, CHR 0xD0, CHR 0xBD, CHR 0xD1, CHR 0x8B] @ ''!''"

definition msg_delete_failed :: string where
  "msg_delete_failed =
     [CHR 0xD0, CHR 0x9E, CHR 0xD1, CHR 0x88, CHR 0xD0, CHR 0xB8, CHR 0xD0, CHR 0xB1]
     @ [CHR 0xD0, CHR 0xBA, CHR 0xD0, CHR 0xB0] @ '' ''
     @ [CHR 0xD0, CHR 0xBF, CHR 0xD1, CHR 0x80, CHR 0xD0, CHR 0xB8] @ '' ''
     @ [CHR 0xD1, CHR 0x83, CHR 0xD0, CHR 0xB4, CHR 0xD0, CHR 0xB0, CHR 0xD0, CHR 0xBB]
     @ [CHR 0xD0, CHR 0xB5, CHR 0xD0, CHR 0xBD, CHR 0xD0, CHR 0xB8, CHR 0xD0, CHR 0xB8]
     @ '' ''
     @ [CHR 0xD0, CHR 0xBF, CHR 0xD0, CHR 0xBE, CHR 0xD0, CHR 0xBB, CHR 0xD1, CHR 0x8C]
     @ [CHR 0xD0, CHR 0xB7, CHR 0xD0, CHR 0xBE, CHR 0xD0, CHR 0xB2, CHR 0xD0, CHR 0xB0]
     @ [CHR 0xD1, CHR 0x82, CHR 0xD0, CHR 0xB5, CHR 0xD0, CHR 0xBB, CHR 0xD1, CHR 0x8F]"

text \<open>
  Modelled from the spec: the transactional scoping of the store
  (\<^verbatim>\<open>START TRANSACTION\<close>, \<^verbatim>\<open>COMMIT\<close>, \<^verbatim>\<open>ROLLBACK\<close>), which a store keeps for
  each connection on its own. On the connection that answers it, \<^verbatim>\<open>START TRANSACTION\<close>
  saves the content of the tables (and thereby ends a transaction that was open there),
  \<^verbatim>\<open>COMMIT\<close> drops the saved content, and \<^verbatim>\<open>ROLLBACK\<close> returns to it, or does
  nothing when that connection has no transaction open. The handler sends these three
  statements through \<^verbatim>\<open>db.query\<close> of the pool like every other statement (lines 1187,
  1222 and 1233) and holds no connection of its own, so each is answered by the connection
  the pool picks for it.
\<close>

definition start_transaction :: "tables \<times> tables option \<Rightarrow> tables \<times> tables option" where
  "start_transaction = (\<lambda>(t, s). (t, Some t))"

definition commit :: "tables \<times> tables option \<Rightarrow> tables \<times> tables option" where
  "commit = (\<lambda>(t, s). (t, None))"

definition rollback :: "tables \<times> tables option \<Rightarrow> tables \<times> tables option" where
  "rollback = (\<lambda>(t, s). (case s of None \<Rightarrow> t | Some t0 \<Rightarrow> t0, None))"

definition db_control ::
  "string \<Rightarrow> (tables \<times> tables option \<Rightarrow> tables \<times> tables option) \<Rightarrow> unit io" where
  "db_control sql f w =
     (if next_fault w then (Inl DbError, refused sql w)
      else (Inr (), emit (Sql sql True)
              ((consume_call w)
                 \<lparr>tbl := fst (f (tbl w, snapshots w (next_conn w))),
                  snapshots := (snapshots w)
                    (next_conn w := snd (f (tbl w, snapshots w (next_conn w))))\<rparr>)))"

text \<open>
  A request that stays on connection 0, inside a transaction there that saved \<open>t0\<close>:
  connection 0 answers every statement to come.
\<close>

definition pinned :: "tables \<Rightarrow> world \<Rightarrow> bool" where
  "pinned t0 w = (pool w = [] \<and> snapshots w 0 = Some t0)"

text \<open>The statements of the handler, in the order of their first use.\<close>

definition sql_select_users :: "tables \<Rightarrow> exn + user_row list \<times> tables" where
  "sql_select_users t = Inr (sort_key u_id (users t), t)"

definition sql_select_recipe_ids :: "nat \<Rightarrow> tables \<Rightarrow> exn + nat list \<times> tables" where
  "sql_select_recipe_ids uid t =
     Inr (map r_id (filter (\<lambda>r. r_user_id r = Some uid) (recipes t)), t)"

definition sql_delete_steps :: "nat \<Rightarrow> tables \<Rightarrow> exn + unit \<times> tables" where
  "sql_delete_steps rid t =
     Inr ((), t\<lparr>recipe_steps := filter (\<lambda>x. st_recipe_id x \<noteq> rid) (recipe_steps t)\<rparr>)"

definition sql_delete_recipe_categories :: "nat \<Rightarrow> tables \<Rightarrow> exn + unit \<times> tables" where
  "sql_delete_recipe_categories rid t =
     Inr ((), t\<lparr>recipe_categories := filter (\<lambda>x. rc_recipe_id x \<noteq> rid) (recipe_categories t)\<rparr>)"

definition sql_delete_ratings_of_recipe :: "nat \<Rightarrow> tables \<Rightarrow> exn + unit \<times> tables" where
  "sql_delete_ratings_of_recipe rid t =
     Inr ((), t\<lparr>ratings := filter (\<lambda>x. rt_recipe_id x \<noteq> rid) (ratings t)\<rparr>)"

definition sql_delete_reviews_of_recipe :: "nat \<Rightarrow> tables \<Rightarrow> exn + unit \<times> tables" where
  "sql_delete_reviews_of_recipe rid t =
     Inr ((), t\<lparr>reviews := filter (\<lambda>x. rv_recipe_id x \<noteq> rid) (reviews t)\<rparr>)"

definition sql_delete_recipes_of_user :: "nat \<Rightarrow> tables \<Rightarrow> exn + unit \<times> tables" where
  "sql_delete_recipes_of_user uid t =
     Inr ((), t\<lparr>recipes := filter (\<lambda>x. r_user_id x \<noteq> Some uid) (recipes t)\<rparr>)"

definition sql_delete_ratings_of_user :: "nat \<Rightarrow> tables \<Rightarrow> exn + unit \<times> tables" where
  "sql_delete_ratings_of_user uid t =
     Inr ((), t\<lparr>ratings := filter (\<lambda>x. rt_user_id x \<noteq> uid) (ratings t)\<rparr>)"

definition sql_delete_reviews_of_user :: "nat \<Rightarrow> tables \<Rightarrow> exn + unit \<times> tables" where
  "sql_delete_reviews_of_user uid t =
     Inr ((), t\<lparr>reviews := filter (\<lambda>x. rv_user_id x \<noteq> Some uid) (reviews t)\<rparr>)"

definition sql_delete_notifications_of_user :: "nat \<Rightarrow> tables \<Rightarrow> exn + unit \<times> tables" where
  "sql_delete_notifications_of_user uid t =
     Inr ((), t\<lparr>notifications := filter (\<lambda>x. n_user_id x \<noteq> uid) (notifications t)\<rparr>)"

definition sql_delete_user :: "nat \<Rightarrow> tables \<Rightarrow> exn + unit \<times> tables" where
  "sql_delete_user uid t = Inr ((), t\<lparr>users := filter (\<lambda>x. u_id x \<noteq> uid) (users t)\<rparr>)"

text \<open>The loop over the user's recipes (lines 1195 to 1204).\<close>

primrec delete_recipe_data :: "nat list \<Rightarrow> unit io" where
  "delete_recipe_data [] = return_ok ()"
| "delete_recipe_data (recipe_id # rest) =
     and_then (db_query ''DELETE FROM recipe_steps WHERE recipe_id = ?'' (sql_delete_steps recipe_id))
       (\<lambda>_. and_then
          (db_query ''DELETE FROM recipe_categories WHERE recipe_id = ?''
             (sql_delete_recipe_categories recipe_id))
       (\<lambda>_. and_then
          (db_query ''DELETE FROM ratings WHERE recipe_id = ?'' (sql_delete_ratings_of_recipe recipe_id))
       (\<lambda>_. and_then
          (db_query ''DELETE FROM reviews WHERE recipe_id = ?'' (sql_delete_reviews_of_recipe recipe_id))
       (\<lambda>_. delete_recipe_data rest))))"

text \<open>\<^verbatim>\<open>requireAdmin\<close> (lines 209 to 214): \<open>None\<close> lets the request pass.\<close>

definition requireAdmin :: "session_user option \<Rightarrow> response option" where
  "requireAdmin user =
     (case user of
        None \<Rightarrow> Some (Send 403 msg_forbidden)
      | Some u \<Rightarrow> if s_role u \<noteq> ''admin'' then Some (Send 403 msg_forbidden) else None)"

text \<open>
  The handler. \<open>userId\<close> is the number the path parameter denotes. After \<^verbatim>\<open>COMMIT\<close>
  the success message reads \<^verbatim>\<open>user.login\<close>, which throws when no user had the id.
\<close>

definition post_admin_users_delete :: "session_user option \<Rightarrow> nat \<Rightarrow> response io" where
  "post_admin_users_delete session userId =
     (case requireAdmin session of
        Some refusal \<Rightarrow> return_ok refusal
      | None \<Rightarrow>
          if map_option s_id session = Some userId
          then
            and_then (db_query ''SELECT * FROM users ORDER BY id ASC'' sql_select_users)
              (\<lambda>users. return_ok (Render ''admin_users'' title_users users
                 (FlashError msg_cannot_delete_self)))
          else
            try_catch
              (and_then (db_control ''START TRANSACTION'' start_transaction)
              (\<lambda>_. and_then (db_query ''SELECT login FROM users WHERE id = ?'' (sql_select_user userId))
              (\<lambda>user. and_then
                 (db_query ''SELECT id FROM recipes WHERE user_id = ?'' (sql_select_recipe_ids userId))
              (\<lambda>userRecipes. and_then (delete_recipe_data userRecipes)
              (\<lambda>_. and_then
                 (db_query ''DELETE FROM recipes WHERE user_id = ?'' (sql_delete_recipes_of_user userId))
              (\<lambda>_. and_then
                 (db_query ''DELETE FROM ratings WHERE user_id = ?'' (sql_delete_ratings_of_user userId))
              (\<lambda>_. and_then
                 (db_query ''DELETE FROM reviews WHERE user_id = ?'' (sql_delete_reviews_of_user userId))
              (\<lambda>_. and_then
                 (db_query ''DELETE FROM notifications WHERE user_id = ?''
                    (sql_delete_notifications_of_user userId))
              (\<lambda>_. and_then (db_query ''DELETE FROM users WHERE id = ?'' (sql_delete_user userId))
              (\<lambda>_. and_then (db_control ''COMMIT'' commit)
              (\<lambda>_. and_then (db_query ''SELECT * FROM users ORDER BY id ASC'' sql_select_users)
              (\<lambda>users. case user of
                 None \<Rightarrow> throw TypeError
               | Some usr \<Rightarrow>
                   return_ok (Render ''admin_users'' title_users users
                     (FlashMessage (msg_deleted_0 @ u_login usr @ msg_deleted_1)))))))))))))))
              (\<lambda>err. and_then (db_control ''ROLLBACK'' rollback)
              (\<lambda>_. and_then (console_error [] (Some err))
              (\<lambda>_. and_then (db_query ''SELECT * FROM users ORDER BY id ASC'' sql_select_users)
              (\<lambda>users. return_ok (Render ''admin_users'' title_users users
                 (FlashError msg_delete_failed)))))))"

section \<open>Sequences of operations of the notification core\<close>

text \<open>
  The operations that touch \<open>notifications\<close>, as a caller may issue them one after the
  other; the world carries the fault schedule from one to the next.
\<close>

datatype core_op =
    OpCreate "nat option" string "string option"
  | OpList nat "int option"
  | OpCount nat
  | OpMarkRead nat nat
  | OpMarkAllRead nat
  | OpNotify nat string "event_data option" bool

fun run_op :: "core_op \<Rightarrow> world \<Rightarrow> world" where
  "run_op (OpCreate uid txt lnk) w = snd (createNotification uid txt lnk w)"
| "run_op (OpList uid lim) w = snd (getUserNotifications uid lim w)"
| "run_op (OpCount uid) w = snd (getUnreadCount uid w)"
| "run_op (OpMarkRead nid uid) w = snd (markAsRead nid uid w)"
| "run_op (OpMarkAllRead uid) w = snd (markAllAsRead uid w)"
| "run_op (OpNotify uid type data flag) w = snd (sendNotification uid type data flag w)"

fun run_ops :: "core_op list \<Rightarrow> world \<Rightarrow> world" where
  "run_ops [] w = w"
| "run_ops (x # xs) w = run_ops xs (run_op x w)"

text \<open>The number of unread notifications of a user, as the count statement computes it.\<close>

definition unread :: "nat \<Rightarrow> tables \<Rightarrow> nat" where
  "unread uid t = length (filter (\<lambda>n. n_user_id n = uid \<and> \<not> is_read n) (notifications t))"

section \<open>Observations\<close>

text \<open>The effects a computation added to the trace, from the worlds before and after it.\<close>

definition new_effects :: "world \<Rightarrow> world \<Rightarrow> effect list" where
  "new_effects w w' = drop (length (trace w)) (trace w')"

text \<open>A collaborator call that failed, and a line written by \<^verbatim>\<open>console.error\<close>.\<close>

fun is_failure :: "effect \<Rightarrow> bool" where
  "is_failure (Sql _ ok) = (\<not> ok)"
| "is_failure (SendMail _ ok) = (\<not> ok)"
| "is_failure _ = False"

fun is_error_log :: "effect \<Rightarrow> bool" where
  "is_error_log (ConsoleError _ _) = True"
| "is_error_log _ = False"

text \<open>The messages handed to the mail transport, each with whether it was accepted.\<close>

fun mail_attempts :: "effect list \<Rightarrow> (mail \<times> bool) list" where
  "mail_attempts [] = []"
| "mail_attempts (SendMail m ok # es) = (m, ok) # mail_attempts es"
| "mail_attempts (_ # es) = mail_attempts es"

text \<open>
  How the rows of \<open>notifications\<close> may differ between an earlier and a later content of
  the tables when no row is deleted: the earlier rows keep their places, and a row is
  either the same or was unread and differs only in being read.
\<close>

definition read_monotone :: "tables \<Rightarrow> tables \<Rightarrow> bool" where
  "read_monotone t t' =
     (length (notifications t) \<le> length (notifications t') \<and>
      (\<forall>i < length (notifications t).
         notifications t' ! i = notifications t ! i \<or>
         (\<not> is_read (notifications t ! i) \<and>
          notifications t' ! i = (notifications t ! i)\<lparr>is_read := True\<rparr>)))"

section \<open>A concrete world\<close>

text \<open>
  Three users (an administrator, an author with an e-mail address, a reader without one),
  one recipe of the author with two steps, one category link, one rating and one review,
  and three notifications.
\<close>

definition demo_tables :: tables where
  "demo_tables =
     \<lparr>users =
        [\<lparr>u_id = 1, u_login = ''root'', u_name = ''Root'', u_email = JStr ''root@example.org'',
          u_role = ''admin''\<rparr>,
         \<lparr>u_id = 2, u_login = ''olga'', u_name = ''Olga'', u_email = JStr ''olga@example.org'',
          u_role = ''user''\<rparr>,
         \<lparr>u_id = 3, u_login = ''alice'', u_name = ''Alice'', u_email = JNull, u_role = ''user''\<rparr>],
      recipes = [\<lparr>r_id = 42, r_user_id = Some 2, r_title = ''Borscht''\<rparr>],
      recipe_steps =
        [\<lparr>st_recipe_id = 42, st_step_number = 1, st_text = ''Chop''\<rparr>,
         \<lparr>st_recipe_id = 42, st_step_number = 2, st_text = ''Boil''\<rparr>],
      recipe_categories = [\<lparr>rc_recipe_id = 42, rc_category_id = 7\<rparr>],
      ratings = [\<lparr>rt_recipe_id = 42, rt_user_id = 1, rt_rating = JNum 4\<rparr>],
      reviews = [\<lparr>rv_id = 1, rv_recipe_id = 42, rv_user_id = Some 3, rv_text = ''Tasty''\<rparr>],
      notifications =
        [\<lparr>n_id = 1, n_user_id = 2, n_text = ''first'', n_link = None, is_read = False,
          created_at = 10\<rparr>,
         \<lparr>n_id = 2, n_user_id = 2, n_text = ''second'', n_link = Some ''/recipes/42'',
          is_read = True, created_at = 30\<rparr>,
         \<lparr>n_id = 3, n_user_id = 3, n_text = ''third'', n_link = None, is_read = False,
          created_at = 20\<rparr>],
      next_notification_id = 4\<rparr>"

definition demo_world :: world where
  "demo_world =
     \<lparr>tbl = demo_tables, snapshots = (\<lambda>c. None), pool = [], clock = 40, faults = [],
      trace = [],
      env_site_url = JUndefined, env_email_from = JStr ''noreply@example.org'',
      env_today = ''03.11.2026'', env_message_id = JStr ''<1@example.org>''\<rparr>"

text \<open>The payload of the new-rating event of the specification's example.\<close>

definition alice_data :: event_data where
  "alice_data =
     \<lparr>d_userName = JStr ''Alice'', d_recipeTitle = JStr ''Borscht'', d_rating = JNum 5,
      d_reviewText = JUndefined, d_reason = JUndefined, d_link = JStr ''/recipes/42'',
      d_message = JUndefined\<rparr>"

section \<open>Properties of the notification store\<close>

lemmas io_defs = and_then_def try_catch_def return_ok_def throw_def console_error_def
  console_log_def db_query_def refused_def answered_def emit_def consume_call_def
  consume_fault_def

lemmas call_defs = refused_def answered_def emit_def consume_call_def consume_fault_def

lemma markAsRead_tbl:
  "tbl (snd (markAsRead nid uid w)) = tbl w \<or>
   tbl (snd (markAsRead nid uid w)) = (tbl w)\<lparr>notifications :=
       map (\<lambda>n. if n_id n = nid \<and> n_user_id n = uid then n\<lparr>is_read := True\<rparr> else n)
         (notifications (tbl w))\<rparr>"
  by (simp add: markAsRead_def io_defs sql_mark_read_def)

lemma markAsRead_returns: "fst (markAsRead nid uid w) = Inr ()"
  by (simp add: markAsRead_def io_defs sql_mark_read_def)

lemma map_no_match: "(\<forall>n \<in> set ns. \<not> P n) \<Longrightarrow> map (\<lambda>n. if P n then f n else n) ns = ns"
  by (induction ns) auto

text \<open>
  C7. \<open>markAsRead id U\<close> returns normally; it keeps the number and the order of the
  rows, and a row it changes has the given id, belongs to \<open>U\<close> and differs from the old
  one only in being read. When no row with that id belongs to \<open>U\<close> (it belongs to another
  user, or does not exist) the tables are unchanged, and with them every user's unread
  count.
\<close>

theorem markAsRead_only_own:
  "fst (markAsRead nid uid w) = Inr () \<and>
   length (notifications (tbl (snd (markAsRead nid uid w)))) = length (notifications (tbl w)) \<and>
   (\<forall>i < length (notifications (tbl w)).
      notifications (tbl (snd (markAsRead nid uid w))) ! i = notifications (tbl w) ! i \<or>
      (n_id (notifications (tbl w) ! i) = nid \<and> n_user_id (notifications (tbl w) ! i) = uid \<and>
       notifications (tbl (snd (markAsRead nid uid w))) ! i =
         (notifications (tbl w) ! i)\<lparr>is_read := True\<rparr>)) \<and>
   ((\<forall>n \<in> set (notifications (tbl w)). n_id n = nid \<longrightarrow> n_user_id n \<noteq> uid) \<longrightarrow>
      tbl (snd (markAsRead nid uid w)) = tbl w \<and>
      (\<forall>v. unread v (tbl (snd (markAsRead nid uid w))) = unread v (tbl w)))"
proof -
  let ?w' = "snd (markAsRead nid uid w)"
  let ?upd = "map (\<lambda>n. if n_id n = nid \<and> n_user_id n = uid then n\<lparr>is_read := True\<rparr> else n)
         (notifications (tbl w))"
  have cases: "tbl ?w' = tbl w \<or> tbl ?w' = (tbl w)\<lparr>notifications := ?upd\<rparr>"
    by (rule markAsRead_tbl)
  have len: "length (notifications (tbl ?w')) = length (notifications (tbl w))"
    using cases by auto
  have frame: "\<forall>i < length (notifications (tbl w)).
      notifications (tbl ?w') ! i = notifications (tbl w) ! i \<or>
      (n_id (notifications (tbl w) ! i) = nid \<and> n_user_id (notifications (tbl w) ! i) = uid \<and>
       notifications (tbl ?w') ! i = (notifications (tbl w) ! i)\<lparr>is_read := True\<rparr>)"
    using cases by (auto split: if_splits)
  have noop: "tbl ?w' = tbl w"
    if "\<forall>n \<in> set (notifications (tbl w)). n_id n = nid \<longrightarrow> n_user_id n \<noteq> uid"
  proof -
    from that have "?upd = notifications (tbl w)"
      by (intro map_no_match) auto
    with cases show ?thesis by auto
  qed
  show ?thesis
    using markAsRead_returns len frame noop by simp
qed

text \<open>
  In the concrete world notification 1 belongs to user 2: user 3 marking it changes
  nothing, and user 2 still has one unread notification.
\<close>

theorem markAsRead_only_own_witness:
  "fst (markAsRead 1 3 demo_world) = Inr () \<and>
   tbl (snd (markAsRead 1 3 demo_world)) = tbl demo_world \<and>
   unread 2 (tbl (snd (markAsRead 1 3 demo_world))) = 1 \<and>
   unread 3 (tbl (snd (markAsRead 1 3 demo_world))) = 1"
proof -
  have foreign: "\<forall>n \<in> set (notifications (tbl demo_world)). n_id n = 1 \<longrightarrow> n_user_id n \<noteq> 3"
    by (simp add: demo_world_def demo_tables_def)
  have counts: "unread 2 (tbl demo_world) = 1" "unread 3 (tbl demo_world) = 1"
    by (simp_all add: demo_world_def demo_tables_def unread_def)
  from markAsRead_only_own [of 1 3 demo_world] foreign counts show ?thesis
    by simp
qed

section \<open>Properties of \<open>sendNotification\<close>\<close>

text \<open>
  The runs of \<open>sendNotification\<close>, one equation for each way through the function:
  which collaborator call fails, whether the user exists, whether a payload was given and
  whether an e-mail is due.
\<close>

lemma db_query_fault:
  "next_fault w \<Longrightarrow> db_query sql q w = (Inl DbError, refused sql w)"
  by (simp add: db_query_def)

lemma db_query_ok:
  "\<not> next_fault w \<Longrightarrow> q (tbl w) = Inr (a, t) \<Longrightarrow>
   db_query sql q w = (Inr a, answered sql q t w)"
  by (simp add: db_query_def)

lemma find_SomeD: "find P xs = Some x \<Longrightarrow> x \<in> set xs \<and> P x"
  by (induction xs) (auto split: if_splits)

lemma subject_nonempty: "getEmailSubject type \<noteq> []"
  by (simp add: getEmailSubject_def subject_new_rating_def subject_new_review_def
      subject_admin_ban_def subject_admin_unban_def subject_welcome_def subject_default_def)

lemma content_nonempty: "generateEmailContent w type d \<noteq> []"
  by (simp add: generateEmailContent_def content_new_rating_0_def content_new_review_0_def
      content_admin_ban_0_def content_admin_unban_0_def content_welcome_0_def
      content_default_0_def)

lemma sendEmailNotification_eq:
  assumes "truthy to" "subject \<noteq> []" "content \<noteq> []"
  shows "sendEmailNotification to subject content True w =
     (if next_fault w
      then (Inr False,
            emit (ConsoleError msg_mail_failed (Some MailError))
              (emit (SendMail \<lparr>m_from = mail_from_0 @ js_to_string (env_email_from w) @ mail_from_1,
                 m_to = js_to_string to, m_subject = subject, m_text = strip_tags content,
                 m_html = Some (emailTemplate w content)\<rparr> False) (consume_fault w)))
      else (Inr True,
            emit (ConsoleLog (msg_mail_sent_0 @ js_to_string (env_message_id w) @ msg_mail_sent_1))
              (emit (SendMail \<lparr>m_from = mail_from_0 @ js_to_string (env_email_from w) @ mail_from_1,
                 m_to = js_to_string to, m_subject = subject, m_text = strip_tags content,
                 m_html = Some (emailTemplate w content)\<rparr> True) (consume_fault w))))"
  using assms
  by (simp add: sendEmailNotification_def transporter_sendMail_def try_catch_def and_then_def
      return_ok_def console_error_def console_log_def)


lemma sendNotification_eq:
  fixes uid type flag w d usr
  defines "w1 \<equiv> answered ''SELECT email, name FROM users WHERE id = ?'' (sql_select_user uid) (tbl w) w"
  defines "row \<equiv> \<lparr>n_id = next_notification_id (tbl w), n_user_id = uid,
                   n_text = notificationText type d, n_link = notificationLink d,
                   is_read = False, created_at = clock w\<rparr>"
  defines "w2 \<equiv> answered sql_insert_notification_text
                  (sql_insert_notification (clock w) (Some uid) (notificationText type d)
                     (notificationLink d))
                  ((tbl w)\<lparr>notifications := notifications (tbl w) @ [row],
                     next_notification_id := Suc (next_notification_id (tbl w))\<rparr>)
                  w1"
  defines "m \<equiv> \<lparr>m_from = mail_from_0 @ js_to_string (env_email_from w) @ mail_from_1,
                 m_to = js_to_string (u_email usr), m_subject = getEmailSubject type,
                 m_text = strip_tags (generateEmailContent w type d),
                 m_html = Some (emailTemplate w (generateEmailContent w type d))\<rparr>"
  shows
    "next_fault w \<Longrightarrow>
       sendNotification uid type data flag w =
         (Inr False, emit (ConsoleError msg_notify_failed (Some DbError))
            (refused ''SELECT email, name FROM users WHERE id = ?'' w))"
    "\<not> next_fault w \<Longrightarrow> find (\<lambda>u. u_id u = uid) (users (tbl w)) = None \<Longrightarrow>
       sendNotification uid type data flag w =
         (Inr False, emit (ConsoleError (msg_user_not_found_0 @ decimal uid @ msg_user_not_found_1) None) w1)"
    "\<not> next_fault w \<Longrightarrow> find (\<lambda>u. u_id u = uid) (users (tbl w)) = Some usr \<Longrightarrow>
       sendNotification uid type None flag w =
         (Inr False, emit (ConsoleError msg_notify_failed (Some TypeError)) w1)"
    "\<not> next_fault w \<Longrightarrow> find (\<lambda>u. u_id u = uid) (users (tbl w)) = Some usr \<Longrightarrow> next_fault w1 \<Longrightarrow>
       sendNotification uid type (Some d) flag w =
         (Inr False, emit (ConsoleError msg_notify_failed (Some DbError))
            (refused sql_insert_notification_text w1))"
    "\<not> next_fault w \<Longrightarrow> find (\<lambda>u. u_id u = uid) (users (tbl w)) = Some usr \<Longrightarrow> \<not> next_fault w1 \<Longrightarrow>
       \<not> (flag \<and> truthy (u_email usr)) \<Longrightarrow>
       sendNotification uid type (Some d) flag w = (Inr True, w2)"
    "\<not> next_fault w \<Longrightarrow> find (\<lambda>u. u_id u = uid) (users (tbl w)) = Some usr \<Longrightarrow> \<not> next_fault w1 \<Longrightarrow>
       flag \<and> truthy (u_email usr) \<Longrightarrow> next_fault w2 \<Longrightarrow>
       sendNotification uid type (Some d) flag w =
         (Inr True, emit (ConsoleError msg_mail_failed (Some MailError))
            (emit (SendMail m False) (consume_fault w2)))"
    "\<not> next_fault w \<Longrightarrow> find (\<lambda>u. u_id u = uid) (users (tbl w)) = Some usr \<Longrightarrow> \<not> next_fault w1 \<Longrightarrow>
       flag \<and> truthy (u_email usr) \<Longrightarrow> \<not> next_fault w2 \<Longrightarrow>
       sendNotification uid type (Some d) flag w =
         (Inr True,
          emit (ConsoleLog (msg_notified_0 @ decimal uid @ msg_notified_1
                  @ js_to_string (u_email usr) @ msg_notified_2))
            (emit (ConsoleLog (msg_mail_sent_0 @ js_to_string (env_message_id w) @ msg_mail_sent_1))
               (emit (SendMail m True) (consume_fault w2))))"
proof -
  show "next_fault w \<Longrightarrow>
       sendNotification uid type data flag w =
         (Inr False, emit (ConsoleError msg_notify_failed (Some DbError))
            (refused ''SELECT email, name FROM users WHERE id = ?'' w))"
    by (simp add: sendNotification_def try_catch_def and_then_def db_query_def console_error_def
        return_ok_def)
  show "\<not> next_fault w \<Longrightarrow> find (\<lambda>u. u_id u = uid) (users (tbl w)) = None \<Longrightarrow>
       sendNotification uid type data flag w =
         (Inr False, emit (ConsoleError (msg_user_not_found_0 @ decimal uid @ msg_user_not_found_1) None) w1)"
    by (simp add: sendNotification_def try_catch_def and_then_def db_query_def console_error_def
        return_ok_def sql_select_user_def w1_def call_defs)
  show "\<not> next_fault w \<Longrightarrow> find (\<lambda>u. u_id u = uid) (users (tbl w)) = Some usr \<Longrightarrow>
       sendNotification uid type None flag w =
         (Inr False, emit (ConsoleError msg_notify_failed (Some TypeError)) w1)"
    by (simp add: sendNotification_def try_catch_def and_then_def db_query_def console_error_def
        return_ok_def sql_select_user_def w1_def call_defs throw_def)
  have fk: "uid \<in> set (map u_id (users (tbl w)))"
    if "find (\<lambda>u. u_id u = uid) (users (tbl w)) = Some usr"
    using find_SomeD [OF that] by force
  have sel: "db_query ''SELECT email, name FROM users WHERE id = ?'' (sql_select_user uid) w
      = (Inr (Some usr), w1)"
    if "\<not> next_fault w" "find (\<lambda>u. u_id u = uid) (users (tbl w)) = Some usr"
    using that by (simp add: db_query_def sql_select_user_def w1_def call_defs)
  have w1_fields: "tbl w1 = tbl w" "clock w1 = clock w" "env_email_from w1 = env_email_from w"
    "env_site_url w1 = env_site_url w" "env_today w1 = env_today w"
    "env_message_id w1 = env_message_id w"
    by (simp_all add: w1_def call_defs)
  show "\<not> next_fault w \<Longrightarrow> find (\<lambda>u. u_id u = uid) (users (tbl w)) = Some usr \<Longrightarrow> next_fault w1 \<Longrightarrow>
       sendNotification uid type (Some d) flag w =
         (Inr False, emit (ConsoleError msg_notify_failed (Some DbError))
            (refused sql_insert_notification_text w1))"
    by (simp add: sendNotification_def try_catch_def and_then_def sel db_query_fault
        console_error_def return_ok_def)
  have ins: "db_query sql_insert_notification_text
         (sql_insert_notification (clock w1) (Some uid) (notificationText type d) (notificationLink d)) w1
      = (Inr (), w2)"
    if "find (\<lambda>u. u_id u = uid) (users (tbl w)) = Some usr" "\<not> next_fault w1"
    using that fk [OF that(1)]
    by (simp add: db_query_def sql_insert_notification_def w1_fields w2_def row_def)
  have w2_fields: "env_email_from w2 = env_email_from w"
    "env_site_url w2 = env_site_url w" "env_today w2 = env_today w"
    "env_message_id w2 = env_message_id w"
    by (simp_all add: w2_def w1_def call_defs)
  have content: "generateEmailContent w2 type d = generateEmailContent w type d"
    by (simp add: generateEmailContent_def w2_fields)
  have template: "emailTemplate w2 c = emailTemplate w c" for c
    by (simp add: emailTemplate_def w2_fields)
  show "\<not> next_fault w \<Longrightarrow> find (\<lambda>u. u_id u = uid) (users (tbl w)) = Some usr \<Longrightarrow> \<not> next_fault w1 \<Longrightarrow>
       \<not> (flag \<and> truthy (u_email usr)) \<Longrightarrow>
       sendNotification uid type (Some d) flag w = (Inr True, w2)"
    by (auto simp: sendNotification_def try_catch_def and_then_def sel ins return_ok_def)
  show "\<not> next_fault w \<Longrightarrow> find (\<lambda>u. u_id u = uid) (users (tbl w)) = Some usr \<Longrightarrow> \<not> next_fault w1 \<Longrightarrow>
       flag \<and> truthy (u_email usr) \<Longrightarrow> next_fault w2 \<Longrightarrow>
       sendNotification uid type (Some d) flag w =
         (Inr True, emit (ConsoleError msg_mail_failed (Some MailError))
            (emit (SendMail m False) (consume_fault w2)))"
    by (simp add: sendNotification_def try_catch_def and_then_def sel ins return_ok_def
        sendEmailNotification_eq subject_nonempty content_nonempty content template w2_fields m_def)
  show "\<not> next_fault w \<Longrightarrow> find (\<lambda>u. u_id u = uid) (users (tbl w)) = Some usr \<Longrightarrow> \<not> next_fault w1 \<Longrightarrow>
       flag \<and> truthy (u_email usr) \<Longrightarrow> \<not> next_fault w2 \<Longrightarrow>
       sendNotification uid type (Some d) flag w =
         (Inr True,
          emit (ConsoleLog (msg_notified_0 @ decimal uid @ msg_notified_1
                  @ js_to_string (u_email usr) @ msg_notified_2))
            (emit (ConsoleLog (msg_mail_sent_0 @ js_to_string (env_message_id w) @ msg_mail_sent_1))
               (emit (SendMail m True) (consume_fault w2))))"
    by (simp add: sendNotification_def try_catch_def and_then_def sel ins return_ok_def
        sendEmailNotification_eq subject_nonempty content_nonempty content template w2_fields m_def
        console_log_def)
qed


lemma sendNotification_outcomes:
  fixes uid type flag w data
  defines "sel \<equiv> ''SELECT email, name FROM users WHERE id = ?''"
  defines "ins \<equiv> sql_insert_notification_text"
  shows
  "\<exists>r w' new. sendNotification uid type data flag w = (r, w') \<and> trace w' = trace w @ new \<and>
     ((r = Inr False \<and> tbl w' = tbl w \<and>
         new = [Sql sel False, ConsoleError msg_notify_failed (Some DbError)]) \<or>
      (r = Inr False \<and> tbl w' = tbl w \<and> find (\<lambda>u. u_id u = uid) (users (tbl w)) = None \<and>
         new = [Sql sel True,
                ConsoleError (msg_user_not_found_0 @ decimal uid @ msg_user_not_found_1) None]) \<or>
      (r = Inr False \<and> tbl w' = tbl w \<and> data = None \<and>
         new = [Sql sel True, ConsoleError msg_notify_failed (Some TypeError)]) \<or>
      (r = Inr False \<and> tbl w' = tbl w \<and>
         new = [Sql sel True, Sql ins False, ConsoleError msg_notify_failed (Some DbError)]) \<or>
      (\<exists>usr d row m.
         find (\<lambda>u. u_id u = uid) (users (tbl w)) = Some usr \<and> data = Some d \<and>
         row = \<lparr>n_id = next_notification_id (tbl w), n_user_id = uid,
                 n_text = notificationText type d, n_link = notificationLink d,
                 is_read = False, created_at = clock w\<rparr> \<and>
         m = \<lparr>m_from = mail_from_0 @ js_to_string (env_email_from w) @ mail_from_1,
               m_to = js_to_string (u_email usr), m_subject = getEmailSubject type,
               m_text = strip_tags (generateEmailContent w type d),
               m_html = Some (emailTemplate w (generateEmailContent w type d))\<rparr> \<and>
         r = Inr True \<and>
         tbl w' = (tbl w)\<lparr>notifications := notifications (tbl w) @ [row],
                          next_notification_id := Suc (next_notification_id (tbl w))\<rparr> \<and>
         ((\<not> (flag \<and> truthy (u_email usr)) \<and> new = [Sql sel True, Sql ins True]) \<or>
          (flag \<and> truthy (u_email usr) \<and>
             new = [Sql sel True, Sql ins True, SendMail m False,
                    ConsoleError msg_mail_failed (Some MailError)]) \<or>
          (flag \<and> truthy (u_email usr) \<and>
             new = [Sql sel True, Sql ins True, SendMail m True,
                    ConsoleLog (msg_mail_sent_0 @ js_to_string (env_message_id w) @ msg_mail_sent_1),
                    ConsoleLog (msg_notified_0 @ decimal uid @ msg_notified_1
                      @ js_to_string (u_email usr) @ msg_notified_2)]))))"
proof (cases "next_fault w")
  case True
  then show ?thesis
    by (simp add: sendNotification_eq(1) call_defs sel_def)
next
  case nf: False
  show ?thesis
  proof (cases "find (\<lambda>u. u_id u = uid) (users (tbl w))")
    case None
    with nf show ?thesis
      by (simp add: sendNotification_eq(2) call_defs sel_def)
  next
    case (Some usr)
    note found = this
    show ?thesis
    proof (cases data)
      case None
      with nf found show ?thesis
        by (simp add: sendNotification_eq(3) call_defs sel_def)
    next
      case (Some d)
      note payload = this
      let ?w1 = "answered ''SELECT email, name FROM users WHERE id = ?'' (sql_select_user uid) (tbl w) w"
      show ?thesis
      proof (cases "next_fault ?w1")
        case True
        with nf found payload show ?thesis
          by (simp add: sendNotification_eq(4) call_defs sel_def ins_def)
      next
        case nf1: False
        show ?thesis
        proof (cases "flag \<and> truthy (u_email usr)")
          case False
          with nf found payload nf1 show ?thesis
            by (simp add: sendNotification_eq(5) call_defs sel_def ins_def)
        next
          case mail: True
          let ?row = "\<lparr>n_id = next_notification_id (tbl w), n_user_id = uid,
                   n_text = notificationText type d, n_link = notificationLink d,
                   is_read = False, created_at = clock w\<rparr>"
          let ?w2 = "answered sql_insert_notification_text
                  (sql_insert_notification (clock w) (Some uid) (notificationText type d)
                     (notificationLink d))
                  ((tbl w)\<lparr>notifications := notifications (tbl w) @ [?row],
                     next_notification_id := Suc (next_notification_id (tbl w))\<rparr>)
                  ?w1"
          show ?thesis
          proof (cases "next_fault ?w2")
            case True
            with nf found payload nf1 mail show ?thesis
              by (simp add: sendNotification_eq(6) call_defs sel_def ins_def)
          next
            case False
            with nf found payload nf1 mail show ?thesis
              by (simp add: sendNotification_eq(7) call_defs sel_def ins_def)
          qed
        qed
      qed
    qed
  qed
qed



lemma try_catch_total:
  assumes "\<And>e w1. \<exists>b. fst (h e w1) = Inr b"
  shows "\<exists>b. fst (try_catch m h w) = Inr b"
proof (cases "m w")
  case (Pair r w1)
  show ?thesis
  proof (cases r)
    case (Inl e)
    with Pair assms [of e w1] show ?thesis by (simp add: try_catch_def)
  next
    case (Inr a)
    with Pair show ?thesis by (simp add: try_catch_def)
  qed
qed

text \<open>
  C5. \<open>sendNotification\<close> never raises, whatever its arguments and whichever collaborator
  call fails, and neither does \<open>sendEmailNotification\<close>: each returns a boolean. The
  trace only grows, and when a collaborator call failed or the result is \<open>false\<close>
  (a missing user, a failed statement, a missing payload) a \<^verbatim>\<open>console.error\<close> line was
  written.
\<close>

theorem sendNotification_never_raises:
  "(\<exists>b. fst (sendNotification uid type data flag w) = Inr b) \<and>
   (\<exists>b. fst (sendEmailNotification to subject content isHtml w) = Inr b) \<and>
   take (length (trace w)) (trace (snd (sendNotification uid type data flag w))) = trace w \<and>
   ((\<exists>e \<in> set (new_effects w (snd (sendNotification uid type data flag w))). is_failure e) \<or>
    fst (sendNotification uid type data flag w) = Inr False \<longrightarrow>
    (\<exists>e \<in> set (new_effects w (snd (sendNotification uid type data flag w))). is_error_log e))"
proof -
  have notify: "\<exists>b. fst (sendNotification uid type data flag w) = Inr b"
    unfolding sendNotification_def
    by (rule try_catch_total) (auto simp: and_then_def console_error_def return_ok_def)
  have email: "\<exists>b. fst (sendEmailNotification to subject content isHtml w) = Inr b"
    unfolding sendEmailNotification_def
    by (rule try_catch_total) (auto simp: and_then_def console_error_def return_ok_def)
  have "\<exists>r w' new. sendNotification uid type data flag w = (r, w') \<and> trace w' = trace w @ new \<and>
           ((r = Inr False \<and> (\<exists>e \<in> set new. is_error_log e)) \<or>
            (r = Inr True \<and> ((\<exists>e \<in> set new. is_failure e) \<longrightarrow> (\<exists>e \<in> set new. is_error_log e))))"
    using sendNotification_outcomes [of uid type data flag w]
    by (elim exE conjE disjE) simp_all
  then obtain r w' new where run: "sendNotification uid type data flag w = (r, w')"
    and tr: "trace w' = trace w @ new"
    and out: "(r = Inr False \<and> (\<exists>e \<in> set new. is_error_log e)) \<or>
              (r = Inr True \<and> ((\<exists>e \<in> set new. is_failure e) \<longrightarrow> (\<exists>e \<in> set new. is_error_log e)))"
    by blast
  from run tr out notify email show ?thesis
    by (auto simp: new_effects_def)
qed



text \<open>
  When the first statement fails the call returns \<open>false\<close> and the failure is logged.
\<close>

theorem sendNotification_never_raises_witness:
  "fst (sendNotification 2 NEW_RATING (Some alice_data) True (demo_world\<lparr>faults := [True]\<rparr>)) =
     Inr False \<and>
   (\<exists>e \<in> set (new_effects (demo_world\<lparr>faults := [True]\<rparr>)
       (snd (sendNotification 2 NEW_RATING (Some alice_data) True (demo_world\<lparr>faults := [True]\<rparr>)))).
      is_failure e) \<and>
   (\<exists>e \<in> set (new_effects (demo_world\<lparr>faults := [True]\<rparr>)
       (snd (sendNotification 2 NEW_RATING (Some alice_data) True (demo_world\<lparr>faults := [True]\<rparr>)))).
      is_error_log e)"
proof -
  let ?w = "demo_world\<lparr>faults := [True]\<rparr>"
  have run: "sendNotification 2 NEW_RATING (Some alice_data) True ?w =
     (Inr False, emit (ConsoleError msg_notify_failed (Some DbError))
            (refused ''SELECT email, name FROM users WHERE id = ?'' ?w))"
    by (rule sendNotification_eq(1)) (simp add: next_fault_def)
  have failed: "\<exists>e \<in> set (new_effects ?w
       (snd (sendNotification 2 NEW_RATING (Some alice_data) True ?w))). is_failure e"
    unfolding run by (simp add: new_effects_def call_defs)
  have result: "fst (sendNotification 2 NEW_RATING (Some alice_data) True ?w) = Inr False"
    unfolding run by simp
  from sendNotification_never_raises [of 2 NEW_RATING "Some alice_data" True ?w] failed result
  show ?thesis by blast
qed

text \<open>
  C4. In every run of \<open>sendNotification\<close> a message is handed to the mail transport only
  after the insert into \<open>notifications\<close> has succeeded; when the transport rejects the
  message the call still returns \<open>true\<close> and the new unread row of the target user is in
  the table; and when the insert fails no message is handed to the transport.
\<close>

theorem notification_before_email:
  "(\<forall>pre m ok post.
      new_effects w (snd (sendNotification uid type data flag w)) = pre @ SendMail m ok # post \<longrightarrow>
      Sql sql_insert_notification_text True \<in> set pre) \<and>
   ((\<exists>m. SendMail m False \<in> set (new_effects w (snd (sendNotification uid type data flag w)))) \<longrightarrow>
      fst (sendNotification uid type data flag w) = Inr True \<and>
      (\<exists>row. notifications (tbl (snd (sendNotification uid type data flag w))) =
                notifications (tbl w) @ [row] \<and>
             n_user_id row = uid \<and> \<not> is_read row)) \<and>
   (Sql sql_insert_notification_text False
      \<in> set (new_effects w (snd (sendNotification uid type data flag w))) \<longrightarrow>
    mail_attempts (new_effects w (snd (sendNotification uid type data flag w))) = [])"
proof -
  have "\<exists>r w' new. sendNotification uid type data flag w = (r, w') \<and> trace w' = trace w @ new \<and>
     (\<forall>pre m ok post. new = pre @ SendMail m ok # post \<longrightarrow>
        Sql sql_insert_notification_text True \<in> set pre) \<and>
     ((\<exists>m. SendMail m False \<in> set new) \<longrightarrow>
        r = Inr True \<and>
        (\<exists>row. notifications (tbl w') = notifications (tbl w) @ [row] \<and>
               n_user_id row = uid \<and> \<not> is_read row)) \<and>
     (Sql sql_insert_notification_text False \<in> set new \<longrightarrow> mail_attempts new = [])"
    using sendNotification_outcomes [of uid type data flag w]
    by (elim exE conjE disjE)
      (auto simp: Cons_eq_append_conv sql_insert_notification_text_def)
  then show ?thesis
    by (auto simp: new_effects_def)
qed

text \<open>
  With the third collaborator call (the mail transport) failing, the notification of user 2
  exists all the same.
\<close>

theorem notification_before_email_witness:
  "(\<exists>m. SendMail m False \<in> set (new_effects (demo_world\<lparr>faults := [False, False, True]\<rparr>)
      (snd (sendNotification 2 NEW_RATING (Some alice_data) True
         (demo_world\<lparr>faults := [False, False, True]\<rparr>))))) \<and>
   fst (sendNotification 2 NEW_RATING (Some alice_data) True
         (demo_world\<lparr>faults := [False, False, True]\<rparr>)) = Inr True \<and>
   (\<exists>row. notifications (tbl (snd (sendNotification 2 NEW_RATING (Some alice_data) True
              (demo_world\<lparr>faults := [False, False, True]\<rparr>)))) =
             notifications (tbl (demo_world\<lparr>faults := [False, False, True]\<rparr>)) @ [row] \<and>
          n_user_id row = 2 \<and> \<not> is_read row)"
proof -
  let ?w = "demo_world\<lparr>faults := [False, False, True]\<rparr>"
  let ?olga = "\<lparr>u_id = 2, u_login = ''olga'', u_name = ''Olga'', u_email = JStr ''olga@example.org'',
           u_role = ''user''\<rparr>"
  have user: "find (\<lambda>u. u_id u = 2) (users (tbl ?w)) = Some ?olga"
    by (simp add: demo_world_def demo_tables_def)
  have "\<exists>w'. sendNotification 2 NEW_RATING (Some alice_data) True ?w = (Inr True, w') \<and>
     (\<exists>m. trace w' = trace ?w @ [Sql ''SELECT email, name FROM users WHERE id = ?'' True,
        Sql sql_insert_notification_text True, SendMail m False,
        ConsoleError msg_mail_failed (Some MailError)])"
    by (subst sendNotification_eq(6) [where usr = ?olga])
      (simp_all add: demo_world_def demo_tables_def next_fault_def call_defs)
  then have failed: "\<exists>m. SendMail m False \<in> set (new_effects ?w
      (snd (sendNotification 2 NEW_RATING (Some alice_data) True ?w)))"
    by (auto simp: new_effects_def)
  with notification_before_email [of ?w 2 NEW_RATING "Some alice_data" True] show ?thesis
    by blast
qed


lemma sublist_behind: "sublist x ys \<Longrightarrow> sublist x (zs @ ys)"
  by (metis append_assoc sublist_def)

lemma sublist_inside: "sublist x ys \<Longrightarrow> sublist x (a @ ys @ b)"
  by (metis sublist_appendI sublist_order.order_trans)

lemma text_alice:
  "notificationText NEW_RATING alice_data =
     text_new_rating_0 @ ''Alice'' @ text_new_rating_1 @ ''Borscht'' @ text_new_rating_2 @ ''5''
       @ text_new_rating_3"
  by (simp add: notificationText_def alice_data_def decimal.simps digit_char_def)

lemma content_alice:
  "generateEmailContent w NEW_RATING alice_data =
     content_new_rating_0 @ ''Alice'' @ content_new_rating_1 @ ''Borscht'' @ content_new_rating_2
       @ ''5'' @ content_new_rating_3 @ ''/recipes/42'' @ content_new_rating_4"
  by (simp add: generateEmailContent_def alice_data_def decimal.simps digit_char_def)

lemma stripped_alice:
  "sublist ''Borscht''
     (strip_tags (content_new_rating_0 @ ''Alice'' @ content_new_rating_1 @ ''Borscht''
        @ content_new_rating_2 @ ''5'' @ content_new_rating_3 @ ''/recipes/42''
        @ content_new_rating_4))"
  by code_simp


lemma no_faults_next: "faults w = [] \<Longrightarrow> \<not> next_fault w"
  by (simp add: next_fault_def)

text \<open>
  C3. For a target user that exists and a run in which no collaborator fails,
  \<open>sendNotification\<close> with type \<open>NEW_RATING\<close> and the payload of the example returns
  \<open>true\<close> and appends exactly one unread row owned by the target, whose text contains
  \<open>Alice\<close>, \<open>Borscht\<close> and \<open>5\<close>. When the e-mail flag is set and the user's e-mail address
  is not empty, exactly one message is handed to the transport and accepted, addressed to
  the user, with the subject of \<open>NEW_RATING\<close> (the bytes of the source's literal, line 238)
  and with \<open>Borscht\<close> in both its text and its HTML body; otherwise no message is handed to
  the transport.
\<close>

theorem notify_new_rating:
  assumes user: "find (\<lambda>u. u_id u = uid) (users (tbl w)) = Some usr"
    and quiet: "faults w = []"
  shows
    "fst (sendNotification uid NEW_RATING (Some alice_data) flag w) = Inr True \<and>
     (\<exists>row. notifications (tbl (snd (sendNotification uid NEW_RATING (Some alice_data) flag w))) =
               notifications (tbl w) @ [row] \<and>
            n_user_id row = uid \<and> \<not> is_read row \<and> n_link row = Some ''/recipes/42'' \<and>
            sublist ''Alice'' (n_text row) \<and> sublist ''Borscht'' (n_text row) \<and>
            sublist ''5'' (n_text row)) \<and>
     (if flag \<and> truthy (u_email usr)
      then \<exists>m html.
             mail_attempts
               (new_effects w (snd (sendNotification uid NEW_RATING (Some alice_data) flag w))) =
               [(m, True)] \<and>
             m_to m = js_to_string (u_email usr) \<and>
             m_subject m = subject_new_rating \<and> m_subject m = getEmailSubject NEW_RATING \<and>
             sublist ''Borscht'' (m_text m) \<and>
             m_html m = Some html \<and> sublist ''Borscht'' html
      else mail_attempts
             (new_effects w (snd (sendNotification uid NEW_RATING (Some alice_data) flag w))) = [])"
proof -
  let ?run = "sendNotification uid NEW_RATING (Some alice_data) flag w"
  let ?w1 = "answered ''SELECT email, name FROM users WHERE id = ?'' (sql_select_user uid) (tbl w) w"
  let ?row = "\<lparr>n_id = next_notification_id (tbl w), n_user_id = uid,
                n_text = notificationText NEW_RATING alice_data,
                n_link = notificationLink alice_data, is_read = False, created_at = clock w\<rparr>"
  let ?w2 = "answered sql_insert_notification_text
               (sql_insert_notification (clock w) (Some uid) (notificationText NEW_RATING alice_data)
                  (notificationLink alice_data))
               ((tbl w)\<lparr>notifications := notifications (tbl w) @ [?row],
                  next_notification_id := Suc (next_notification_id (tbl w))\<rparr>)
               ?w1"
  have nf: "\<not> next_fault w" "\<not> next_fault ?w1" "\<not> next_fault ?w2"
    using quiet by (simp_all add: next_fault_def call_defs)
  have words: "sublist ''Alice'' (n_text ?row)" "sublist ''Borscht'' (n_text ?row)"
    "sublist ''5'' (n_text ?row)"
    by (simp_all only: notification.simps text_alice)
      (intro sublist_appendI sublist_append_rightI sublist_behind)+
  have lnk: "n_link ?row = Some ''/recipes/42''"
    by (simp add: notificationLink_def alice_data_def)
  have html: "sublist ''Borscht'' (emailTemplate w (generateEmailContent w NEW_RATING alice_data))"
  proof -
    have "sublist ''Borscht'' (generateEmailContent w NEW_RATING alice_data)"
      unfolding content_alice
      by (intro sublist_appendI sublist_append_rightI sublist_behind)
    then show ?thesis
      unfolding emailTemplate_def by (rule sublist_inside)
  qed
  have plain: "sublist ''Borscht'' (strip_tags (generateEmailContent w NEW_RATING alice_data))"
    unfolding content_alice by (rule stripped_alice)
  have subj: "getEmailSubject NEW_RATING = subject_new_rating"
    by (simp add: getEmailSubject_def)
  have row_ok: "n_user_id ?row = uid \<and> \<not> is_read ?row \<and> n_link ?row = Some ''/recipes/42'' \<and>
      sublist ''Alice'' (n_text ?row) \<and> sublist ''Borscht'' (n_text ?row) \<and>
      sublist ''5'' (n_text ?row)"
    using words lnk by simp
  show ?thesis
  proof (cases "flag \<and> truthy (u_email usr)")
    case False
    have run: "?run = (Inr True, ?w2)"
      using sendNotification_eq(5) [OF nf(1) user nf(2) False] .
    have new: "mail_attempts (new_effects w ?w2) = []"
      by (simp add: new_effects_def call_defs)
    have rows: "notifications (tbl ?w2) = notifications (tbl w) @ [?row]"
      by (simp add: call_defs)
    have ex: "\<exists>row. notifications (tbl ?w2) = notifications (tbl w) @ [row] \<and>
      n_user_id row = uid \<and> \<not> is_read row \<and> n_link row = Some ''/recipes/42'' \<and>
      sublist ''Alice'' (n_text row) \<and> sublist ''Borscht'' (n_text row) \<and>
      sublist ''5'' (n_text row)"
      using rows row_ok by blast
    have cond: "(flag \<and> truthy (u_email usr)) = False"
      using False by simp
    show ?thesis
      unfolding run fst_conv snd_conv cond if_False new using ex by simp
  next
    case True
    let ?m = "\<lparr>m_from = mail_from_0 @ js_to_string (env_email_from w) @ mail_from_1,
                 m_to = js_to_string (u_email usr), m_subject = getEmailSubject NEW_RATING,
                 m_text = strip_tags (generateEmailContent w NEW_RATING alice_data),
                 m_html = Some (emailTemplate w (generateEmailContent w NEW_RATING alice_data))\<rparr>"
    let ?w3 = "emit (ConsoleLog (msg_notified_0 @ decimal uid @ msg_notified_1
                  @ js_to_string (u_email usr) @ msg_notified_2))
            (emit (ConsoleLog (msg_mail_sent_0 @ js_to_string (env_message_id w) @ msg_mail_sent_1))
               (emit (SendMail ?m True) (consume_fault ?w2)))"
    have run: "?run = (Inr True, ?w3)"
      using sendNotification_eq(7) [OF nf(1) user nf(2) True nf(3)] .
    have new: "mail_attempts (new_effects w ?w3) = [(?m, True)]"
      by (simp add: new_effects_def call_defs)
    have rows: "notifications (tbl ?w3) = notifications (tbl w) @ [?row]"
      by (simp add: call_defs)
    have ex: "\<exists>row. notifications (tbl ?w3) = notifications (tbl w) @ [row] \<and>
      n_user_id row = uid \<and> \<not> is_read row \<and> n_link row = Some ''/recipes/42'' \<and>
      sublist ''Alice'' (n_text row) \<and> sublist ''Borscht'' (n_text row) \<and>
      sublist ''5'' (n_text row)"
      using rows row_ok by blast
    have mail_ok: "m_to ?m = js_to_string (u_email usr) \<and> m_subject ?m = subject_new_rating \<and>
      m_subject ?m = getEmailSubject NEW_RATING \<and> sublist ''Borscht'' (m_text ?m) \<and>
      m_html ?m = Some (emailTemplate w (generateEmailContent w NEW_RATING alice_data)) \<and>
      sublist ''Borscht'' (emailTemplate w (generateEmailContent w NEW_RATING alice_data))"
      using html plain subj by simp
    have exm: "\<exists>m html. [(?m, True)] = [(m, True)] \<and>
             m_to m = js_to_string (u_email usr) \<and>
             m_subject m = subject_new_rating \<and> m_subject m = getEmailSubject NEW_RATING \<and>
             sublist ''Borscht'' (m_text m) \<and>
             m_html m = Some html \<and> sublist ''Borscht'' html"
      using mail_ok by blast
    have cond: "(flag \<and> truthy (u_email usr)) = True"
      using True by simp
    show ?thesis
      unfolding run fst_conv snd_conv cond if_True new using ex exm by simp
  qed
qed

text \<open>User 2 of the concrete world has an e-mail address: one message is sent.\<close>

theorem notify_new_rating_witness:
  "find (\<lambda>u. u_id u = 2) (users (tbl demo_world)) =
     Some \<lparr>u_id = 2, u_login = ''olga'', u_name = ''Olga'', u_email = JStr ''olga@example.org'',
           u_role = ''user''\<rparr> \<and>
   faults demo_world = [] \<and>
   fst (sendNotification 2 NEW_RATING (Some alice_data) True demo_world) = Inr True \<and>
   (\<exists>row. notifications (tbl (snd (sendNotification 2 NEW_RATING (Some alice_data) True demo_world))) =
             notifications (tbl demo_world) @ [row] \<and>
          n_user_id row = 2 \<and> \<not> is_read row \<and>
          sublist ''Alice'' (n_text row) \<and> sublist ''Borscht'' (n_text row) \<and>
          sublist ''5'' (n_text row)) \<and>
   (\<exists>m html.
      mail_attempts (new_effects demo_world
        (snd (sendNotification 2 NEW_RATING (Some alice_data) True demo_world))) = [(m, True)] \<and>
      m_to m = ''olga@example.org'' \<and> m_subject m = subject_new_rating \<and>
      sublist ''Borscht'' (m_text m) \<and> m_html m = Some html \<and> sublist ''Borscht'' html)"
proof -
  let ?olga = "\<lparr>u_id = 2, u_login = ''olga'', u_name = ''Olga'', u_email = JStr ''olga@example.org'',
           u_role = ''user''\<rparr>"
  have user: "find (\<lambda>u. u_id u = 2) (users (tbl demo_world)) = Some ?olga"
    by (simp add: demo_world_def demo_tables_def)
  have quiet: "faults demo_world = []"
    by (simp add: demo_world_def)
  from notify_new_rating [OF user quiet, of True] user quiet show ?thesis
    by simp blast
qed


section \<open>Read state\<close>

lemma read_monotone_refl: "read_monotone t t"
  by (simp add: read_monotone_def)

lemma read_monotone_trans:
  assumes "read_monotone a b" "read_monotone b c"
  shows "read_monotone a c"
  unfolding read_monotone_def
proof (intro conjI allI impI)
  show "length (notifications a) \<le> length (notifications c)"
    using assms by (simp add: read_monotone_def)
next
  fix i assume i: "i < length (notifications a)"
  then have ib: "i < length (notifications b)"
    using assms(1) by (simp add: read_monotone_def)
  from assms(1) i have ab: "notifications b ! i = notifications a ! i \<or>
         (\<not> is_read (notifications a ! i) \<and>
          notifications b ! i = (notifications a ! i)\<lparr>is_read := True\<rparr>)"
    by (simp add: read_monotone_def)
  from assms(2) ib have bc: "notifications c ! i = notifications b ! i \<or>
         (\<not> is_read (notifications b ! i) \<and>
          notifications c ! i = (notifications b ! i)\<lparr>is_read := True\<rparr>)"
    by (simp add: read_monotone_def)
  from ab bc show "notifications c ! i = notifications a ! i \<or>
         (\<not> is_read (notifications a ! i) \<and>
          notifications c ! i = (notifications a ! i)\<lparr>is_read := True\<rparr>)"
    by auto
qed

lemma read_monotone_append:
  "read_monotone t (t\<lparr>notifications := notifications t @ rows, next_notification_id := k\<rparr>)"
  by (simp add: read_monotone_def nth_append)

lemma read_monotone_mark:
  "read_monotone t (t\<lparr>notifications :=
      map (\<lambda>n. if P n then n\<lparr>is_read := True\<rparr> else n) (notifications t)\<rparr>)"
  by (auto simp: read_monotone_def)

lemma createNotification_tbl_eq:
  "tbl (snd (createNotification uid body lnk w)) =
     (case uid of
        None \<Rightarrow> tbl w
      | Some u \<Rightarrow>
          if \<not> next_fault w \<and> u \<in> set (map u_id (users (tbl w)))
          then (tbl w)\<lparr>notifications := notifications (tbl w) @
                 [\<lparr>n_id = next_notification_id (tbl w), n_user_id = u, n_text = body,
                   n_link = lnk, is_read = False, created_at = clock w\<rparr>],
                 next_notification_id := Suc (next_notification_id (tbl w))\<rparr>
          else tbl w)"
  by (simp add: createNotification_def io_defs sql_insert_notification_def split: option.splits)

lemma createNotification_tbl:
  "tbl (snd (createNotification uid body lnk w)) = tbl w \<or>
   (\<exists>row. \<not> is_read row \<and> tbl (snd (createNotification uid body lnk w)) =
      (tbl w)\<lparr>notifications := notifications (tbl w) @ [row],
              next_notification_id := Suc (next_notification_id (tbl w))\<rparr>)"
proof (cases "tbl (snd (createNotification uid body lnk w)) = tbl w")
  case True
  then show ?thesis by simp
next
  case False
  then obtain u where "tbl (snd (createNotification uid body lnk w)) =
     (tbl w)\<lparr>notifications := notifications (tbl w) @
                 [\<lparr>n_id = next_notification_id (tbl w), n_user_id = u, n_text = body,
                   n_link = lnk, is_read = False, created_at = clock w\<rparr>],
                 next_notification_id := Suc (next_notification_id (tbl w))\<rparr>"
    unfolding createNotification_tbl_eq by (auto split: option.splits if_splits)
  moreover have "\<not> is_read \<lparr>n_id = next_notification_id (tbl w), n_user_id = u, n_text = body,
                   n_link = lnk, is_read = False, created_at = clock w\<rparr>"
    by simp
  ultimately show ?thesis by blast
qed

lemma getUserNotifications_tbl: "tbl (snd (getUserNotifications uid lim w)) = tbl w"
  by (simp add: getUserNotifications_def io_defs sql_select_notifications_def)

lemma getUnreadCount_tbl: "tbl (snd (getUnreadCount uid w)) = tbl w"
  by (simp add: getUnreadCount_def io_defs sql_count_unread_def)

lemma markAllAsRead_tbl:
  "tbl (snd (markAllAsRead uid w)) =
     (if next_fault w then tbl w
      else (tbl w)\<lparr>notifications :=
        map (\<lambda>n. if n_user_id n = uid \<and> \<not> is_read n then n\<lparr>is_read := True\<rparr> else n)
          (notifications (tbl w))\<rparr>)"
  by (simp add: markAllAsRead_def io_defs sql_mark_all_read_def)

lemma sendNotification_tbl:
  "tbl (snd (sendNotification uid type data flag w)) = tbl w \<or>
   (\<exists>row. tbl (snd (sendNotification uid type data flag w)) =
      (tbl w)\<lparr>notifications := notifications (tbl w) @ [row],
              next_notification_id := Suc (next_notification_id (tbl w))\<rparr>)"
  using sendNotification_outcomes [of uid type data flag w]
  by (elim exE conjE disjE) auto

lemma run_op_read_monotone: "read_monotone (tbl w) (tbl (run_op x w))"
proof (cases x)
  case (OpCreate uid body lnk)
  then show ?thesis
    using createNotification_tbl [of uid body lnk w]
    by (auto simp: read_monotone_refl read_monotone_append)
next
  case (OpList uid lim)
  then show ?thesis by (simp add: getUserNotifications_tbl read_monotone_refl)
next
  case (OpCount uid)
  then show ?thesis by (simp add: getUnreadCount_tbl read_monotone_refl)
next
  case (OpMarkRead nid uid)
  then show ?thesis
    using markAsRead_tbl [of nid uid w]
    by (auto simp: read_monotone_refl read_monotone_mark)
next
  case (OpMarkAllRead uid)
  then show ?thesis
    by (simp add: markAllAsRead_tbl read_monotone_refl read_monotone_mark)
next
  case (OpNotify uid type data flag)
  then show ?thesis
    using sendNotification_tbl [of uid type data flag w]
    by (auto simp: read_monotone_refl read_monotone_append)
qed

lemma run_ops_read_monotone: "read_monotone (tbl w) (tbl (run_ops ops w))"
proof (induction ops arbitrary: w)
  case Nil
  show ?case by (simp add: read_monotone_refl)
next
  case (Cons x xs)
  have "read_monotone (tbl w) (tbl (run_op x w))"
    by (rule run_op_read_monotone)
  moreover have "read_monotone (tbl (run_op x w)) (tbl (run_ops xs (run_op x w)))"
    by (rule Cons.IH)
  ultimately show ?case
    by (simp add: read_monotone_trans)
qed

lemma read_monotone_keeps_read:
  assumes "read_monotone t t'" "n \<in> set (notifications t)" "is_read n"
  shows "n \<in> set (notifications t')"
proof -
  from assms(2) obtain i where i: "i < length (notifications t)" "notifications t ! i = n"
    by (auto simp: in_set_conv_nth)
  with assms(1,3) have "notifications t' ! i = n" "i < length (notifications t')"
    by (auto simp: read_monotone_def)
  then show ?thesis
    by (auto simp: in_set_conv_nth)
qed


text \<open>
  C10. For every sequence of operations of the notification core, from every world: the
  rows of \<open>notifications\<close> keep their places, and a row either stays as it was or was
  unread and is now read, so a row that is read stays in the table unchanged. A row that
  \<open>createNotification\<close> adds is unread.
\<close>

theorem read_state_monotone:
  "read_monotone (tbl w) (tbl (run_ops ops w)) \<and>
   (\<forall>n \<in> set (notifications (tbl w)). is_read n \<longrightarrow> n \<in> set (notifications (tbl (run_ops ops w)))) \<and>
   (\<forall>r \<in> set (drop (length (notifications (tbl w)))
                 (notifications (tbl (snd (createNotification uid txt lnk w))))). \<not> is_read r)"
proof -
  have created: "\<forall>r \<in> set (drop (length (notifications (tbl w)))
                 (notifications (tbl (snd (createNotification uid txt lnk w))))). \<not> is_read r"
    using createNotification_tbl [of uid "txt" lnk w] by auto
  show ?thesis
    using run_ops_read_monotone [of w ops] read_monotone_keeps_read created by blast
qed


text \<open>
  Notification 2 of the concrete world is read, and still is after a sequence of four
  operations.
\<close>

theorem read_state_monotone_witness:
  "is_read (notifications (tbl demo_world) ! 1) \<and>
   notifications (tbl (run_ops [OpMarkAllRead 2, OpCreate (Some 2) ''new'' None, OpMarkRead 3 3,
      OpNotify 3 NEW_RATING (Some alice_data) True] demo_world)) ! 1 =
     notifications (tbl demo_world) ! 1"
proof -
  have "read_monotone (tbl demo_world)
     (tbl (run_ops [OpMarkAllRead 2, OpCreate (Some 2) ''new'' None, OpMarkRead 3 3,
        OpNotify 3 NEW_RATING (Some alice_data) True] demo_world))"
    using read_state_monotone by blast
  moreover have "is_read (notifications (tbl demo_world) ! 1)"
    "1 < length (notifications (tbl demo_world))"
    by (simp_all add: demo_world_def demo_tables_def)
  ultimately show ?thesis
    unfolding read_monotone_def by blast
qed

section \<open>Marking all read, and listing\<close>

lemma getUnreadCount_result:
  "fst (getUnreadCount uid w) = Inr (if next_fault w then 0 else unread uid (tbl w))"
  by (simp add: getUnreadCount_def io_defs sql_count_unread_def unread_def)

lemma unread_after_mark_all:
  "unread uid (t\<lparr>notifications :=
     map (\<lambda>n. if n_user_id n = uid \<and> \<not> is_read n then n\<lparr>is_read := True\<rparr> else n)
       (notifications t)\<rparr>) = 0"
  by (simp add: unread_def filter_empty_conv)

lemma mark_all_twice:
  "map (\<lambda>n. if n_user_id n = uid \<and> \<not> is_read n then n\<lparr>is_read := True\<rparr> else n)
     (map (\<lambda>n. if n_user_id n = uid \<and> \<not> is_read n then n\<lparr>is_read := True\<rparr> else n) ns) =
   map (\<lambda>n. if n_user_id n = uid \<and> \<not> is_read n then n\<lparr>is_read := True\<rparr> else n) ns"
  by (induction ns) auto


text \<open>
  C8. When the store does not fail on the update, \<open>markAllAsRead U\<close> leaves \<open>U\<close> without
  unread rows and \<open>getUnreadCount U\<close> then returns 0; a second \<open>markAllAsRead U\<close> leaves
  the tables exactly as the first one left them (whether or not the store fails on it),
  and the count is 0 again.
\<close>

theorem markAllAsRead_then_zero:
  assumes "\<not> next_fault w"
  shows
    "fst (markAllAsRead uid w) = Inr () \<and>
     unread uid (tbl (snd (markAllAsRead uid w))) = 0 \<and>
     fst (getUnreadCount uid (snd (markAllAsRead uid w))) = Inr 0 \<and>
     tbl (snd (markAllAsRead uid (snd (markAllAsRead uid w)))) = tbl (snd (markAllAsRead uid w)) \<and>
     unread uid (tbl (snd (markAllAsRead uid (snd (markAllAsRead uid w))))) = 0 \<and>
     fst (getUnreadCount uid (snd (markAllAsRead uid (snd (markAllAsRead uid w))))) = Inr 0"
proof -
  let ?w1 = "snd (markAllAsRead uid w)"
  let ?w2 = "snd (markAllAsRead uid ?w1)"
  have ret: "fst (markAllAsRead uid w) = Inr ()"
    by (simp add: markAllAsRead_def io_defs sql_mark_all_read_def)
  have t1: "tbl ?w1 = (tbl w)\<lparr>notifications :=
        map (\<lambda>n. if n_user_id n = uid \<and> \<not> is_read n then n\<lparr>is_read := True\<rparr> else n)
          (notifications (tbl w))\<rparr>"
    using assms by (simp add: markAllAsRead_tbl)
  have z1: "unread uid (tbl ?w1) = 0"
    unfolding t1 by (rule unread_after_mark_all)
  have t2: "tbl ?w2 = tbl ?w1"
  proof (cases "next_fault ?w1")
    case True
    then show ?thesis by (simp add: markAllAsRead_tbl [of uid ?w1])
  next
    case False
    then have "tbl ?w2 = (tbl ?w1)\<lparr>notifications :=
        map (\<lambda>n. if n_user_id n = uid \<and> \<not> is_read n then n\<lparr>is_read := True\<rparr> else n)
          (notifications (tbl ?w1))\<rparr>"
      by (simp add: markAllAsRead_tbl [of uid ?w1])
    then show ?thesis
      unfolding t1 by (simp add: mark_all_twice)
  qed
  have z2: "unread uid (tbl ?w2) = 0"
    using t2 z1 by simp
  have c1: "fst (getUnreadCount uid ?w1) = Inr 0"
    using z1 by (simp add: getUnreadCount_result)
  have c2: "fst (getUnreadCount uid ?w2) = Inr 0"
    using z2 by (simp add: getUnreadCount_result)
  from ret z1 c1 t2 z2 c2 show ?thesis by simp
qed


text \<open>User 2 of the concrete world has one unread notification before, none after.\<close>

theorem markAllAsRead_then_zero_witness:
  "\<not> next_fault demo_world \<and> unread 2 (tbl demo_world) = 1 \<and>
   unread 2 (tbl (snd (markAllAsRead 2 demo_world))) = 0 \<and>
   fst (getUnreadCount 2 (snd (markAllAsRead 2 demo_world))) = Inr 0 \<and>
   tbl (snd (markAllAsRead 2 (snd (markAllAsRead 2 demo_world)))) =
     tbl (snd (markAllAsRead 2 demo_world))"
proof -
  have quiet: "\<not> next_fault demo_world"
    by (simp add: next_fault_def demo_world_def)
  have before: "unread 2 (tbl demo_world) = 1"
    by (simp add: unread_def demo_world_def demo_tables_def)
  from markAllAsRead_then_zero [OF quiet, of 2] quiet before show ?thesis
    by simp
qed

lemma newest_first_sorted:
  "sorted_wrt (\<lambda>a b. created_at b \<le> created_at a) (newest_first ns)"
proof -
  have "sorted (map created_at (sort_key created_at ns))"
    by simp
  then have "sorted_wrt (\<lambda>a b. created_at a \<le> created_at b) (sort_key created_at ns)"
    by (simp add: sorted_wrt_map)
  then show ?thesis
    by (simp add: newest_first_def sorted_wrt_rev)
qed

lemma newest_first_set: "set (newest_first ns) = set ns"
  by (simp add: newest_first_def)

lemma newest_first_length: "length (newest_first ns) = length ns"
  by (simp add: newest_first_def)

lemma sorted_wrt_take_drop:
  assumes "sorted_wrt P xs" "a \<in> set (take k xs)" "b \<in> set (drop k xs)"
  shows "P a b"
proof -
  have "sorted_wrt P (take k xs @ drop k xs)"
    using assms(1) by simp
  then show ?thesis
    using assms(2,3) unfolding sorted_wrt_append by blast
qed

lemma getUserNotifications_eq:
  "getUserNotifications uid limit w =
     (if next_fault w
      then (Inr [], emit (ConsoleError msg_list_failed (Some DbError))
              (refused ''SELECT * FROM notifications WHERE user_id = ? ORDER BY created_at DESC LIMIT ?'' w))
      else if (case limit of None \<Rightarrow> 10 | Some l \<Rightarrow> l) < 0
      then (Inr [], emit (ConsoleError msg_list_failed (Some DbError))
              (refused ''SELECT * FROM notifications WHERE user_id = ? ORDER BY created_at DESC LIMIT ?'' w))
      else (Inr (take (nat (case limit of None \<Rightarrow> 10 | Some l \<Rightarrow> l))
                  (newest_first (filter (\<lambda>n. n_user_id n = uid) (notifications (tbl w))))),
            answered ''SELECT * FROM notifications WHERE user_id = ? ORDER BY created_at DESC LIMIT ?''
              (sql_select_notifications uid (case limit of None \<Rightarrow> 10 | Some l \<Rightarrow> l)) (tbl w) w))"
  by (simp add: getUserNotifications_def try_catch_def and_then_def db_query_def
      console_error_def return_ok_def sql_select_notifications_def call_defs)


text \<open>
  C6. \<open>getUserNotifications\<close> always returns a list, never an exception, and changes no
  row. The rows it returns belong to the user and are in the table, are ordered newest
  first by \<open>created_at\<close>, and are at most \<open>limit\<close> many (10 when no limit is given). When
  the store does not fail they are as many as the limit and the user's rows allow, and no
  row of the user that is left out is newer than a row returned. When the store fails the
  list is empty and a \<^verbatim>\<open>console.error\<close> line was written.
\<close>

theorem getUserNotifications_newest_first:
  "\<exists>rows. fst (getUserNotifications uid limit w) = Inr rows \<and>
     sorted_wrt (\<lambda>a b. created_at b \<le> created_at a) rows \<and>
     length rows \<le> nat (case limit of None \<Rightarrow> 10 | Some l \<Rightarrow> l) \<and>
     (\<forall>n \<in> set rows. n \<in> set (notifications (tbl w)) \<and> n_user_id n = uid) \<and>
     (\<not> next_fault w \<longrightarrow>
        length rows = min (nat (case limit of None \<Rightarrow> 10 | Some l \<Rightarrow> l))
                        (length (filter (\<lambda>n. n_user_id n = uid) (notifications (tbl w)))) \<and>
        (\<forall>a \<in> set rows. \<forall>b \<in> set (notifications (tbl w)).
           n_user_id b = uid \<and> b \<notin> set rows \<longrightarrow> created_at b \<le> created_at a)) \<and>
     (next_fault w \<longrightarrow>
        rows = [] \<and>
        (\<exists>e \<in> set (new_effects w (snd (getUserNotifications uid limit w))). is_error_log e)) \<and>
     tbl (snd (getUserNotifications uid limit w)) = tbl w"
proof -
  define lim where "lim = (case limit of None \<Rightarrow> (10::int) | Some l \<Rightarrow> l)"
  define mine where "mine = filter (\<lambda>n. n_user_id n = uid) (notifications (tbl w))"
  define sql where
    "sql = ''SELECT * FROM notifications WHERE user_id = ? ORDER BY created_at DESC LIMIT ?''"
  define bad where
    "bad = emit (ConsoleError msg_list_failed (Some DbError)) (refused sql w)"
  have eq: "getUserNotifications uid limit w =
     (if next_fault w then (Inr [], bad)
      else if lim < 0 then (Inr [], bad)
      else (Inr (take (nat lim) (newest_first mine)), answered sql (sql_select_notifications uid lim) (tbl w) w))"
    unfolding lim_def mine_def sql_def bad_def by (rule getUserNotifications_eq)
  have bad_tbl: "tbl bad = tbl w"
    by (simp add: bad_def call_defs)
  have bad_log: "\<exists>e \<in> set (new_effects w bad). is_error_log e"
    by (simp add: bad_def new_effects_def call_defs)
  have good_tbl: "tbl (answered sql (sql_select_notifications uid lim) (tbl w) w) = tbl w"
    by (simp add: call_defs)
  have goal: "\<exists>rows. fst (getUserNotifications uid limit w) = Inr rows \<and>
     sorted_wrt (\<lambda>a b. created_at b \<le> created_at a) rows \<and>
     length rows \<le> nat lim \<and>
     (\<forall>n \<in> set rows. n \<in> set (notifications (tbl w)) \<and> n_user_id n = uid) \<and>
     (\<not> next_fault w \<longrightarrow>
        length rows = min (nat lim) (length mine) \<and>
        (\<forall>a \<in> set rows. \<forall>b \<in> set (notifications (tbl w)).
           n_user_id b = uid \<and> b \<notin> set rows \<longrightarrow> created_at b \<le> created_at a)) \<and>
     (next_fault w \<longrightarrow>
        rows = [] \<and>
        (\<exists>e \<in> set (new_effects w (snd (getUserNotifications uid limit w))). is_error_log e)) \<and>
     tbl (snd (getUserNotifications uid limit w)) = tbl w"
  proof (cases "next_fault w")
    case True
    then have run: "getUserNotifications uid limit w = (Inr [], bad)"
      by (simp add: eq)
    show ?thesis
      unfolding run using True bad_tbl bad_log by (intro exI [of _ "[]"]) simp
  next
    case nf: False
    show ?thesis
    proof (cases "lim < 0")
      case True
      with nf have run: "getUserNotifications uid limit w = (Inr [], bad)"
        by (simp add: eq)
      from True have z: "nat lim = 0" by simp
      show ?thesis
        unfolding run using nf bad_tbl z by (intro exI [of _ "[]"]) simp
    next
      case False
      let ?rows = "take (nat lim) (newest_first mine)"
      from nf False have run: "getUserNotifications uid limit w =
          (Inr ?rows, answered sql (sql_select_notifications uid lim) (tbl w) w)"
        by (simp add: eq)
      have sorted_all: "sorted_wrt (\<lambda>a b. created_at b \<le> created_at a) (newest_first mine)"
        by (rule newest_first_sorted)
      have srt: "sorted_wrt (\<lambda>a b. created_at b \<le> created_at a) ?rows"
        using sorted_all by (rule sorted_wrt_take)
      have len: "length ?rows = min (nat lim) (length mine)"
        by (simp add: newest_first_length min.commute)
      have bound: "length ?rows \<le> nat lim"
        by simp
      have own: "\<forall>n \<in> set ?rows. n \<in> set (notifications (tbl w)) \<and> n_user_id n = uid"
      proof
        fix n assume "n \<in> set ?rows"
        then have "n \<in> set (newest_first mine)" by (rule in_set_takeD)
        then show "n \<in> set (notifications (tbl w)) \<and> n_user_id n = uid"
          by (simp add: newest_first_set mine_def)
      qed
      have top: "\<forall>a \<in> set ?rows. \<forall>b \<in> set (notifications (tbl w)).
           n_user_id b = uid \<and> b \<notin> set ?rows \<longrightarrow> created_at b \<le> created_at a"
      proof (intro ballI impI)
        fix a b
        assume a: "a \<in> set ?rows" and b: "b \<in> set (notifications (tbl w))"
          and rest: "n_user_id b = uid \<and> b \<notin> set ?rows"
        from b rest have "b \<in> set (newest_first mine)"
          by (simp add: newest_first_set mine_def)
        then have "b \<in> set ?rows \<union> set (drop (nat lim) (newest_first mine))"
          by (metis append_take_drop_id set_append)
        with rest have "b \<in> set (drop (nat lim) (newest_first mine))" by blast
        with sorted_all a show "created_at b \<le> created_at a"
          by (rule sorted_wrt_take_drop)
      qed
      show ?thesis
        unfolding run fst_conv snd_conv good_tbl
        using nf srt len bound own top by (intro exI [of _ ?rows]) blast
    qed
  qed
  then show ?thesis
    unfolding lim_def mine_def .
qed


text \<open>
  With limit 1, user 2 of the concrete world gets the newer of the two notifications; when
  the statement fails, the empty list.
\<close>

theorem getUserNotifications_newest_first_witness:
  "fst (getUserNotifications 2 (Some 1) demo_world) =
     Inr [\<lparr>n_id = 2, n_user_id = 2, n_text = ''second'', n_link = Some ''/recipes/42'',
           is_read = True, created_at = 30\<rparr>] \<and>
   fst (getUserNotifications 2 (Some 1) (demo_world\<lparr>faults := [True]\<rparr>)) = Inr []"
proof -
  let ?bad = "demo_world\<lparr>faults := [True]\<rparr>"
  have down: "next_fault ?bad"
    by (simp add: next_fault_def)
  from getUserNotifications_newest_first [of 2 "Some 1" ?bad] down
  have empty: "fst (getUserNotifications 2 (Some 1) ?bad) = Inr []"
    by auto
  have good: "fst (getUserNotifications 2 (Some 1) demo_world) =
     Inr [\<lparr>n_id = 2, n_user_id = 2, n_text = ''second'', n_link = Some ''/recipes/42'',
           is_read = True, created_at = 30\<rparr>]"
    by (simp add: getUserNotifications_eq next_fault_def demo_world_def demo_tables_def
        newest_first_def)
  from good empty show ?thesis by simp
qed

section \<open>Properties of the rating handler\<close>



lemma createNotification_trace:
  "\<exists>new. trace (snd (createNotification uid body lnk w)) = trace w @ new"
  by (simp add: createNotification_def io_defs sql_insert_notification_def split: option.splits)

lemma post_recipe_rating_select_fault:
  "next_fault w \<Longrightarrow>
   post_recipe_rating (Some u) rid rating w =
     (Inl DbError, refused ''SELECT user_id, title FROM recipes WHERE id = ?'' w)"
  by (simp add: post_recipe_rating_def and_then_def db_query_fault)

lemma post_recipe_rating_own:
  assumes "\<not> next_fault w" "find (\<lambda>r. r_id r = rid) (recipes (tbl w)) = Some rc"
    "r_user_id rc = Some (s_id u)"
  shows "post_recipe_rating (Some u) rid rating w =
     (Inr (Send 403 msg_own_recipe),
      answered ''SELECT user_id, title FROM recipes WHERE id = ?'' (sql_select_recipe rid) (tbl w) w)"
proof -
  have sel: "db_query ''SELECT user_id, title FROM recipes WHERE id = ?'' (sql_select_recipe rid) w =
      (Inr (Some rc), answered ''SELECT user_id, title FROM recipes WHERE id = ?'' (sql_select_recipe rid) (tbl w) w)"
    using assms(1,2) by (simp add: db_query_def sql_select_recipe_def call_defs)
  show ?thesis
    using assms(3) by (simp add: post_recipe_rating_def and_then_def sel return_ok_def)
qed







text \<open>
  C9. When the signed-in user owns the recipe, the handler leaves every table unchanged:
  the only call it makes is the \<^verbatim>\<open>SELECT\<close> of the recipe, and it answers 403 (or, when
  the \<^verbatim>\<open>SELECT\<close> itself fails, throws). No rating is inserted and no notification is
  created.
\<close>

theorem own_recipe_rejected:
  assumes "find (\<lambda>r. r_id r = rid) (recipes (tbl w)) = Some rc"
    and "r_user_id rc = Some (s_id u)"
  shows
    "tbl (snd (post_recipe_rating (Some u) rid rating w)) = tbl w \<and>
     new_effects w (snd (post_recipe_rating (Some u) rid rating w)) =
       [Sql ''SELECT user_id, title FROM recipes WHERE id = ?'' (\<not> next_fault w)] \<and>
     fst (post_recipe_rating (Some u) rid rating w) =
       (if next_fault w then Inl DbError else Inr (Send 403 msg_own_recipe))"
proof (cases "next_fault w")
  case True
  then show ?thesis
    by (simp add: post_recipe_rating_select_fault new_effects_def call_defs)
next
  case False
  then show ?thesis
    by (simp add: post_recipe_rating_own [OF False assms] new_effects_def call_defs)
qed


text \<open>User 2 of the concrete world owns recipe 42.\<close>

theorem own_recipe_rejected_witness:
  "find (\<lambda>r. r_id r = 42) (recipes (tbl demo_world)) =
     Some \<lparr>r_id = 42, r_user_id = Some 2, r_title = ''Borscht''\<rparr> \<and>
   tbl (snd (post_recipe_rating
     (Some \<lparr>s_id = 2, s_name = ''Olga'', s_email = JStr ''olga@example.org'', s_role = ''user''\<rparr>)
     42 (JStr ''5'') demo_world)) = tbl demo_world \<and>
   fst (post_recipe_rating
     (Some \<lparr>s_id = 2, s_name = ''Olga'', s_email = JStr ''olga@example.org'', s_role = ''user''\<rparr>)
     42 (JStr ''5'') demo_world) = Inr (Send 403 msg_own_recipe)"
proof -
  let ?olga = "\<lparr>s_id = 2, s_name = ''Olga'', s_email = JStr ''olga@example.org'', s_role = ''user''\<rparr>"
  let ?rc = "\<lparr>r_id = 42, r_user_id = Some 2, r_title = ''Borscht''\<rparr>"
  have recipe: "find (\<lambda>r. r_id r = 42) (recipes (tbl demo_world)) = Some ?rc"
    by (simp add: demo_world_def demo_tables_def)
  have owner: "r_user_id ?rc = Some (s_id ?olga)"
    by simp
  have quiet: "\<not> next_fault demo_world"
    by (simp add: next_fault_def demo_world_def)
  from own_recipe_rejected [OF recipe owner, of "JStr ''5''"] recipe quiet show ?thesis
    by simp
qed








section \<open>Properties of the deletion of a user\<close>

text \<open>
  First the handler when connection 0 answers every statement of the request. A
  computation that fails within its first \<open>n\<close> statements: when the fault schedule has
  its first set flag at a position below \<open>n\<close>, the computation raises the store's error,
  has taken the flags up to and including that one, and has stayed on the connection
  without touching what its transaction saved. The lemmas below carry this through one
  statement, through the loop and through the whole cascade.
\<close>

lemma step_fails_within:
  fixes K :: "'a \<Rightarrow> 'b io"
  assumes rest: "\<And>a w j. j < n \<Longrightarrow> faults w = replicate j False @ True # fs \<Longrightarrow> pinned t0 w \<Longrightarrow>
      \<exists>w'. K a w = (Inl DbError, w') \<and> faults w' = fs \<and> pinned t0 w'"
    and total: "\<And>t. \<exists>a t'. q t = Inr (a, t')"
    and j: "j < Suc n" and sched: "faults w = replicate j False @ True # fs" and snap: "pinned t0 w"
  shows "\<exists>w'. and_then (db_query sql q) K w = (Inl DbError, w') \<and> faults w' = fs \<and> pinned t0 w'"
proof (cases j)
  case 0
  with sched have "next_fault w" by (simp add: next_fault_def)
  then have "and_then (db_query sql q) K w = (Inl DbError, refused sql w)"
    by (simp add: and_then_def db_query_fault)
  moreover have "faults (refused sql w) = fs"
    using sched 0 by (simp add: call_defs)
  moreover have "pinned t0 (refused sql w)"
    using snap by (simp add: pinned_def call_defs)
  ultimately show ?thesis by blast
next
  case (Suc j')
  with sched have nf: "\<not> next_fault w" by (simp add: next_fault_def)
  obtain a t' where q: "q (tbl w) = Inr (a, t')"
    using total by blast
  let ?w1 = "answered sql q t' w"
  have run: "and_then (db_query sql q) K w = K a ?w1"
    using nf q by (simp add: and_then_def db_query_def)
  have f1: "faults ?w1 = replicate j' False @ True # fs"
    using sched Suc by (simp add: call_defs)
  have s1: "pinned t0 ?w1"
    using snap by (simp add: pinned_def call_defs others_see_def next_conn_def)
  from j Suc have "j' < n" by simp
  from rest [OF this f1 s1] show ?thesis
    unfolding run .
qed

lemma control_fails_first:
  assumes "faults w = True # fs" "pinned t0 w"
  shows "\<exists>w'. and_then (db_control sql f) K w = (Inl DbError, w') \<and> faults w' = fs \<and> pinned t0 w'"
  using assms
  by (simp add: and_then_def db_control_def next_fault_def call_defs pinned_def)

lemma loop_fails_within:
  fixes K :: "unit \<Rightarrow> 'b io"
  assumes rest: "\<And>a w j. j < n \<Longrightarrow> faults w = replicate j False @ True # fs \<Longrightarrow> pinned t0 w \<Longrightarrow>
      \<exists>w'. K a w = (Inl DbError, w') \<and> faults w' = fs \<and> pinned t0 w'"
  shows "j < 4 * length ids + n \<Longrightarrow> faults w = replicate j False @ True # fs \<Longrightarrow> pinned t0 w \<Longrightarrow>
      \<exists>w'. and_then (delete_recipe_data ids) K w = (Inl DbError, w') \<and> faults w' = fs \<and> pinned t0 w'"
proof (induction ids arbitrary: j w)
  case Nil
  have "and_then (delete_recipe_data []) K w = K () w"
    by (simp add: and_then_def return_ok_def)
  with rest [of j w "()"] Nil show ?case by simp
next
  case (Cons rid ids)
  let ?K4 = "\<lambda>_::unit. and_then (delete_recipe_data ids) K"
  let ?K3 = "\<lambda>_::unit. and_then
     (db_query ''DELETE FROM reviews WHERE recipe_id = ?'' (sql_delete_reviews_of_recipe rid)) ?K4"
  let ?K2 = "\<lambda>_::unit. and_then
     (db_query ''DELETE FROM ratings WHERE recipe_id = ?'' (sql_delete_ratings_of_recipe rid)) ?K3"
  let ?K1 = "\<lambda>_::unit. and_then
     (db_query ''DELETE FROM recipe_categories WHERE recipe_id = ?''
        (sql_delete_recipe_categories rid)) ?K2"
  have assoc: "and_then (and_then m g) K = and_then m (\<lambda>a. and_then (g a) K)" for m :: "unit io" and g
    by (rule ext) (simp add: and_then_def split: prod.splits sum.splits)
  have unfold: "and_then (delete_recipe_data (rid # ids)) K =
     and_then (db_query ''DELETE FROM recipe_steps WHERE recipe_id = ?'' (sql_delete_steps rid)) ?K1"
    by (simp add: assoc)
  have p4: "\<exists>w'. ?K4 a w = (Inl DbError, w') \<and> faults w' = fs \<and> pinned t0 w'"
    if "j < 4 * length ids + n" "faults w = replicate j False @ True # fs" "pinned t0 w" for a w j
    using Cons.IH [OF that] .
  have p3: "\<exists>w'. ?K3 a w = (Inl DbError, w') \<and> faults w' = fs \<and> pinned t0 w'"
    if "j < Suc (4 * length ids + n)" "faults w = replicate j False @ True # fs" "pinned t0 w" for a w j
    using that by (intro step_fails_within [where K = ?K4 and n = "4 * length ids + n"] p4)
      (auto simp: sql_delete_reviews_of_recipe_def)
  have p2: "\<exists>w'. ?K2 a w = (Inl DbError, w') \<and> faults w' = fs \<and> pinned t0 w'"
    if "j < Suc (Suc (4 * length ids + n))" "faults w = replicate j False @ True # fs" "pinned t0 w" for a w j
    using that by (intro step_fails_within [where K = ?K3 and n = "Suc (4 * length ids + n)"] p3)
      (auto simp: sql_delete_ratings_of_recipe_def)
  have p1: "\<exists>w'. ?K1 a w = (Inl DbError, w') \<and> faults w' = fs \<and> pinned t0 w'"
    if "j < Suc (Suc (Suc (4 * length ids + n)))" "faults w = replicate j False @ True # fs" "pinned t0 w" for a w j
    using that by (intro step_fails_within [where K = ?K2 and n = "Suc (Suc (4 * length ids + n))"] p2)
      (auto simp: sql_delete_recipe_categories_def)
  from Cons.prems have j: "j < Suc (Suc (Suc (Suc (4 * length ids + n))))"
    by simp
  show ?case
    unfolding unfold using j Cons.prems(2,3)
    by (intro step_fails_within [where K = ?K1 and n = "Suc (Suc (Suc (4 * length ids + n)))"] p1)
      (auto simp: sql_delete_steps_def)
qed


lemma cascade_fails_within:
  assumes j: "j < 4 * length ids + 6" and sched: "faults w = replicate j False @ True # fs"
    and snap: "pinned t0 w"
  shows "\<exists>w'. and_then (delete_recipe_data ids)
       (\<lambda>_. and_then
          (db_query ''DELETE FROM recipes WHERE user_id = ?'' (sql_delete_recipes_of_user uid))
       (\<lambda>_. and_then
          (db_query ''DELETE FROM ratings WHERE user_id = ?'' (sql_delete_ratings_of_user uid))
       (\<lambda>_. and_then
          (db_query ''DELETE FROM reviews WHERE user_id = ?'' (sql_delete_reviews_of_user uid))
       (\<lambda>_. and_then
          (db_query ''DELETE FROM notifications WHERE user_id = ?''
             (sql_delete_notifications_of_user uid))
       (\<lambda>_. and_then (db_query ''DELETE FROM users WHERE id = ?'' (sql_delete_user uid))
       (\<lambda>_. and_then (db_control ''COMMIT'' commit)
       (\<lambda>_. and_then (db_query ''SELECT * FROM users ORDER BY id ASC'' sql_select_users)
       (\<lambda>users. case user of
          None \<Rightarrow> throw TypeError
        | Some usr \<Rightarrow>
            return_ok (Render ''admin_users'' title_users users
              (FlashMessage (msg_deleted_0 @ u_login usr @ msg_deleted_1))))))))))) w = (Inl DbError, w') \<and> faults w' = fs \<and> pinned t0 w'"
proof -
  let ?K6 = "\<lambda>_::unit. and_then (db_control ''COMMIT'' commit)
       (\<lambda>_. and_then (db_query ''SELECT * FROM users ORDER BY id ASC'' sql_select_users)
       (\<lambda>users. case user of
          None \<Rightarrow> throw TypeError
        | Some usr \<Rightarrow>
            return_ok (Render ''admin_users'' title_users users
              (FlashMessage (msg_deleted_0 @ u_login usr @ msg_deleted_1)))))"
  let ?K5 = "\<lambda>_::unit. and_then (db_query ''DELETE FROM users WHERE id = ?'' (sql_delete_user uid)) ?K6"
  let ?K4 = "\<lambda>_::unit. and_then (db_query ''DELETE FROM notifications WHERE user_id = ?''
             (sql_delete_notifications_of_user uid)) ?K5"
  let ?K3 = "\<lambda>_::unit. and_then
          (db_query ''DELETE FROM reviews WHERE user_id = ?'' (sql_delete_reviews_of_user uid)) ?K4"
  let ?K2 = "\<lambda>_::unit. and_then
          (db_query ''DELETE FROM ratings WHERE user_id = ?'' (sql_delete_ratings_of_user uid)) ?K3"
  let ?K1 = "\<lambda>_::unit. and_then
          (db_query ''DELETE FROM recipes WHERE user_id = ?'' (sql_delete_recipes_of_user uid)) ?K2"
  have p6: "\<exists>w'. ?K6 a w = (Inl DbError, w') \<and> faults w' = fs \<and> pinned t0 w'"
    if "j < 1" "faults w = replicate j False @ True # fs" "pinned t0 w" for a w j
    using that by (intro control_fails_first) simp_all
  have p5: "\<exists>w'. ?K5 a w = (Inl DbError, w') \<and> faults w' = fs \<and> pinned t0 w'"
    if "j < Suc 1" "faults w = replicate j False @ True # fs" "pinned t0 w" for a w j
    using that by (intro step_fails_within [where K = ?K6 and n = 1] p6)
      (auto simp: sql_delete_user_def)
  have p4: "\<exists>w'. ?K4 a w = (Inl DbError, w') \<and> faults w' = fs \<and> pinned t0 w'"
    if "j < Suc (Suc 1)" "faults w = replicate j False @ True # fs" "pinned t0 w" for a w j
    using that by (intro step_fails_within [where K = ?K5 and n = "Suc 1"] p5)
      (auto simp: sql_delete_notifications_of_user_def)
  have p3: "\<exists>w'. ?K3 a w = (Inl DbError, w') \<and> faults w' = fs \<and> pinned t0 w'"
    if "j < Suc (Suc (Suc 1))" "faults w = replicate j False @ True # fs" "pinned t0 w" for a w j
    using that by (intro step_fails_within [where K = ?K4 and n = "Suc (Suc 1)"] p4)
      (auto simp: sql_delete_reviews_of_user_def)
  have p2: "\<exists>w'. ?K2 a w = (Inl DbError, w') \<and> faults w' = fs \<and> pinned t0 w'"
    if "j < Suc (Suc (Suc (Suc 1)))" "faults w = replicate j False @ True # fs" "pinned t0 w" for a w j
    using that by (intro step_fails_within [where K = ?K3 and n = "Suc (Suc (Suc 1))"] p3)
      (auto simp: sql_delete_ratings_of_user_def)
  have p1: "\<exists>w'. ?K1 a w = (Inl DbError, w') \<and> faults w' = fs \<and> pinned t0 w'"
    if "j < 6" "faults w = replicate j False @ True # fs" "pinned t0 w" for a w j
    using that by (intro step_fails_within [where K = ?K2 and n = "Suc (Suc (Suc (Suc 1)))"] p2)
      (auto simp: sql_delete_recipes_of_user_def)
  show ?thesis
    using j sched snap by (intro loop_fails_within [where K = ?K1 and n = 6] p1) simp_all
qed

lemma rollback_part:
  assumes sched: "faults w' = False # fs" and one: "pool w' = []"
    and snap: "snapshots w' 0 = Some t0 \<or> (snapshots w' 0 = None \<and> tbl w' = t0)"
  shows
    "tbl (snd ((and_then (db_control ''ROLLBACK'' rollback)
        (\<lambda>_. and_then (console_error [] (Some err))
        (\<lambda>_. and_then (db_query ''SELECT * FROM users ORDER BY id ASC'' sql_select_users)
        (\<lambda>users. return_ok (Render ''admin_users'' title_users users
           (FlashError msg_delete_failed)))))) w')) = t0 \<and>
     snapshots (snd ((and_then (db_control ''ROLLBACK'' rollback)
        (\<lambda>_. and_then (console_error [] (Some err))
        (\<lambda>_. and_then (db_query ''SELECT * FROM users ORDER BY id ASC'' sql_select_users)
        (\<lambda>users. return_ok (Render ''admin_users'' title_users users
           (FlashError msg_delete_failed)))))) w')) 0 = None \<and>
     fst ((and_then (db_control ''ROLLBACK'' rollback)
        (\<lambda>_. and_then (console_error [] (Some err))
        (\<lambda>_. and_then (db_query ''SELECT * FROM users ORDER BY id ASC'' sql_select_users)
        (\<lambda>users. return_ok (Render ''admin_users'' title_users users
           (FlashError msg_delete_failed)))))) w') =
       (case fs of
          True # _ \<Rightarrow> Inl DbError
        | _ \<Rightarrow> Inr (Render ''admin_users'' title_users (sort_key u_id (users t0))
                   (FlashError msg_delete_failed)))"
  using assms
  by (auto simp: and_then_def db_control_def db_query_def console_error_def return_ok_def
      rollback_def sql_select_users_def next_fault_def call_defs next_conn_def others_see_def
      split: list.splits bool.splits)

text \<open>
  On one connection the handler keeps its promise. An administrator deletes another user,
  connection 0 answers every statement and has no transaction open, the first statement
  that fails is one of the statements from \<^verbatim>\<open>START TRANSACTION\<close> to \<^verbatim>\<open>COMMIT\<close>
  (with \<open>r\<close> recipes of the user these are \<open>9 + 4 r\<close> statements, every step of the
  cascade among them), and the \<^verbatim>\<open>ROLLBACK\<close> that follows succeeds. Then the tables
  are exactly as before the request and no transaction is left open on the connection; the
  view shows the users with the generic failure message (or, when the listing of the users
  fails in its turn, the request throws).
\<close>

lemma admin_delete_on_one_connection:
  assumes admin: "s_role a = ''admin''" and other: "s_id a \<noteq> uid"
    and one: "pool w = []" and idle: "snapshots w 0 = None"
    and k: "k < 9 + 4 * length (filter (\<lambda>r. r_user_id r = Some uid) (recipes (tbl w)))"
    and sched: "faults w = replicate k False @ True # False # fs"
  shows
    "tbl (snd (post_admin_users_delete (Some a) uid w)) = tbl w \<and>
     snapshots (snd (post_admin_users_delete (Some a) uid w)) 0 = None \<and>
     fst (post_admin_users_delete (Some a) uid w) =
       (case fs of
          True # _ \<Rightarrow> Inl DbError
        | _ \<Rightarrow> Inr (Render ''admin_users'' title_users (sort_key u_id (users (tbl w)))
                   (FlashError msg_delete_failed)))"
proof -
  let ?ids = "map r_id (filter (\<lambda>r. r_user_id r = Some uid) (recipes (tbl w)))"
  let ?tail = "\<lambda>user ids. and_then (delete_recipe_data ids)
       (\<lambda>_. and_then
          (db_query ''DELETE FROM recipes WHERE user_id = ?'' (sql_delete_recipes_of_user uid))
       (\<lambda>_. and_then
          (db_query ''DELETE FROM ratings WHERE user_id = ?'' (sql_delete_ratings_of_user uid))
       (\<lambda>_. and_then
          (db_query ''DELETE FROM reviews WHERE user_id = ?'' (sql_delete_reviews_of_user uid))
       (\<lambda>_. and_then
          (db_query ''DELETE FROM notifications WHERE user_id = ?''
             (sql_delete_notifications_of_user uid))
       (\<lambda>_. and_then (db_query ''DELETE FROM users WHERE id = ?'' (sql_delete_user uid))
       (\<lambda>_. and_then (db_control ''COMMIT'' commit)
       (\<lambda>_. and_then (db_query ''SELECT * FROM users ORDER BY id ASC'' sql_select_users)
       (\<lambda>users. case user of
          None \<Rightarrow> throw TypeError
        | Some usr \<Rightarrow>
            return_ok (Render ''admin_users'' title_users users
              (FlashMessage (msg_deleted_0 @ u_login usr @ msg_deleted_1)))))))))))"
  let ?body = "and_then (db_control ''START TRANSACTION'' start_transaction)
     (\<lambda>_. and_then (db_query ''SELECT login FROM users WHERE id = ?'' (sql_select_user uid))
     (\<lambda>user. and_then
        (db_query ''SELECT id FROM recipes WHERE user_id = ?'' (sql_select_recipe_ids uid))
     (\<lambda>userRecipes. ?tail user userRecipes)))"
  let ?handler = "\<lambda>err. and_then (db_control ''ROLLBACK'' rollback)
        (\<lambda>_. and_then (console_error [] (Some err))
        (\<lambda>_. and_then (db_query ''SELECT * FROM users ORDER BY id ASC'' sql_select_users)
        (\<lambda>users. return_ok (Render ''admin_users'' title_users users
           (FlashError msg_delete_failed)))))"
  have unfold: "post_admin_users_delete (Some a) uid w = try_catch ?body ?handler w"
    using admin other by (simp add: post_admin_users_delete_def requireAdmin_def)
  have body: "\<exists>w'. ?body w = (Inl DbError, w') \<and> faults w' = False # fs \<and> pool w' = [] \<and>
     (snapshots w' 0 = Some (tbl w) \<or> (snapshots w' 0 = None \<and> tbl w' = tbl w))"
  proof (cases k)
    case 0
    with sched idle one show ?thesis
      by (simp add: and_then_def db_control_def next_fault_def call_defs)
  next
    case (Suc k1)
    let ?w1 = "emit (Sql ''START TRANSACTION'' True)
       ((consume_call w)\<lparr>tbl := tbl w, snapshots := (snapshots w)(0 := Some (tbl w))\<rparr>)"
    have nf: "\<not> next_fault w"
      using sched Suc by (simp add: next_fault_def)
    have start: "db_control ''START TRANSACTION'' start_transaction w = (Inr (), ?w1)"
      using nf one by (simp add: db_control_def start_transaction_def next_conn_def)
    have w1: "faults ?w1 = replicate k1 False @ True # False # fs" "pinned (tbl w) ?w1"
      "tbl ?w1 = tbl w"
      using sched Suc one by (simp_all add: pinned_def call_defs)
    show ?thesis
    proof (cases k1)
      case 0
      with w1 have "next_fault ?w1" by (simp add: next_fault_def)
      then have "?body w = (Inl DbError, refused ''SELECT login FROM users WHERE id = ?'' ?w1)"
        by (simp add: and_then_def start db_query_fault)
      moreover have "faults (refused ''SELECT login FROM users WHERE id = ?'' ?w1) = False # fs"
        using sched Suc 0 by (simp add: call_defs)
      moreover have "pinned (tbl w) (refused ''SELECT login FROM users WHERE id = ?'' ?w1)"
        using w1(2) by (simp add: pinned_def call_defs)
      ultimately show ?thesis
        unfolding pinned_def by blast
    next
      case (Suc k2)
      let ?user = "find (\<lambda>u. u_id u = uid) (users (tbl w))"
      let ?w2 = "answered ''SELECT login FROM users WHERE id = ?'' (sql_select_user uid) (tbl w) ?w1"
      have nf1: "\<not> next_fault ?w1"
        using w1(1) Suc by (simp add: next_fault_def)
      have login: "db_query ''SELECT login FROM users WHERE id = ?'' (sql_select_user uid) ?w1 =
          (Inr ?user, ?w2)"
        using nf1 w1(3) by (simp add: db_query_def sql_select_user_def)
      have w2: "faults ?w2 = replicate k2 False @ True # False # fs" "pinned (tbl w) ?w2"
        "tbl ?w2 = tbl w"
        using sched \<open>k = Suc k1\<close> Suc one
        by (simp_all add: pinned_def call_defs others_see_def next_conn_def)
      show ?thesis
      proof (cases k2)
        case 0
        with w2 have "next_fault ?w2" by (simp add: next_fault_def)
        then have "?body w = (Inl DbError,
            refused ''SELECT id FROM recipes WHERE user_id = ?'' ?w2)"
          by (simp add: and_then_def start login db_query_fault)
        moreover have "faults (refused ''SELECT id FROM recipes WHERE user_id = ?'' ?w2) = False # fs"
          using sched \<open>k = Suc k1\<close> \<open>k1 = Suc k2\<close> 0 by (simp add: call_defs)
        moreover have "pinned (tbl w) (refused ''SELECT id FROM recipes WHERE user_id = ?'' ?w2)"
          using w2(2) by (simp add: pinned_def call_defs)
        ultimately show ?thesis
          unfolding pinned_def by blast
      next
        case (Suc k3)
        let ?w3 = "answered ''SELECT id FROM recipes WHERE user_id = ?'' (sql_select_recipe_ids uid)
           (tbl w) ?w2"
        have nf2: "\<not> next_fault ?w2"
          using w2(1) Suc by (simp add: next_fault_def)
        have ids: "db_query ''SELECT id FROM recipes WHERE user_id = ?'' (sql_select_recipe_ids uid) ?w2 =
            (Inr ?ids, ?w3)"
          using nf2 w2(3) by (simp add: db_query_def sql_select_recipe_ids_def)
        have w3: "faults ?w3 = replicate k3 False @ True # False # fs" "pinned (tbl w) ?w3"
          using sched \<open>k = Suc k1\<close> \<open>k1 = Suc k2\<close> Suc one
          by (simp_all add: pinned_def call_defs others_see_def next_conn_def)
        have k3: "k3 < 4 * length ?ids + 6"
          using k \<open>k = Suc k1\<close> \<open>k1 = Suc k2\<close> Suc by simp
        have run: "?body w = ?tail ?user ?ids ?w3"
          by (simp add: and_then_def start login ids)
        from cascade_fails_within [OF k3 w3(1) w3(2), of uid ?user]
        obtain w' where "?tail ?user ?ids ?w3 = (Inl DbError, w')" "faults w' = False # fs"
          "pinned (tbl w) w'"
          by blast
        with run show ?thesis
          unfolding pinned_def by simp
      qed
    qed
  qed
  then obtain w' where run: "?body w = (Inl DbError, w')" and f: "faults w' = False # fs"
    and p: "pool w' = []"
    and s: "snapshots w' 0 = Some (tbl w) \<or> (snapshots w' 0 = None \<and> tbl w' = tbl w)"
    by blast
  have catch: "try_catch ?body ?handler w = ?handler DbError w'"
    by (simp add: try_catch_def run)
  show ?thesis
    unfolding unfold catch using rollback_part [OF f p s, of DbError] .
qed

text \<open>
  In the concrete world user 2 has one recipe. Without a fault, and on one connection, the
  request deletes user 2 with the recipe, its steps, category link, rating and review, and
  the notifications of user 2.
\<close>

lemma admin_delete_commits:
  "tbl (snd (post_admin_users_delete
      (Some \<lparr>s_id = 1, s_name = ''Root'', s_email = JStr ''root@example.org'', s_role = ''admin''\<rparr>) 2
      demo_world)) =
     \<lparr>users =
        [\<lparr>u_id = 1, u_login = ''root'', u_name = ''Root'', u_email = JStr ''root@example.org'',
          u_role = ''admin''\<rparr>,
         \<lparr>u_id = 3, u_login = ''alice'', u_name = ''Alice'', u_email = JNull, u_role = ''user''\<rparr>],
      recipes = [], recipe_steps = [], recipe_categories = [], ratings = [], reviews = [],
      notifications =
        [\<lparr>n_id = 3, n_user_id = 3, n_text = ''third'', n_link = None, is_read = False,
          created_at = 20\<rparr>],
      next_notification_id = 4\<rparr>"
  by code_simp

text \<open>
  On one connection, when the sixth statement (the deletion of the ratings of that
  recipe) fails, the tables are as before.
\<close>

lemma admin_delete_rolls_back_on_one_connection:
  "tbl (snd (post_admin_users_delete
      (Some \<lparr>s_id = 1, s_name = ''Root'', s_email = JStr ''root@example.org'', s_role = ''admin''\<rparr>) 2
      (demo_world\<lparr>faults := replicate 5 False @ [True, False]\<rparr>))) = demo_tables \<and>
   fst (post_admin_users_delete
      (Some \<lparr>s_id = 1, s_name = ''Root'', s_email = JStr ''root@example.org'', s_role = ''admin''\<rparr>) 2
      (demo_world\<lparr>faults := replicate 5 False @ [True, False]\<rparr>)) =
     Inr (Render ''admin_users'' title_users (sort_key u_id (users demo_tables))
            (FlashError msg_delete_failed))"
proof -
  let ?root = "\<lparr>s_id = 1, s_name = ''Root'', s_email = JStr ''root@example.org'', s_role = ''admin''\<rparr>"
  let ?w = "demo_world\<lparr>faults := replicate 5 False @ [True, False]\<rparr>"
  have admin: "s_role ?root = ''admin''" and other: "s_id ?root \<noteq> 2"
    by simp_all
  have one: "pool ?w = []" and idle: "snapshots ?w 0 = None"
    by (simp_all add: demo_world_def)
  have k: "5 < 9 + 4 * length (filter (\<lambda>r. r_user_id r = Some 2) (recipes (tbl ?w)))"
    by (simp add: demo_world_def demo_tables_def)
  have sched: "faults ?w = replicate 5 False @ True # False # []"
    by simp
  have t: "tbl ?w = demo_tables"
    by (simp add: demo_world_def)
  from admin_delete_on_one_connection [OF admin other one idle k sched] show ?thesis
    unfolding t by simp
qed

text \<open>
  The failure message alone does not mean that nothing was deleted, even on one
  connection. When the listing of the users after \<^verbatim>\<open>COMMIT\<close> fails (the fourteenth
  statement here), the \<^verbatim>\<open>ROLLBACK\<close> of the handler finds no transaction, the view
  shows the failure message, and the user is deleted.
\<close>

lemma admin_delete_failure_after_commit:
  "fst (post_admin_users_delete
      (Some \<lparr>s_id = 1, s_name = ''Root'', s_email = JStr ''root@example.org'', s_role = ''admin''\<rparr>) 2
      (demo_world\<lparr>faults := replicate 13 False @ [True]\<rparr>)) =
     Inr (Render ''admin_users'' title_users
       [\<lparr>u_id = 1, u_login = ''root'', u_name = ''Root'', u_email = JStr ''root@example.org'',
          u_role = ''admin''\<rparr>,
        \<lparr>u_id = 3, u_login = ''alice'', u_name = ''Alice'', u_email = JNull, u_role = ''user''\<rparr>]
       (FlashError msg_delete_failed)) \<and>
   recipes (tbl (snd (post_admin_users_delete
      (Some \<lparr>s_id = 1, s_name = ''Root'', s_email = JStr ''root@example.org'', s_role = ''admin''\<rparr>) 2
      (demo_world\<lparr>faults := replicate 13 False @ [True]\<rparr>)))) = []"
  by code_simp

text \<open>
  C1. The deletion is not all-or-nothing. \<^verbatim>\<open>db\<close> is a connection pool (line 88), and
  the handler sends \<^verbatim>\<open>START TRANSACTION\<close>, every \<^verbatim>\<open>DELETE\<close>, \<^verbatim>\<open>COMMIT\<close> and
  \<^verbatim>\<open>ROLLBACK\<close> through \<^verbatim>\<open>db.query\<close> of the pool (lines 1187 to 1233); it never takes
  a connection of its own, so the statements of one request need not meet on one
  connection. In the concrete world the administrator (user 1) deletes user 2, connection
  1 answers \<^verbatim>\<open>START TRANSACTION\<close>, connection 0 answers every later statement, and
  the sixth statement (the deletion of the ratings of recipe 42) fails. The two deletions
  before it were final when they were answered; the \<^verbatim>\<open>ROLLBACK\<close> of the handler
  finds no transaction on its connection. The view shows all three users with the generic
  failure message, and the two steps and the category link of recipe 42 are gone: the
  row counts of these tables are not what they were before the failed attempt.
\<close>

theorem admin_delete_partial_on_pool:
  "fst (post_admin_users_delete
      (Some \<lparr>s_id = 1, s_name = ''Root'', s_email = JStr ''root@example.org'', s_role = ''admin''\<rparr>) 2
      (demo_world\<lparr>pool := [1], faults := replicate 5 False @ [True]\<rparr>)) =
     Inr (Render ''admin_users'' title_users (users demo_tables) (FlashError msg_delete_failed)) \<and>
   tbl (snd (post_admin_users_delete
      (Some \<lparr>s_id = 1, s_name = ''Root'', s_email = JStr ''root@example.org'', s_role = ''admin''\<rparr>) 2
      (demo_world\<lparr>pool := [1], faults := replicate 5 False @ [True]\<rparr>))) =
     demo_tables\<lparr>recipe_steps := [], recipe_categories := []\<rparr> \<and>
   length (recipe_steps (tbl (demo_world\<lparr>pool := [1], faults := replicate 5 False @ [True]\<rparr>))) = 2 \<and>
   length (recipe_categories (tbl (demo_world\<lparr>pool := [1], faults := replicate 5 False @ [True]\<rparr>))) = 1 \<and>
   trace (snd (post_admin_users_delete
      (Some \<lparr>s_id = 1, s_name = ''Root'', s_email = JStr ''root@example.org'', s_role = ''admin''\<rparr>) 2
      (demo_world\<lparr>pool := [1], faults := replicate 5 False @ [True]\<rparr>))) =
     [Sql ''START TRANSACTION'' True,
      Sql ''SELECT login FROM users WHERE id = ?'' True,
      Sql ''SELECT id FROM recipes WHERE user_id = ?'' True,
      Sql ''DELETE FROM recipe_steps WHERE recipe_id = ?'' True,
      Sql ''DELETE FROM recipe_categories WHERE recipe_id = ?'' True,
      Sql ''DELETE FROM ratings WHERE recipe_id = ?'' False,
      Sql ''ROLLBACK'' True,
      ConsoleError [] (Some DbError),
      Sql ''SELECT * FROM users ORDER BY id ASC'' True]"
  by code_simp

end
